theory Spec2Isabelle
  imports Main "HOL-Library.Sublist"
begin

section \<open>JavaScript values and objects\<close>

text \<open>
  The repository layer \<^verbatim>\<open>DatabaseService\<close> keeps plain JavaScript objects in arrays and
  builds them with object spread. A field value is one of the primitives or a \<^verbatim>\<open>Date\<close>
  stamp made by the store. Numbers are the integers: the store's numbers are sequence
  numbers and counters, far below \<open>2^53\<close>, where JavaScript's numbers are exact. A
  \<^verbatim>\<open>Date\<close> is its epoch milliseconds. An object is a map from property names to values; the
  spread \<^verbatim>\<open>{...a, ...b}\<close> is \<open>a ++ b\<close>, where \<open>b\<close> wins, and a property written in the literal
  after a spread is a map update. The callers pass objects as data and updates, as the
  pages and hooks of the repository do.
\<close>

datatype jsval = JUndefined | JNull | JBool bool | JNum int | JStr string | JDate nat

type_synonym jsobj = "string \<rightharpoonup> jsval"

text \<open>Reading a property: a missing property reads as \<^verbatim>\<open>undefined\<close>.\<close>

definition fld :: "jsobj \<Rightarrow> string \<Rightarrow> jsval" where
  "fld obj k = (case obj k of None \<Rightarrow> JUndefined | Some v \<Rightarrow> v)"

text \<open>
  The operator \<^verbatim>\<open>===\<close>: primitives are compared by type and value; a \<^verbatim>\<open>Date\<close> is an
  object and is equal only to itself, and every stamp of the store is an object of its
  own, so two stamps never compare equal.
\<close>

fun strict_eq :: "jsval \<Rightarrow> jsval \<Rightarrow> bool" where
  "strict_eq JUndefined JUndefined = True"
| "strict_eq JNull JNull = True"
| "strict_eq (JBool a) (JBool b) = (a = b)"
| "strict_eq (JNum a) (JNum b) = (a = b)"
| "strict_eq (JStr a) (JStr b) = (a = b)"
| "strict_eq _ _ = False"

text \<open>Truthiness, and \<^verbatim>\<open>a || b\<close> on values.\<close>

fun truthy :: "jsval \<Rightarrow> bool" where
  "truthy JUndefined = False"
| "truthy JNull = False"
| "truthy (JBool b) = b"
| "truthy (JNum n) = (n \<noteq> 0)"
| "truthy (JStr s) = (s \<noteq> [])"
| "truthy (JDate t) = True"

definition js_or :: "jsval \<Rightarrow> jsval \<Rightarrow> jsval" where
  "js_or a b = (if truthy a then a else b)"

text \<open>Decimal rendering of a number, as \<^verbatim>\<open>String(n)\<close> and a template literal give it.\<close>

definition digit_char :: "nat \<Rightarrow> char" where
  "digit_char d = ''0123456789'' ! d"

function string_of_nat :: "nat \<Rightarrow> string" where
  "string_of_nat n =
     (if n < 10 then [digit_char n]
      else string_of_nat (n div 10) @ [digit_char (n mod 10)])"
  by pat_completeness auto
termination
  by (relation "measure id") auto

declare string_of_nat.simps [simp del]

definition string_of_int :: "int \<Rightarrow> string" where
  "string_of_int i = (if i < 0 then ''-'' @ string_of_nat (nat (- i)) else string_of_nat (nat i))"

text \<open>
  \<^verbatim>\<open>String(v)\<close>. The text of a \<^verbatim>\<open>Date\<close> depends on the host's time zone and is not
  reproduced: the model keeps the epoch milliseconds between brackets.
\<close>

fun js_String :: "jsval \<Rightarrow> string" where
  "js_String JUndefined = ''undefined''"
| "js_String JNull = ''null''"
| "js_String (JBool b) = (if b then ''true'' else ''false'')"
| "js_String (JNum n) = string_of_int n"
| "js_String (JStr s) = s"
| "js_String (JDate t) = ''[Date '' @ string_of_nat t @ '']''"

text \<open>
  \<^verbatim>\<open>s.toLowerCase()\<close> on the ASCII letters (other characters are kept), and
  \<^verbatim>\<open>s.includes(t)\<close>: \<open>t\<close> occurs in \<open>s\<close> as a contiguous piece.
\<close>

definition toLowerChar :: "char \<Rightarrow> char" where
  "toLowerChar c =
     (case map_of (zip ''ABCDEFGHIJKLMNOPQRSTUVWXYZ'' ''abcdefghijklmnopqrstuvwxyz'') c of
        None \<Rightarrow> c
      | Some l \<Rightarrow> l)"

definition toLowerCase :: "string \<Rightarrow> string" where
  "toLowerCase s = map toLowerChar s"

fun str_includes :: "string \<Rightarrow> string \<Rightarrow> bool" where
  "str_includes [] t = (t = [])"
| "str_includes (c # s) t = (prefix t (c # s) \<or> str_includes s t)"

text \<open>\<^verbatim>\<open>Array.prototype.findIndex\<close> (\<open>None\<close> for \<open>-1\<close>) and \<^verbatim>\<open>splice(i, 1)\<close>.\<close>

fun findIndex :: "('a \<Rightarrow> bool) \<Rightarrow> 'a list \<Rightarrow> nat option" where
  "findIndex P [] = None"
| "findIndex P (x # xs) = (if P x then Some 0 else map_option Suc (findIndex P xs))"

definition splice1 :: "nat \<Rightarrow> 'a list \<Rightarrow> 'a list" where
  "splice1 i xs = take i xs @ drop (Suc i) xs"

section \<open>The store\<close>

text \<open>
  Workflow templates exist only in the constructor's literal and no operation adds one or
  changes their shape, so they are a record with typed fields. All other entities are built
  by spreading caller data and stay untyped objects.
\<close>

record workflow =
  wf_id :: int
  name :: string
  description :: string
  category :: string
  steps :: int
  checklistItems :: int
  usageCount :: int

record audit_entry =
  ae_id :: int
  entityType :: string
  entityId :: string
  action :: string
  userId :: jsval
  timestamp :: nat

record db =
  patients :: "jsobj list"
  allergies :: "jsobj list"
  chronicConditions :: "jsobj list"
  clinicalNotes :: "jsobj list"
  workflows :: "workflow list"
  tasks :: "jsobj list"
  appointments :: "jsobj list"
  referrals :: "jsobj list"
  auditLog :: "audit_entry list"

text \<open>
  The result of a call. \<open>Resolve v\<close> is \<^verbatim>\<open>Promise.resolve(v)\<close>, \<open>Reject m\<close> is
  \<^verbatim>\<open>Promise.reject(new Error(m))\<close>, and \<open>ThrowTypeError\<close> is a \<^verbatim>\<open>TypeError\<close> raised while
  the call still runs, before any promise is made. Every operation returns its result
  together with the store it leaves behind. The readings of the clock
  (\<^verbatim>\<open>Date.now()\<close>, \<^verbatim>\<open>new Date()\<close>) are arguments, one for each place the source reads it.
\<close>

datatype 'a outcome = Resolve 'a | Reject string | ThrowTypeError

datatype ack = Success

definition has_id :: "jsval \<Rightarrow> jsobj \<Rightarrow> bool" where
  "has_id i r = strict_eq (fld r ''id'') i"

definition refers_to :: "jsval \<Rightarrow> jsobj \<Rightarrow> bool" where
  "refers_to i r = strict_eq (fld r ''patientId'') i"

subsection \<open>Audit log\<close>

definition logAudit :: "db \<Rightarrow> nat \<Rightarrow> string \<Rightarrow> jsval \<Rightarrow> string \<Rightarrow> jsval \<Rightarrow> db" where
  "logAudit s t etype eid act uid =
     (let logEntry = \<lparr> ae_id = int (length (auditLog s)) + 1,
                        entityType = etype,
                        entityId = js_String eid,
                        action = act,
                        userId = uid,
                        timestamp = t \<rparr>
      in s\<lparr> auditLog := auditLog s @ [logEntry] \<rparr>)"

subsection \<open>Patient operations\<close>

text \<open>
  \<^verbatim>\<open>getPatientById\<close> answers with the patient's own properties and six array-valued
  properties laid over them; a property of the answer is a plain value or an array of
  records.
\<close>

datatype jsprop = Plain jsval | Arr "jsobj list"

definition getPatientById :: "db \<Rightarrow> jsval \<Rightarrow> (string \<rightharpoonup> jsprop) outcome \<times> db" where
  "getPatientById s patientId =
     (case find (has_id patientId) (patients s) of
        None \<Rightarrow> (Reject ''Patient not found'', s)
      | Some patient \<Rightarrow>
          (Resolve ((map_option Plain \<circ> patient)
             (''allergies'' \<mapsto> Arr (filter (refers_to patientId) (allergies s)),
              ''chronicConditions'' \<mapsto> Arr (filter (refers_to patientId) (chronicConditions s)),
              ''clinicalNotes'' \<mapsto> Arr (filter (refers_to patientId) (clinicalNotes s)),
              ''tasks'' \<mapsto> Arr (filter (refers_to patientId) (tasks s)),
              ''appointments'' \<mapsto> Arr (filter (refers_to patientId) (appointments s)),
              ''referrals'' \<mapsto> Arr (filter (refers_to patientId) (referrals s)))), s))"

definition createPatient :: "db \<Rightarrow> nat \<Rightarrow> nat \<Rightarrow> nat \<Rightarrow> nat \<Rightarrow> jsobj \<Rightarrow> jsobj outcome \<times> db" where
  "createPatient s t_id t_created t_updated t_audit patientData =
     (let newPatient = ([''id'' \<mapsto> JStr (''P'' @ string_of_nat t_id)] ++ patientData)
                         (''status'' \<mapsto> JStr ''active'',
                          ''createdAt'' \<mapsto> JDate t_created,
                          ''updatedAt'' \<mapsto> JDate t_updated);
          s1 = s\<lparr> patients := patients s @ [newPatient] \<rparr>;
          s2 = logAudit s1 t_audit ''Patient'' (fld newPatient ''id'') ''CREATE'' (JStr ''system'')
      in (Resolve newPatient, s2))"

definition updatePatient :: "db \<Rightarrow> nat \<Rightarrow> nat \<Rightarrow> jsval \<Rightarrow> jsobj \<Rightarrow> jsobj outcome \<times> db" where
  "updatePatient s t_updated t_audit patientId updates =
     (case findIndex (has_id patientId) (patients s) of
        None \<Rightarrow> (Reject ''Patient not found'', s)
      | Some index \<Rightarrow>
          (let s1 = s\<lparr> patients := (patients s)
                        [index := (patients s ! index ++ updates)(''updatedAt'' \<mapsto> JDate t_updated)] \<rparr>;
               s2 = logAudit s1 t_audit ''Patient'' patientId ''UPDATE'' (JStr ''system'')
           in (Resolve (patients s2 ! index), s2)))"

definition deletePatient :: "db \<Rightarrow> nat \<Rightarrow> jsval \<Rightarrow> ack outcome \<times> db" where
  "deletePatient s t_audit patientId =
     (case findIndex (has_id patientId) (patients s) of
        None \<Rightarrow> (Reject ''Patient not found'', s)
      | Some index \<Rightarrow>
          (let s1 = s\<lparr> patients := splice1 index (patients s) \<rparr>;
               s2 = s1\<lparr> allergies := filter (\<lambda>a. \<not> refers_to patientId a) (allergies s1) \<rparr>;
               s3 = s2\<lparr> chronicConditions := filter (\<lambda>c. \<not> refers_to patientId c) (chronicConditions s2) \<rparr>;
               s4 = s3\<lparr> clinicalNotes := filter (\<lambda>n. \<not> refers_to patientId n) (clinicalNotes s3) \<rparr>;
               s5 = s4\<lparr> tasks := filter (\<lambda>t. \<not> refers_to patientId t) (tasks s4) \<rparr>;
               s6 = s5\<lparr> appointments := filter (\<lambda>a. \<not> refers_to patientId a) (appointments s5) \<rparr>;
               s7 = s6\<lparr> referrals := filter (\<lambda>r. \<not> refers_to patientId r) (referrals s6) \<rparr>;
               s8 = logAudit s7 t_audit ''Patient'' patientId ''DELETE'' (JStr ''system'')
           in (Resolve Success, s8)))"

subsection \<open>Clinical notes\<close>

definition getClinicalNotesByPatient :: "db \<Rightarrow> jsval \<Rightarrow> jsobj list outcome \<times> db" where
  "getClinicalNotesByPatient s patientId =
     (Resolve (filter (refers_to patientId) (clinicalNotes s)), s)"

definition createClinicalNote :: "db \<Rightarrow> nat \<Rightarrow> nat \<Rightarrow> nat \<Rightarrow> jsobj \<Rightarrow> jsobj outcome \<times> db" where
  "createClinicalNote s t_created t_updated t_audit noteData =
     (let newNote = ([''id'' \<mapsto> JNum (int (length (clinicalNotes s)) + 1)] ++ noteData)
                      (''status'' \<mapsto> js_or (fld noteData ''status'') (JStr ''draft''),
                       ''createdAt'' \<mapsto> JDate t_created,
                       ''updatedAt'' \<mapsto> JDate t_updated);
          s1 = s\<lparr> clinicalNotes := clinicalNotes s @ [newNote] \<rparr>;
          s2 = logAudit s1 t_audit ''ClinicalNote'' (fld newNote ''id'') ''CREATE''
                 (js_or (fld noteData ''createdBy'') (JStr ''system''))
      in (Resolve newNote, s2))"

definition updateClinicalNote :: "db \<Rightarrow> nat \<Rightarrow> nat \<Rightarrow> jsval \<Rightarrow> jsobj \<Rightarrow> jsobj outcome \<times> db" where
  "updateClinicalNote s t_updated t_audit noteId updates =
     (case findIndex (has_id noteId) (clinicalNotes s) of
        None \<Rightarrow> (Reject ''Clinical note not found'', s)
      | Some index \<Rightarrow>
          (let s1 = s\<lparr> clinicalNotes := (clinicalNotes s)
                        [index := (clinicalNotes s ! index ++ updates)(''updatedAt'' \<mapsto> JDate t_updated)] \<rparr>;
               s2 = logAudit s1 t_audit ''ClinicalNote'' noteId ''UPDATE'' (JStr ''system'')
           in (Resolve (clinicalNotes s2 ! index), s2)))"

subsection \<open>Allergies and chronic conditions\<close>

definition getAllergiesByPatient :: "db \<Rightarrow> jsval \<Rightarrow> jsobj list outcome \<times> db" where
  "getAllergiesByPatient s patientId = (Resolve (filter (refers_to patientId) (allergies s)), s)"

definition addAllergy :: "db \<Rightarrow> nat \<Rightarrow> jsobj \<Rightarrow> jsobj outcome \<times> db" where
  "addAllergy s t_audit allergyData =
     (let newAllergy = ([''id'' \<mapsto> JNum (int (length (allergies s)) + 1)] ++ allergyData)
                         (''status'' \<mapsto> JStr ''active'');
          s1 = s\<lparr> allergies := allergies s @ [newAllergy] \<rparr>;
          s2 = logAudit s1 t_audit ''Allergy'' (fld newAllergy ''id'') ''CREATE'' (JStr ''system'')
      in (Resolve newAllergy, s2))"

definition removeAllergy :: "db \<Rightarrow> nat \<Rightarrow> jsval \<Rightarrow> ack outcome \<times> db" where
  "removeAllergy s t_audit allergyId =
     (case findIndex (has_id allergyId) (allergies s) of
        None \<Rightarrow> (Reject ''Allergy not found'', s)
      | Some index \<Rightarrow>
          (let s1 = s\<lparr> allergies := splice1 index (allergies s) \<rparr>;
               s2 = logAudit s1 t_audit ''Allergy'' allergyId ''DELETE'' (JStr ''system'')
           in (Resolve Success, s2)))"

definition getChronicConditionsByPatient :: "db \<Rightarrow> jsval \<Rightarrow> jsobj list outcome \<times> db" where
  "getChronicConditionsByPatient s patientId =
     (Resolve (filter (refers_to patientId) (chronicConditions s)), s)"

definition addChronicCondition :: "db \<Rightarrow> nat \<Rightarrow> jsobj \<Rightarrow> jsobj outcome \<times> db" where
  "addChronicCondition s t_audit conditionData =
     (let newCondition = ([''id'' \<mapsto> JNum (int (length (chronicConditions s)) + 1)] ++ conditionData)
                           (''status'' \<mapsto> JStr ''active'');
          s1 = s\<lparr> chronicConditions := chronicConditions s @ [newCondition] \<rparr>;
          s2 = logAudit s1 t_audit ''ChronicCondition'' (fld newCondition ''id'') ''CREATE'' (JStr ''system'')
      in (Resolve newCondition, s2))"

subsection \<open>Workflows\<close>

definition wf_has_id :: "jsval \<Rightarrow> workflow \<Rightarrow> bool" where
  "wf_has_id i w = strict_eq (JNum (wf_id w)) i"

definition getWorkflowById :: "db \<Rightarrow> jsval \<Rightarrow> workflow outcome \<times> db" where
  "getWorkflowById s workflowId =
     (case find (wf_has_id workflowId) (workflows s) of
        None \<Rightarrow> (Reject ''Workflow not found'', s)
      | Some w \<Rightarrow> (Resolve w, s))"

text \<open>
  \<^verbatim>\<open>incrementWorkflowUsage\<close> finds the first workflow with the identifier and increments the
  counter of that very object, which the array holds: the array element at the position of
  the first match changes. The answer is the object found, or \<^verbatim>\<open>undefined\<close> (\<open>None\<close>).
\<close>

definition incrementWorkflowUsage :: "db \<Rightarrow> nat \<Rightarrow> jsval \<Rightarrow> workflow option outcome \<times> db" where
  "incrementWorkflowUsage s t_audit workflowId =
     (case findIndex (wf_has_id workflowId) (workflows s) of
        None \<Rightarrow> (Resolve None, s)
      | Some index \<Rightarrow>
          (let w = workflows s ! index;
               s1 = s\<lparr> workflows := (workflows s)[index := w\<lparr> usageCount := usageCount w + 1 \<rparr>] \<rparr>;
               s2 = logAudit s1 t_audit ''WorkflowTemplate'' workflowId ''UPDATE'' (JStr ''system'')
           in (Resolve (Some (workflows s2 ! index)), s2)))"

subsection \<open>Tasks, appointments, referrals\<close>

definition getTasksByPatient :: "db \<Rightarrow> jsval \<Rightarrow> jsobj list outcome \<times> db" where
  "getTasksByPatient s patientId = (Resolve (filter (refers_to patientId) (tasks s)), s)"

definition createTask :: "db \<Rightarrow> nat \<Rightarrow> nat \<Rightarrow> jsobj \<Rightarrow> jsobj outcome \<times> db" where
  "createTask s t_created t_audit taskData =
     (let newTask = ([''id'' \<mapsto> JNum (int (length (tasks s)) + 1)] ++ taskData)
                      (''status'' \<mapsto> js_or (fld taskData ''status'') (JStr ''pending''),
                       ''createdAt'' \<mapsto> JDate t_created);
          s1 = s\<lparr> tasks := tasks s @ [newTask] \<rparr>;
          s2 = logAudit s1 t_audit ''Task'' (fld newTask ''id'') ''CREATE''
                 (js_or (fld taskData ''createdBy'') (JStr ''system''))
      in (Resolve newTask, s2))"

definition updateTask :: "db \<Rightarrow> nat \<Rightarrow> nat \<Rightarrow> jsval \<Rightarrow> jsobj \<Rightarrow> jsobj outcome \<times> db" where
  "updateTask s t_completed t_audit taskId updates =
     (case findIndex (has_id taskId) (tasks s) of
        None \<Rightarrow> (Reject ''Task not found'', s)
      | Some index \<Rightarrow>
          (let s1 = s\<lparr> tasks := (tasks s)[index := tasks s ! index ++ updates] \<rparr>;
               s2 = (if strict_eq (fld updates ''status'') (JStr ''completed'')
                     then s1\<lparr> tasks := (tasks s1)
                            [index := (tasks s1 ! index)(''completedAt'' \<mapsto> JDate t_completed)] \<rparr>
                     else s1);
               s3 = logAudit s2 t_audit ''Task'' taskId ''UPDATE'' (JStr ''system'')
           in (Resolve (tasks s3 ! index), s3)))"

definition getAppointmentsByPatient :: "db \<Rightarrow> jsval \<Rightarrow> jsobj list outcome \<times> db" where
  "getAppointmentsByPatient s patientId =
     (Resolve (filter (refers_to patientId) (appointments s)), s)"

definition createAppointment :: "db \<Rightarrow> nat \<Rightarrow> nat \<Rightarrow> jsobj \<Rightarrow> jsobj outcome \<times> db" where
  "createAppointment s t_created t_audit appointmentData =
     (let newAppointment = ([''id'' \<mapsto> JNum (int (length (appointments s)) + 1)] ++ appointmentData)
                             (''status'' \<mapsto> js_or (fld appointmentData ''status'') (JStr ''scheduled''),
                              ''createdAt'' \<mapsto> JDate t_created);
          s1 = s\<lparr> appointments := appointments s @ [newAppointment] \<rparr>;
          s2 = logAudit s1 t_audit ''Appointment'' (fld newAppointment ''id'') ''CREATE'' (JStr ''system'')
      in (Resolve newAppointment, s2))"

definition getReferralsByPatient :: "db \<Rightarrow> jsval \<Rightarrow> jsobj list outcome \<times> db" where
  "getReferralsByPatient s patientId = (Resolve (filter (refers_to patientId) (referrals s)), s)"

definition createReferral :: "db \<Rightarrow> nat \<Rightarrow> nat \<Rightarrow> jsobj \<Rightarrow> jsobj outcome \<times> db" where
  "createReferral s t_created t_audit referralData =
     (let newReferral = ([''id'' \<mapsto> JNum (int (length (referrals s)) + 1)] ++ referralData)
                          (''status'' \<mapsto> js_or (fld referralData ''status'') (JStr ''pending''),
                           ''createdAt'' \<mapsto> JDate t_created);
          s1 = s\<lparr> referrals := referrals s @ [newReferral] \<rparr>;
          s2 = logAudit s1 t_audit ''Referral'' (fld newReferral ''id'') ''CREATE'' (JStr ''system'')
      in (Resolve newReferral, s2))"

subsection \<open>Search\<close>

text \<open>
  \<^verbatim>\<open>p.f.toLowerCase().includes(lowerQuery)\<close> raises a \<^verbatim>\<open>TypeError\<close> unless \<^verbatim>\<open>p.f\<close> is a
  string (\<open>None\<close>). The four tests are joined by \<^verbatim>\<open>||\<close>, which stops at the first one that
  is true, and \<^verbatim>\<open>filter\<close> visits the patients in order, so the first raise ends the call.

  \<^verbatim>\<open>String.prototype.toLowerCase\<close> follows the case tables of the JavaScript engine, which
  are no part of the repository: the search takes the lower-casing function as its first
  argument \<open>lc\<close>, and what is proved of it holds for every such function. The examples use
  \<open>toLowerCase\<close> above, which is the engine's function on ASCII text.
\<close>

definition field_includes :: "(string \<Rightarrow> string) \<Rightarrow> jsobj \<Rightarrow> string \<Rightarrow> string \<Rightarrow> bool option" where
  "field_includes lc p f lowerQuery =
     (case fld p f of JStr v \<Rightarrow> Some (str_includes (lc v) lowerQuery) | _ \<Rightarrow> None)"

definition or_else :: "bool option \<Rightarrow> bool option \<Rightarrow> bool option" where
  "or_else a b = (case a of None \<Rightarrow> None | Some True \<Rightarrow> Some True | Some False \<Rightarrow> b)"

definition search_test :: "(string \<Rightarrow> string) \<Rightarrow> string \<Rightarrow> jsobj \<Rightarrow> bool option" where
  "search_test lc lowerQuery p =
     or_else (or_else (or_else (field_includes lc p ''firstName'' lowerQuery)
                               (field_includes lc p ''lastName'' lowerQuery))
                      (field_includes lc p ''id'' lowerQuery))
             (field_includes lc p ''email'' lowerQuery)"

fun filter_raising :: "('a \<Rightarrow> bool option) \<Rightarrow> 'a list \<Rightarrow> 'a list option" where
  "filter_raising P [] = Some []"
| "filter_raising P (x # xs) =
     (case P x of
        None \<Rightarrow> None
      | Some b \<Rightarrow> (case filter_raising P xs of
                     None \<Rightarrow> None
                   | Some ys \<Rightarrow> Some (if b then x # ys else ys)))"

definition searchPatients :: "(string \<Rightarrow> string) \<Rightarrow> db \<Rightarrow> jsval \<Rightarrow> jsobj list outcome \<times> db" where
  "searchPatients lc s query =
     (case query of
        JStr q \<Rightarrow>
          (case filter_raising (search_test lc (lc q)) (patients s) of
             None \<Rightarrow> (ThrowTypeError, s)
           | Some results \<Rightarrow> (Resolve results, s))
      | _ \<Rightarrow> (ThrowTypeError, s))"

section \<open>The initial store and the reachable stores\<close>

text \<open>The store the constructor builds. The dates are midnight UTC of the day named.\<close>

definition init_db :: db where
  "init_db =
     \<lparr> patients =
         [ [''id'' \<mapsto> JStr ''P20250002'', ''firstName'' \<mapsto> JStr ''James'',
            ''lastName'' \<mapsto> JStr ''Martinez'', ''dateOfBirth'' \<mapsto> JStr ''1978-07-21'',
            ''gender'' \<mapsto> JStr ''Male'', ''bloodType'' \<mapsto> JStr ''A+'',
            ''phone'' \<mapsto> JStr ''(555) 234-5678'', ''email'' \<mapsto> JStr ''james.martinez@email.com'',
            ''emergencyContactName'' \<mapsto> JStr ''Maria Martinez'',
            ''emergencyContactPhone'' \<mapsto> JStr ''(555) 234-5679'',
            ''insuranceProvider'' \<mapsto> JStr ''Aetna'',
            ''insurancePolicyNumber'' \<mapsto> JStr ''AET987654321'',
            ''status'' \<mapsto> JStr ''active'', ''createdAt'' \<mapsto> JDate 1736208000000],
           [''id'' \<mapsto> JStr ''P20250003'', ''firstName'' \<mapsto> JStr ''Emily'',
            ''lastName'' \<mapsto> JStr ''Chen'', ''dateOfBirth'' \<mapsto> JStr ''1992-11-29'',
            ''gender'' \<mapsto> JStr ''Female'', ''bloodType'' \<mapsto> JStr ''O+'',
            ''phone'' \<mapsto> JStr ''(555) 345-6789'', ''email'' \<mapsto> JStr ''emily.chen@email.com'',
            ''emergencyContactName'' \<mapsto> JStr ''David Chen'',
            ''emergencyContactPhone'' \<mapsto> JStr ''(555) 345-6790'',
            ''insuranceProvider'' \<mapsto> JStr ''Blue Cross'',
            ''insurancePolicyNumber'' \<mapsto> JStr ''BC123456789'',
            ''status'' \<mapsto> JStr ''active'', ''createdAt'' \<mapsto> JDate 1735948800000],
           [''id'' \<mapsto> JStr ''P20250001'', ''firstName'' \<mapsto> JStr ''Sarah'',
            ''lastName'' \<mapsto> JStr ''Johnson'', ''dateOfBirth'' \<mapsto> JStr ''1985-03-14'',
            ''gender'' \<mapsto> JStr ''Female'', ''bloodType'' \<mapsto> JStr ''B+'',
            ''phone'' \<mapsto> JStr ''(555) 123-4567'', ''email'' \<mapsto> JStr ''sarah.johnson@email.com'',
            ''emergencyContactName'' \<mapsto> JStr ''Michael Johnson'',
            ''emergencyContactPhone'' \<mapsto> JStr ''(555) 123-4568'',
            ''insuranceProvider'' \<mapsto> JStr ''United Healthcare'',
            ''insurancePolicyNumber'' \<mapsto> JStr ''UHC987654321'',
            ''status'' \<mapsto> JStr ''active'', ''createdAt'' \<mapsto> JDate 1736380800000] ],
       allergies =
         [ [''id'' \<mapsto> JNum 1, ''patientId'' \<mapsto> JStr ''P20250002'', ''allergen'' \<mapsto> JStr ''Latex'',
            ''reaction'' \<mapsto> JStr ''Skin rash, itching'', ''severity'' \<mapsto> JStr ''moderate'',
            ''status'' \<mapsto> JStr ''active''],
           [''id'' \<mapsto> JNum 2, ''patientId'' \<mapsto> JStr ''P20250001'', ''allergen'' \<mapsto> JStr ''Penicillin'',
            ''reaction'' \<mapsto> JStr ''Hives, difficulty breathing'', ''severity'' \<mapsto> JStr ''severe'',
            ''status'' \<mapsto> JStr ''active''],
           [''id'' \<mapsto> JNum 3, ''patientId'' \<mapsto> JStr ''P20250001'', ''allergen'' \<mapsto> JStr ''Shellfish'',
            ''reaction'' \<mapsto> JStr ''Anaphylaxis'', ''severity'' \<mapsto> JStr ''life_threatening'',
            ''status'' \<mapsto> JStr ''active''] ],
       chronicConditions =
         [ [''id'' \<mapsto> JNum 1, ''patientId'' \<mapsto> JStr ''P20250002'',
            ''condition'' \<mapsto> JStr ''Type 2 Diabetes'', ''diagnosisDate'' \<mapsto> JStr ''2015-06-15'',
            ''status'' \<mapsto> JStr ''active''],
           [''id'' \<mapsto> JNum 2, ''patientId'' \<mapsto> JStr ''P20250002'',
            ''condition'' \<mapsto> JStr ''High Cholesterol'', ''diagnosisDate'' \<mapsto> JStr ''2018-03-22'',
            ''status'' \<mapsto> JStr ''active''] ],
       clinicalNotes = [],
       workflows =
         [ \<lparr> wf_id = 1, name = ''Emergency Department Triage'',
             description = ''Rapid assessment workflow for emergency department patients'',
             category = ''emergency'', steps = 4, checklistItems = 5, usageCount = 156 \<rparr>,
           \<lparr> wf_id = 2, name = ''Annual Physical Examination'',
             description = ''Standard workflow for routine annual health checkups'',
             category = ''examination'', steps = 5, checklistItems = 5, usageCount = 89 \<rparr>,
           \<lparr> wf_id = 3, name = ''New Patient Intake'',
             description = ''Comprehensive workflow for registering and onboarding new patients'',
             category = ''intake'', steps = 4, checklistItems = 5, usageCount = 45 \<rparr> ],
       tasks = [],
       appointments = [],
       referrals = [],
       auditLog = [] \<rparr>"

text \<open>
  A store is reachable when a run of calls of the operations that write leads to it from
  the initial store; the operations that only read leave the store as it is.
\<close>

inductive reachable :: "db \<Rightarrow> bool" where
  r_init: "reachable init_db"
| r_createPatient: "reachable s \<Longrightarrow> reachable (snd (createPatient s t0 t1 t2 t3 d))"
| r_updatePatient: "reachable s \<Longrightarrow> reachable (snd (updatePatient s t0 t1 i u))"
| r_deletePatient: "reachable s \<Longrightarrow> reachable (snd (deletePatient s t0 i))"
| r_createClinicalNote: "reachable s \<Longrightarrow> reachable (snd (createClinicalNote s t0 t1 t2 d))"
| r_updateClinicalNote: "reachable s \<Longrightarrow> reachable (snd (updateClinicalNote s t0 t1 i u))"
| r_addAllergy: "reachable s \<Longrightarrow> reachable (snd (addAllergy s t0 d))"
| r_removeAllergy: "reachable s \<Longrightarrow> reachable (snd (removeAllergy s t0 i))"
| r_addChronicCondition: "reachable s \<Longrightarrow> reachable (snd (addChronicCondition s t0 d))"
| r_incrementWorkflowUsage: "reachable s \<Longrightarrow> reachable (snd (incrementWorkflowUsage s t0 i))"
| r_createTask: "reachable s \<Longrightarrow> reachable (snd (createTask s t0 t1 d))"
| r_updateTask: "reachable s \<Longrightarrow> reachable (snd (updateTask s t0 t1 i u))"
| r_createAppointment: "reachable s \<Longrightarrow> reachable (snd (createAppointment s t0 t1 d))"
| r_createReferral: "reachable s \<Longrightarrow> reachable (snd (createReferral s t0 t1 d))"

section \<open>Notions used to state the properties\<close>

text \<open>The second store's audit log is the first one's with one entry more, of this action and entity.\<close>

definition audited :: "db \<Rightarrow> db \<Rightarrow> string \<Rightarrow> string \<Rightarrow> bool" where
  "audited s s' act eid =
     (length (auditLog s') = Suc (length (auditLog s)) \<and>
      butlast (auditLog s') = auditLog s \<and>
      action (last (auditLog s')) = act \<and>
      entityId (last (auditLog s')) = eid)"

text \<open>The records of a store that name a patient, over the six dependent sequences.\<close>

definition dependents :: "db \<Rightarrow> jsobj list" where
  "dependents s =
     allergies s @ chronicConditions s @ clinicalNotes s @ tasks s @ appointments s @ referrals s"

text \<open>The property names \<^verbatim>\<open>getPatientById\<close> lays over the patient's own.\<close>

definition overlay_names :: "string set" where
  "overlay_names = {''allergies'', ''chronicConditions'', ''clinicalNotes'', ''tasks'',
                    ''appointments'', ''referrals''}"

text \<open>The property names \<^verbatim>\<open>createPatient\<close> writes after the caller's data.\<close>

definition stamped_names :: "string set" where
  "stamped_names = {''status'', ''createdAt'', ''updatedAt''}"

text \<open>
  A search field that holds a string, and the search as the specification words it: the
  patients, in store order, one of whose four fields contains the query, letter case
  ignored.
\<close>

definition is_string :: "jsval \<Rightarrow> bool" where
  "is_string v = (case v of JStr _ \<Rightarrow> True | _ \<Rightarrow> False)"

definition searchable :: "jsobj \<Rightarrow> bool" where
  "searchable p = (is_string (fld p ''firstName'') \<and> is_string (fld p ''lastName'') \<and>
                   is_string (fld p ''id'') \<and> is_string (fld p ''email''))"

definition contains_ci :: "(string \<Rightarrow> string) \<Rightarrow> jsval \<Rightarrow> string \<Rightarrow> bool" where
  "contains_ci lc v q = (case v of JStr x \<Rightarrow> sublist (lc q) (lc x) | _ \<Rightarrow> False)"

definition search_spec :: "(string \<Rightarrow> string) \<Rightarrow> string \<Rightarrow> jsobj \<Rightarrow> bool" where
  "search_spec lc q p =
     (contains_ci lc (fld p ''firstName'') q \<or> contains_ci lc (fld p ''lastName'') q \<or>
      contains_ci lc (fld p ''id'') q \<or> contains_ci lc (fld p ''email'') q)"

text \<open>
  The test on a patient raises when, going through \<^verbatim>\<open>firstName\<close>, \<^verbatim>\<open>lastName\<close>, \<^verbatim>\<open>id\<close>
  and \<^verbatim>\<open>email\<close> in this order, it comes to a field that holds no string before it has come
  to a field that contains the query.
\<close>

definition search_raises :: "(string \<Rightarrow> string) \<Rightarrow> string \<Rightarrow> jsobj \<Rightarrow> bool" where
  "search_raises lc q p =
     (\<not> is_string (fld p ''firstName'') \<or>
      \<not> contains_ci lc (fld p ''firstName'') q \<and>
      (\<not> is_string (fld p ''lastName'') \<or>
       \<not> contains_ci lc (fld p ''lastName'') q \<and>
       (\<not> is_string (fld p ''id'') \<or>
        \<not> contains_ci lc (fld p ''id'') q \<and> \<not> is_string (fld p ''email''))))"

text \<open>
  An update keeps the identifier \<open>i\<close> of the record it is spread over: it has no \<^verbatim>\<open>id\<close>
  property, or one that is \<^verbatim>\<open>===\<close> to \<open>i\<close>.
\<close>

definition keeps_id :: "jsval \<Rightarrow> jsobj \<Rightarrow> bool" where
  "keeps_id i u = (case u ''id'' of None \<Rightarrow> True | Some v \<Rightarrow> strict_eq v i)"

text \<open>
  The record \<^verbatim>\<open>updateTask\<close> stores: the updates spread over the task, and a completion
  stamp when the updates set the status to \<^verbatim>\<open>'completed'\<close>.
\<close>

definition task_merge :: "jsobj \<Rightarrow> jsobj \<Rightarrow> nat \<Rightarrow> jsobj" where
  "task_merge r u tc =
     (if strict_eq (fld u ''status'') (JStr ''completed'')
      then (r ++ u)(''completedAt'' \<mapsto> JDate tc) else r ++ u)"

text \<open>
  Two sequences of records that differ at most in the record at one position, and there at
  most in the fields named.
\<close>

definition differ_only_at :: "nat \<Rightarrow> string set \<Rightarrow> jsobj list \<Rightarrow> jsobj list \<Rightarrow> bool" where
  "differ_only_at n K xs ys =
     (length xs = length ys \<and>
      (\<forall>j < length xs. if j = n then (\<forall>k. k \<notin> K \<longrightarrow> (xs ! j) k = (ys ! j) k)
                                 else xs ! j = ys ! j))"

section \<open>Stores used as examples\<close>

text \<open>
  Each of these stores is reached from the initial store by calls of the operations. The
  first two hold a clinical note, and a clinical note and a task, so that every entity kind
  with an update has a record.
\<close>

definition note_db :: db where
  "note_db = snd (createClinicalNote init_db 1 2 3
                    [''patientId'' \<mapsto> JStr ''P20250001'', ''content'' \<mapsto> JStr ''Stable''])"

definition sample_db :: db where
  "sample_db = snd (createTask note_db 4 5
                      [''title'' \<mapsto> JStr ''Follow up'', ''patientId'' \<mapsto> JStr ''P20250001''])"

text \<open>
  Two notes are written, for the patients \<^verbatim>\<open>P20250002\<close> and \<^verbatim>\<open>P20250001\<close>, and the first
  patient is deleted with its note: the one note left has the identifier 2. The store after
  that, and after a note for \<^verbatim>\<open>P20250003\<close> has then been created.
\<close>

definition gap_db :: db where
  "gap_db = snd (deletePatient
                   (snd (createClinicalNote
                           (snd (createClinicalNote init_db 10 11 12
                                   [''patientId'' \<mapsto> JStr ''P20250002'', ''content'' \<mapsto> JStr ''Old A'']))
                           20 21 22
                           [''patientId'' \<mapsto> JStr ''P20250001'', ''content'' \<mapsto> JStr ''Old B'']))
                   30 (JStr ''P20250002''))"

definition gap_new_db :: db where
  "gap_new_db = snd (createClinicalNote gap_db 40 41 42
                       [''patientId'' \<mapsto> JStr ''P20250003'', ''content'' \<mapsto> JStr ''New''])"

text \<open>
  That store after two updates through the identifier 2, which the last
  \<^verbatim>\<open>createClinicalNote\<close> returned.
\<close>

definition gap_edited_db :: db where
  "gap_edited_db = snd (updateClinicalNote
                          (snd (updateClinicalNote gap_new_db 50 51 (JNum 2)
                                  [''content'' \<mapsto> JStr ''Edited'']))
                          60 61 (JNum 2) [''status'' \<mapsto> JStr ''final''])"

text \<open>
  The initial store after one \<^verbatim>\<open>createPatient\<close> whose data carries the identifier of a
  patient already stored.
\<close>

definition twin_db :: db where
  "twin_db = snd (createPatient init_db 5 6 7 8
                    [''id'' \<mapsto> JStr ''P20250001'', ''firstName'' \<mapsto> JStr ''Twin''])"

text \<open>The initial store after \<^verbatim>\<open>createPatient({})\<close>: the new patient has no name and no email.\<close>

definition blank_db :: db where
  "blank_db = snd (createPatient init_db 5 6 7 8 Map.empty)"

text \<open>
  The initial store after the patient of the specification's example has been created, at
  clock reading 1736500000000.
\<close>

definition ada_db :: db where
  "ada_db = snd (createPatient init_db 1736500000000 1736500000000 1736500000000 1736500000000
                   [''firstName'' \<mapsto> JStr ''Ada'', ''lastName'' \<mapsto> JStr ''Lovelace'',
                    ''dateOfBirth'' \<mapsto> JStr ''1990-01-01'', ''bloodType'' \<mapsto> JStr ''O+''])"

text \<open>
  Two allergy records as a form would send them, and the initial store after
  \<^verbatim>\<open>addAllergy\<close>, \<^verbatim>\<open>removeAllergy(1)\<close> and \<^verbatim>\<open>addAllergy\<close> again.
\<close>

definition pollen :: jsobj where
  "pollen = [''patientId'' \<mapsto> JStr ''P20250003'', ''allergen'' \<mapsto> JStr ''Pollen'',
             ''severity'' \<mapsto> JStr ''mild'']"

definition dust :: jsobj where
  "dust = [''patientId'' \<mapsto> JStr ''P20250003'', ''allergen'' \<mapsto> JStr ''Dust'',
           ''severity'' \<mapsto> JStr ''mild'']"

definition readd_db :: db where
  "readd_db = snd (addAllergy (snd (removeAllergy (snd (addAllergy init_db 10 pollen)) 20 (JNum 1))) 30 dust)"

section \<open>Basic facts\<close>

lemma findIndex_None: "findIndex P xs = None \<longleftrightarrow> (\<forall>x \<in> set xs. \<not> P x)"
  by (induction xs) auto

lemma findIndex_Some:
  "findIndex P xs = Some i \<Longrightarrow> i < length xs \<and> P (xs ! i) \<and> (\<forall>j < i. \<not> P (xs ! j))"
proof (induction xs arbitrary: i)
  case Nil
  then show ?case by simp
next
  case (Cons x xs)
  show ?case
  proof (cases "P x")
    case True
    with Cons.prems show ?thesis by simp
  next
    case False
    with Cons.prems obtain k where k: "findIndex P xs = Some k" "i = Suc k"
      by auto
    from Cons.IH [OF k(1)] False k(2) show ?thesis
      by (auto simp: less_Suc_eq_0_disj)
  qed
qed

lemma find_findIndex:
  "find P xs = (case findIndex P xs of None \<Rightarrow> None | Some i \<Rightarrow> Some (xs ! i))"
  by (induction xs) (auto split: option.splits)

lemma strict_eq_eq: "strict_eq a b \<Longrightarrow> a = b"
  by (cases a; cases b) auto

lemma str_includes_sublist: "str_includes s t = sublist t s"
  by (induction s) (auto simp: sublist_Cons_right)

lemma find_None_iff: "find P xs = None \<longleftrightarrow> (\<forall>x \<in> set xs. \<not> P x)"
  by (induction xs) auto

section \<open>Identifiers absent from the store\<close>

text \<open>
  C5. Each operation that looks a record up by identifier, other than
  \<^verbatim>\<open>incrementWorkflowUsage\<close>, answers an identifier that no stored record of its kind carries
  with a rejected promise whose error has a message naming what was not found, and leaves
  the whole store, every entity sequence and the audit log, as it was.
\<close>

theorem absent_id_rejects_unchanged:
  "((\<forall>p \<in> set (patients s). \<not> has_id i p) \<longrightarrow>
      getPatientById s i = (Reject ''Patient not found'', s) \<and>
      updatePatient s t1 t2 i u = (Reject ''Patient not found'', s) \<and>
      deletePatient s t2 i = (Reject ''Patient not found'', s)) \<and>
   ((\<forall>n \<in> set (clinicalNotes s). \<not> has_id i n) \<longrightarrow>
      updateClinicalNote s t1 t2 i u = (Reject ''Clinical note not found'', s)) \<and>
   ((\<forall>a \<in> set (allergies s). \<not> has_id i a) \<longrightarrow>
      removeAllergy s t2 i = (Reject ''Allergy not found'', s)) \<and>
   ((\<forall>w \<in> set (workflows s). \<not> wf_has_id i w) \<longrightarrow>
      getWorkflowById s i = (Reject ''Workflow not found'', s)) \<and>
   ((\<forall>t \<in> set (tasks s). \<not> has_id i t) \<longrightarrow>
      updateTask s t1 t2 i u = (Reject ''Task not found'', s))"
proof -
  have "findIndex (has_id i) (patients s) = None \<and> find (has_id i) (patients s) = None"
    if "\<forall>p \<in> set (patients s). \<not> has_id i p"
    using that by (simp add: findIndex_None find_None_iff)
  then have A: "(\<forall>p \<in> set (patients s). \<not> has_id i p) \<longrightarrow>
      getPatientById s i = (Reject ''Patient not found'', s) \<and>
      updatePatient s t1 t2 i u = (Reject ''Patient not found'', s) \<and>
      deletePatient s t2 i = (Reject ''Patient not found'', s)"
    by (simp add: getPatientById_def updatePatient_def deletePatient_def)
  have B: "(\<forall>n \<in> set (clinicalNotes s). \<not> has_id i n) \<longrightarrow>
      updateClinicalNote s t1 t2 i u = (Reject ''Clinical note not found'', s)"
    by (simp add: updateClinicalNote_def findIndex_None [symmetric])
  have C: "(\<forall>a \<in> set (allergies s). \<not> has_id i a) \<longrightarrow>
      removeAllergy s t2 i = (Reject ''Allergy not found'', s)"
    by (simp add: removeAllergy_def findIndex_None [symmetric])
  have D: "(\<forall>w \<in> set (workflows s). \<not> wf_has_id i w) \<longrightarrow>
      getWorkflowById s i = (Reject ''Workflow not found'', s)"
    by (simp add: getWorkflowById_def find_None_iff [symmetric])
  have E: "(\<forall>t \<in> set (tasks s). \<not> has_id i t) \<longrightarrow>
      updateTask s t1 t2 i u = (Reject ''Task not found'', s)"
    by (simp add: updateTask_def findIndex_None [symmetric])
  from A B C D E show ?thesis by blast
qed

text \<open>The seven operations on the initial store, with identifiers it does not hold.\<close>

theorem absent_id_rejects_unchanged_witness:
  "getPatientById init_db (JStr ''P0'') = (Reject ''Patient not found'', init_db) \<and>
   updatePatient init_db 1 2 (JStr ''P0'') [''phone'' \<mapsto> JStr ''555''] = (Reject ''Patient not found'', init_db) \<and>
   deletePatient init_db 2 (JStr ''P0'') = (Reject ''Patient not found'', init_db) \<and>
   updateClinicalNote init_db 1 2 (JNum 1) [''content'' \<mapsto> JStr ''x''] = (Reject ''Clinical note not found'', init_db) \<and>
   removeAllergy init_db 2 (JNum 4) = (Reject ''Allergy not found'', init_db) \<and>
   getWorkflowById init_db (JNum 9999) = (Reject ''Workflow not found'', init_db) \<and>
   updateTask init_db 1 2 (JNum 1) [''status'' \<mapsto> JStr ''completed''] = (Reject ''Task not found'', init_db)"
proof -
  have p: "\<forall>p \<in> set (patients init_db). \<not> has_id (JStr ''P0'') p"
    by (simp add: init_db_def has_id_def fld_def)
  have n: "\<forall>n \<in> set (clinicalNotes init_db). \<not> has_id (JNum 1) n"
    by (simp add: init_db_def)
  have a: "\<forall>a \<in> set (allergies init_db). \<not> has_id (JNum 4) a"
    by (simp add: init_db_def has_id_def fld_def)
  have w: "\<forall>w \<in> set (workflows init_db). \<not> wf_has_id (JNum 9999) w"
    by (simp add: init_db_def wf_has_id_def)
  have t: "\<forall>t \<in> set (tasks init_db). \<not> has_id (JNum 1) t"
    by (simp add: init_db_def)
  from p absent_id_rejects_unchanged [of init_db "JStr ''P0''" 1 2 "[''phone'' \<mapsto> JStr ''555'']"]
  have 1: "getPatientById init_db (JStr ''P0'') = (Reject ''Patient not found'', init_db) \<and>
   updatePatient init_db 1 2 (JStr ''P0'') [''phone'' \<mapsto> JStr ''555''] = (Reject ''Patient not found'', init_db) \<and>
   deletePatient init_db 2 (JStr ''P0'') = (Reject ''Patient not found'', init_db)"
    by blast
  from n t absent_id_rejects_unchanged [of init_db "JNum 1" 1 2]
  have 2: "updateClinicalNote init_db 1 2 (JNum 1) u = (Reject ''Clinical note not found'', init_db) \<and>
     updateTask init_db 1 2 (JNum 1) u = (Reject ''Task not found'', init_db)" for u
    by blast
  from a absent_id_rejects_unchanged [of init_db "JNum 4" 1 2]
  have 3: "removeAllergy init_db 2 (JNum 4) = (Reject ''Allergy not found'', init_db)"
    by blast
  from w absent_id_rejects_unchanged [of init_db "JNum 9999" 1 2]
  have 4: "getWorkflowById init_db (JNum 9999) = (Reject ''Workflow not found'', init_db)"
    by blast
  from 1 2 3 4 show ?thesis by blast
qed

lemma findIndex_present: "\<exists>x \<in> set xs. P x \<Longrightarrow> \<exists>n. findIndex P xs = Some n"
  using findIndex_None [of P xs] by (cases "findIndex P xs") auto

lemma audited_logAudit:
  "auditLog s1 = auditLog s \<Longrightarrow> audited s (logAudit s1 t et v act uid) act (js_String v)"
  by (simp add: audited_def logAudit_def)

lemma incrementWorkflowUsage_found:
  assumes "findIndex (wf_has_id i) (workflows s) = Some n"
  shows "incrementWorkflowUsage s t i =
           (Resolve (Some ((workflows s ! n)\<lparr> usageCount := usageCount (workflows s ! n) + 1 \<rparr>)),
            logAudit (s\<lparr> workflows := (workflows s)
                        [n := (workflows s ! n)\<lparr> usageCount := usageCount (workflows s ! n) + 1 \<rparr>] \<rparr>)
              t ''WorkflowTemplate'' i ''UPDATE'' (JStr ''system''))"
  using assms findIndex_Some [OF assms]
  by (simp add: incrementWorkflowUsage_def Let_def logAudit_def)

section \<open>Workflow usage counter\<close>

text \<open>
  C4. \<^verbatim>\<open>incrementWorkflowUsage(id)\<close> with an identifier no workflow carries resolves with
  \<^verbatim>\<open>undefined\<close> and leaves the store as it was: no usage counter changes and no audit entry
  is written. With an identifier that is present, the first workflow carrying it has its
  usage counter raised by exactly one, the call resolves with that workflow, nothing else
  in the store changes, and one \<^verbatim>\<open>UPDATE\<close> audit entry for the identifier is appended.
\<close>

theorem incrementWorkflowUsage_absent_present:
  "((\<forall>w \<in> set (workflows s). \<not> wf_has_id i w) \<longrightarrow>
      incrementWorkflowUsage s t i = (Resolve None, s)) \<and>
   ((\<exists>w \<in> set (workflows s). wf_has_id i w) \<longrightarrow>
      (\<exists>n w'. n < length (workflows s) \<and> wf_has_id i (workflows s ! n) \<and>
         w' = (workflows s ! n)\<lparr> usageCount := usageCount (workflows s ! n) + 1 \<rparr> \<and>
         fst (incrementWorkflowUsage s t i) = Resolve (Some w') \<and>
         (snd (incrementWorkflowUsage s t i))\<lparr> auditLog := auditLog s \<rparr>
            = s\<lparr> workflows := (workflows s)[n := w'] \<rparr> \<and>
         audited s (snd (incrementWorkflowUsage s t i)) ''UPDATE'' (js_String i)))"
proof (intro conjI impI)
  assume "\<forall>w \<in> set (workflows s). \<not> wf_has_id i w"
  then have "findIndex (wf_has_id i) (workflows s) = None"
    by (simp add: findIndex_None)
  then show "incrementWorkflowUsage s t i = (Resolve None, s)"
    by (simp add: incrementWorkflowUsage_def)
next
  assume "\<exists>w \<in> set (workflows s). wf_has_id i w"
  from findIndex_present [OF this]
  obtain n where n: "findIndex (wf_has_id i) (workflows s) = Some n" ..
  from findIndex_Some [OF n] have b: "n < length (workflows s)" "wf_has_id i (workflows s ! n)"
    by auto
  note f = incrementWorkflowUsage_found [OF n, of t]
  have u: "(snd (incrementWorkflowUsage s t i))\<lparr> auditLog := auditLog s \<rparr>
            = s\<lparr> workflows := (workflows s)
                  [n := (workflows s ! n)\<lparr> usageCount := usageCount (workflows s ! n) + 1 \<rparr>] \<rparr>"
    by (simp add: f logAudit_def)
  have a: "audited s (snd (incrementWorkflowUsage s t i)) ''UPDATE'' (js_String i)"
    by (simp add: f audited_logAudit)
  show "\<exists>n w'. n < length (workflows s) \<and> wf_has_id i (workflows s ! n) \<and>
         w' = (workflows s ! n)\<lparr> usageCount := usageCount (workflows s ! n) + 1 \<rparr> \<and>
         fst (incrementWorkflowUsage s t i) = Resolve (Some w') \<and>
         (snd (incrementWorkflowUsage s t i))\<lparr> auditLog := auditLog s \<rparr>
            = s\<lparr> workflows := (workflows s)[n := w'] \<rparr> \<and>
         audited s (snd (incrementWorkflowUsage s t i)) ''UPDATE'' (js_String i)"
  proof (intro exI [of _ n] exI [of _ "(workflows s ! n)\<lparr> usageCount := usageCount (workflows s ! n) + 1 \<rparr>"] conjI)
    show "fst (incrementWorkflowUsage s t i) =
            Resolve (Some ((workflows s ! n)\<lparr> usageCount := usageCount (workflows s ! n) + 1 \<rparr>))"
      by (simp add: f)
  qed (rule b u a refl)+
qed

text \<open>On the initial store: identifier 9999 is absent, identifier 2 is present.\<close>

theorem incrementWorkflowUsage_absent_present_witness:
  "incrementWorkflowUsage init_db 7 (JNum 9999) = (Resolve None, init_db) \<and>
   (\<exists>n w'. n < length (workflows init_db) \<and> wf_has_id (JNum 2) (workflows init_db ! n) \<and>
         w' = (workflows init_db ! n)\<lparr> usageCount := usageCount (workflows init_db ! n) + 1 \<rparr> \<and>
         fst (incrementWorkflowUsage init_db 7 (JNum 2)) = Resolve (Some w') \<and>
         (snd (incrementWorkflowUsage init_db 7 (JNum 2)))\<lparr> auditLog := auditLog init_db \<rparr>
            = init_db\<lparr> workflows := (workflows init_db)[n := w'] \<rparr> \<and>
         audited init_db (snd (incrementWorkflowUsage init_db 7 (JNum 2))) ''UPDATE'' (js_String (JNum 2)))"
proof -
  have a: "\<forall>w \<in> set (workflows init_db). \<not> wf_has_id (JNum 9999) w"
    by (simp add: init_db_def wf_has_id_def)
  have p: "\<exists>w \<in> set (workflows init_db). wf_has_id (JNum 2) w"
    by (simp add: init_db_def wf_has_id_def)
  note 1 = incrementWorkflowUsage_absent_present [of init_db "JNum 9999" 7, THEN conjunct1, THEN mp, OF a]
  note 2 = incrementWorkflowUsage_absent_present [of init_db "JNum 2" 7, THEN conjunct2, THEN mp, OF p]
  from 1 2 show ?thesis by (rule conjI)
qed

section \<open>Closed forms of the operations\<close>

lemma createPatient_eq:
  "createPatient s t0 t1 t2 t3 d =
     (Resolve (([''id'' \<mapsto> JStr (''P'' @ string_of_nat t0)] ++ d)
                 (''status'' \<mapsto> JStr ''active'', ''createdAt'' \<mapsto> JDate t1, ''updatedAt'' \<mapsto> JDate t2)),
      logAudit (s\<lparr> patients := patients s @
                    [([''id'' \<mapsto> JStr (''P'' @ string_of_nat t0)] ++ d)
                       (''status'' \<mapsto> JStr ''active'', ''createdAt'' \<mapsto> JDate t1, ''updatedAt'' \<mapsto> JDate t2)] \<rparr>)
        t3 ''Patient''
        (fld (([''id'' \<mapsto> JStr (''P'' @ string_of_nat t0)] ++ d)
                 (''status'' \<mapsto> JStr ''active'', ''createdAt'' \<mapsto> JDate t1, ''updatedAt'' \<mapsto> JDate t2)) ''id'')
        ''CREATE'' (JStr ''system''))"
  by (simp add: createPatient_def Let_def)

lemma updatePatient_found:
  assumes "findIndex (has_id i) (patients s) = Some n"
  shows "updatePatient s tu ta i u =
           (Resolve ((patients s ! n ++ u)(''updatedAt'' \<mapsto> JDate tu)),
            logAudit (s\<lparr> patients := (patients s)[n := (patients s ! n ++ u)(''updatedAt'' \<mapsto> JDate tu)] \<rparr>)
              ta ''Patient'' i ''UPDATE'' (JStr ''system''))"
  using assms findIndex_Some [OF assms]
  by (simp add: updatePatient_def Let_def logAudit_def)

lemma updateClinicalNote_found:
  assumes "findIndex (has_id i) (clinicalNotes s) = Some n"
  shows "updateClinicalNote s tu ta i u =
           (Resolve ((clinicalNotes s ! n ++ u)(''updatedAt'' \<mapsto> JDate tu)),
            logAudit (s\<lparr> clinicalNotes := (clinicalNotes s)
                         [n := (clinicalNotes s ! n ++ u)(''updatedAt'' \<mapsto> JDate tu)] \<rparr>)
              ta ''ClinicalNote'' i ''UPDATE'' (JStr ''system''))"
  using assms findIndex_Some [OF assms]
  by (simp add: updateClinicalNote_def Let_def logAudit_def)

lemma updateTask_found:
  assumes "findIndex (has_id i) (tasks s) = Some n"
  shows "updateTask s tc ta i u =
           (Resolve (task_merge (tasks s ! n) u tc),
            logAudit (s\<lparr> tasks := (tasks s)[n := task_merge (tasks s ! n) u tc] \<rparr>)
              ta ''Task'' i ''UPDATE'' (JStr ''system''))"
  using assms findIndex_Some [OF assms]
  by (simp add: updateTask_def Let_def logAudit_def task_merge_def)

lemma deletePatient_found:
  assumes "findIndex (has_id i) (patients s) = Some n"
  shows "deletePatient s ta i =
           (Resolve Success,
            logAudit (s\<lparr> patients := splice1 n (patients s),
                         allergies := filter (\<lambda>a. \<not> refers_to i a) (allergies s),
                         chronicConditions := filter (\<lambda>a. \<not> refers_to i a) (chronicConditions s),
                         clinicalNotes := filter (\<lambda>a. \<not> refers_to i a) (clinicalNotes s),
                         tasks := filter (\<lambda>a. \<not> refers_to i a) (tasks s),
                         appointments := filter (\<lambda>a. \<not> refers_to i a) (appointments s),
                         referrals := filter (\<lambda>a. \<not> refers_to i a) (referrals s) \<rparr>)
              ta ''Patient'' i ''DELETE'' (JStr ''system''))"
  using assms
  by (simp add: deletePatient_def Let_def logAudit_def)

lemma removeAllergy_found:
  assumes "findIndex (has_id i) (allergies s) = Some n"
  shows "removeAllergy s ta i =
           (Resolve Success,
            logAudit (s\<lparr> allergies := splice1 n (allergies s) \<rparr>)
              ta ''Allergy'' i ''DELETE'' (JStr ''system''))"
  using assms
  by (simp add: removeAllergy_def Let_def logAudit_def)

section \<open>Task status\<close>

text \<open>
  C8. \<^verbatim>\<open>createTask\<close> with data that has no \<^verbatim>\<open>status\<close> stores a task whose status is
  \<^verbatim>\<open>'pending'\<close>. For an identifier that a stored task carries,
  \<^verbatim>\<open>updateTask(id, {status: 'completed'})\<close> resolves with the record it stores at the first
  task with that identifier: its status is \<^verbatim>\<open>'completed'\<close> and its \<^verbatim>\<open>completedAt\<close> is the
  \<^verbatim>\<open>Date\<close> read at the moment of the update.
\<close>

theorem task_status_defaults_and_completion:
  "(taskData ''status'' = None \<longrightarrow>
      (\<exists>r. fst (createTask s tc ta taskData) = Resolve r \<and>
           tasks (snd (createTask s tc ta taskData)) = tasks s @ [r] \<and>
           r ''status'' = Some (JStr ''pending''))) \<and>
   ((\<exists>t \<in> set (tasks s). has_id i t) \<longrightarrow>
      (\<exists>r n. fst (updateTask s tc ta i [''status'' \<mapsto> JStr ''completed'']) = Resolve r \<and>
             n < length (tasks s) \<and> has_id i (tasks s ! n) \<and>
             tasks (snd (updateTask s tc ta i [''status'' \<mapsto> JStr ''completed''])) = (tasks s)[n := r] \<and>
             r ''status'' = Some (JStr ''completed'') \<and>
             r ''completedAt'' = Some (JDate tc)))"
proof (intro conjI impI)
  assume "taskData ''status'' = None"
  then show "\<exists>r. fst (createTask s tc ta taskData) = Resolve r \<and>
           tasks (snd (createTask s tc ta taskData)) = tasks s @ [r] \<and>
           r ''status'' = Some (JStr ''pending'')"
    by (simp add: createTask_def Let_def logAudit_def fld_def js_or_def)
next
  assume "\<exists>t \<in> set (tasks s). has_id i t"
  from findIndex_present [OF this]
  obtain n where n: "findIndex (has_id i) (tasks s) = Some n" ..
  from findIndex_Some [OF n] have b: "n < length (tasks s)" "has_id i (tasks s ! n)"
    by auto
  note f = updateTask_found [OF n, of tc ta "[''status'' \<mapsto> JStr ''completed'']"]
  let ?r = "task_merge (tasks s ! n) [''status'' \<mapsto> JStr ''completed''] tc"
  show "\<exists>r n. fst (updateTask s tc ta i [''status'' \<mapsto> JStr ''completed'']) = Resolve r \<and>
             n < length (tasks s) \<and> has_id i (tasks s ! n) \<and>
             tasks (snd (updateTask s tc ta i [''status'' \<mapsto> JStr ''completed''])) = (tasks s)[n := r] \<and>
             r ''status'' = Some (JStr ''completed'') \<and>
             r ''completedAt'' = Some (JDate tc)"
  proof (intro exI [of _ ?r] exI [of _ n] conjI)
    show "fst (updateTask s tc ta i [''status'' \<mapsto> JStr ''completed'']) = Resolve ?r"
      by (simp add: f)
    show "tasks (snd (updateTask s tc ta i [''status'' \<mapsto> JStr ''completed''])) = (tasks s)[n := ?r]"
      by (simp add: f logAudit_def)
    show "?r ''status'' = Some (JStr ''completed'')"
      by (simp add: task_merge_def fld_def)
    show "?r ''completedAt'' = Some (JDate tc)"
      by (simp add: task_merge_def fld_def)
  qed (rule b)+
qed

text \<open>The scenario of the specification: a follow-up task is created, then completed.\<close>

lemma follow_up_tasks:
  "tasks (snd (createTask init_db 10 11 [''title'' \<mapsto> JStr ''Follow up'', ''patientId'' \<mapsto> JStr ''P20250001'']))
   = [[''id'' \<mapsto> JNum 1, ''title'' \<mapsto> JStr ''Follow up'', ''patientId'' \<mapsto> JStr ''P20250001'',
       ''status'' \<mapsto> JStr ''pending'', ''createdAt'' \<mapsto> JDate 10]]"
  by (simp add: createTask_def Let_def logAudit_def init_db_def js_or_def fld_def)

theorem task_status_defaults_and_completion_witness:
  "(\<exists>r. fst (createTask init_db 10 11 [''title'' \<mapsto> JStr ''Follow up'', ''patientId'' \<mapsto> JStr ''P20250001''])
           = Resolve r \<and>
        tasks (snd (createTask init_db 10 11 [''title'' \<mapsto> JStr ''Follow up'', ''patientId'' \<mapsto> JStr ''P20250001'']))
           = tasks init_db @ [r] \<and>
        r ''status'' = Some (JStr ''pending'')) \<and>
   (\<exists>r n. fst (updateTask
                 (snd (createTask init_db 10 11 [''title'' \<mapsto> JStr ''Follow up'', ''patientId'' \<mapsto> JStr ''P20250001'']))
                 20 21 (JNum 1) [''status'' \<mapsto> JStr ''completed'']) = Resolve r \<and>
          n < length (tasks (snd (createTask init_db 10 11 [''title'' \<mapsto> JStr ''Follow up'', ''patientId'' \<mapsto> JStr ''P20250001'']))) \<and>
          has_id (JNum 1) (tasks (snd (createTask init_db 10 11 [''title'' \<mapsto> JStr ''Follow up'', ''patientId'' \<mapsto> JStr ''P20250001''])) ! n) \<and>
          tasks (snd (updateTask
                 (snd (createTask init_db 10 11 [''title'' \<mapsto> JStr ''Follow up'', ''patientId'' \<mapsto> JStr ''P20250001'']))
                 20 21 (JNum 1) [''status'' \<mapsto> JStr ''completed'']))
            = (tasks (snd (createTask init_db 10 11 [''title'' \<mapsto> JStr ''Follow up'', ''patientId'' \<mapsto> JStr ''P20250001''])))[n := r] \<and>
          r ''status'' = Some (JStr ''completed'') \<and>
          r ''completedAt'' = Some (JDate 20))"
proof -
  let ?d = "[''title'' \<mapsto> JStr ''Follow up'', ''patientId'' \<mapsto> JStr ''P20250001'']"
  let ?s = "snd (createTask init_db 10 11 ?d)"
  have a: "?d ''status'' = None"
    by simp
  have p: "\<exists>t \<in> set (tasks ?s). has_id (JNum 1) t"
    by (simp add: follow_up_tasks has_id_def fld_def)
  note 1 = task_status_defaults_and_completion
             [where taskData = ?d and s = init_db and tc = 10 and ta = 11, THEN conjunct1, THEN mp, OF a]
  note 2 = task_status_defaults_and_completion
             [where s = ?s and tc = 20 and ta = 21 and i = "JNum 1", THEN conjunct2, THEN mp, OF p]
  from 1 2 show ?thesis by (rule conjI)
qed

section \<open>Which fields of a created record the caller decides\<close>

text \<open>
  C9. In the object literals of the create operations a property written after the spread
  of the caller's data wins and one written before it loses. So an \<^verbatim>\<open>id\<close> in the data of
  \<^verbatim>\<open>createPatient\<close> or \<^verbatim>\<open>createClinicalNote\<close> is the identifier of the record stored and
  returned, in place of the one the store makes; a \<^verbatim>\<open>status\<close>, \<^verbatim>\<open>createdAt\<close> or
  \<^verbatim>\<open>updatedAt\<close> in the data of \<^verbatim>\<open>createPatient\<close> is discarded (the status is
  \<^verbatim>\<open>'active'\<close>, the stamps are the clock's); and a \<^verbatim>\<open>status\<close> in the data of
  \<^verbatim>\<open>addAllergy\<close> or \<^verbatim>\<open>addChronicCondition\<close> is discarded for \<^verbatim>\<open>'active'\<close>.
\<close>

theorem create_field_precedence:
  "(\<exists>r. fst (createPatient s t0 t1 t2 t3 d) = Resolve r \<and>
        patients (snd (createPatient s t0 t1 t2 t3 d)) = patients s @ [r] \<and>
        (\<forall>v. d ''id'' = Some v \<longrightarrow> r ''id'' = Some v) \<and>
        r ''status'' = Some (JStr ''active'') \<and>
        r ''createdAt'' = Some (JDate t1) \<and>
        r ''updatedAt'' = Some (JDate t2)) \<and>
   (\<exists>r. fst (createClinicalNote s t1 t2 t3 d) = Resolve r \<and>
        clinicalNotes (snd (createClinicalNote s t1 t2 t3 d)) = clinicalNotes s @ [r] \<and>
        (\<forall>v. d ''id'' = Some v \<longrightarrow> r ''id'' = Some v)) \<and>
   (\<exists>r. fst (addAllergy s t3 d) = Resolve r \<and>
        allergies (snd (addAllergy s t3 d)) = allergies s @ [r] \<and>
        r ''status'' = Some (JStr ''active'')) \<and>
   (\<exists>r. fst (addChronicCondition s t3 d) = Resolve r \<and>
        chronicConditions (snd (addChronicCondition s t3 d)) = chronicConditions s @ [r] \<and>
        r ''status'' = Some (JStr ''active''))"
proof (intro conjI)
  show "\<exists>r. fst (createPatient s t0 t1 t2 t3 d) = Resolve r \<and>
        patients (snd (createPatient s t0 t1 t2 t3 d)) = patients s @ [r] \<and>
        (\<forall>v. d ''id'' = Some v \<longrightarrow> r ''id'' = Some v) \<and>
        r ''status'' = Some (JStr ''active'') \<and>
        r ''createdAt'' = Some (JDate t1) \<and>
        r ''updatedAt'' = Some (JDate t2)"
    by (simp add: createPatient_def Let_def logAudit_def map_add_def)
  show "\<exists>r. fst (createClinicalNote s t1 t2 t3 d) = Resolve r \<and>
        clinicalNotes (snd (createClinicalNote s t1 t2 t3 d)) = clinicalNotes s @ [r] \<and>
        (\<forall>v. d ''id'' = Some v \<longrightarrow> r ''id'' = Some v)"
    by (simp add: createClinicalNote_def Let_def logAudit_def map_add_def)
  show "\<exists>r. fst (addAllergy s t3 d) = Resolve r \<and>
        allergies (snd (addAllergy s t3 d)) = allergies s @ [r] \<and>
        r ''status'' = Some (JStr ''active'')"
    by (simp add: addAllergy_def Let_def logAudit_def)
  show "\<exists>r. fst (addChronicCondition s t3 d) = Resolve r \<and>
        chronicConditions (snd (addChronicCondition s t3 d)) = chronicConditions s @ [r] \<and>
        r ''status'' = Some (JStr ''active'')"
    by (simp add: addChronicCondition_def Let_def logAudit_def)
qed

text \<open>Data that supplies all four fields, given to the four operations on the initial store.\<close>

theorem create_field_precedence_witness:
  "(\<exists>r. fst (createPatient init_db 5 6 7 8
              [''id'' \<mapsto> JStr ''MINE'', ''status'' \<mapsto> JStr ''deceased'', ''createdAt'' \<mapsto> JNum 0,
               ''updatedAt'' \<mapsto> JNum 0]) = Resolve r \<and>
        r ''id'' = Some (JStr ''MINE'') \<and>
        r ''status'' = Some (JStr ''active'') \<and>
        r ''createdAt'' = Some (JDate 6) \<and>
        r ''updatedAt'' = Some (JDate 7)) \<and>
   (\<exists>r. fst (createClinicalNote init_db 6 7 8
              [''id'' \<mapsto> JStr ''MINE'', ''status'' \<mapsto> JStr ''deceased'', ''createdAt'' \<mapsto> JNum 0,
               ''updatedAt'' \<mapsto> JNum 0]) = Resolve r \<and>
        r ''id'' = Some (JStr ''MINE'')) \<and>
   (\<exists>r. fst (addAllergy init_db 8
              [''id'' \<mapsto> JStr ''MINE'', ''status'' \<mapsto> JStr ''deceased'', ''createdAt'' \<mapsto> JNum 0,
               ''updatedAt'' \<mapsto> JNum 0]) = Resolve r \<and>
        r ''status'' = Some (JStr ''active'')) \<and>
   (\<exists>r. fst (addChronicCondition init_db 8
              [''id'' \<mapsto> JStr ''MINE'', ''status'' \<mapsto> JStr ''deceased'', ''createdAt'' \<mapsto> JNum 0,
               ''updatedAt'' \<mapsto> JNum 0]) = Resolve r \<and>
        r ''status'' = Some (JStr ''active''))"
proof -
  let ?d = "[''id'' \<mapsto> JStr ''MINE'', ''status'' \<mapsto> JStr ''deceased'', ''createdAt'' \<mapsto> JNum 0,
               ''updatedAt'' \<mapsto> JNum 0]"
  have i: "?d ''id'' = Some (JStr ''MINE'')"
    by simp
  note t = create_field_precedence
             [where s = init_db and d = ?d and ?t0.0 = 5 and ?t1.0 = 6 and ?t2.0 = 7 and ?t3.0 = 8]
  from t [THEN conjunct1] obtain r where r:
    "fst (createPatient init_db 5 6 7 8 ?d) = Resolve r"
    "\<forall>v. ?d ''id'' = Some v \<longrightarrow> r ''id'' = Some v"
    "r ''status'' = Some (JStr ''active'')"
    "r ''createdAt'' = Some (JDate 6)"
    "r ''updatedAt'' = Some (JDate 7)"
    by (elim exE conjE)
  from r(2) [THEN spec, THEN mp, OF i] have ri: "r ''id'' = Some (JStr ''MINE'')" .
  from r(1) ri r(3-5) have 1: "\<exists>r. fst (createPatient init_db 5 6 7 8 ?d) = Resolve r \<and>
        r ''id'' = Some (JStr ''MINE'') \<and> r ''status'' = Some (JStr ''active'') \<and>
        r ''createdAt'' = Some (JDate 6) \<and> r ''updatedAt'' = Some (JDate 7)"
    by (intro exI [of _ r] conjI)
  from t [THEN conjunct2, THEN conjunct1] obtain n where n:
    "fst (createClinicalNote init_db 6 7 8 ?d) = Resolve n"
    "\<forall>v. ?d ''id'' = Some v \<longrightarrow> n ''id'' = Some v"
    by (elim exE conjE)
  from n(2) [THEN spec, THEN mp, OF i] have ni: "n ''id'' = Some (JStr ''MINE'')" .
  from n(1) ni have 2: "\<exists>r. fst (createClinicalNote init_db 6 7 8 ?d) = Resolve r \<and>
        r ''id'' = Some (JStr ''MINE'')"
    by (intro exI [of _ n] conjI)
  from t [THEN conjunct2, THEN conjunct2, THEN conjunct1] obtain a where a:
    "fst (addAllergy init_db 8 ?d) = Resolve a" "a ''status'' = Some (JStr ''active'')"
    by (elim exE conjE)
  then have 3: "\<exists>r. fst (addAllergy init_db 8 ?d) = Resolve r \<and> r ''status'' = Some (JStr ''active'')"
    by (intro exI [of _ a] conjI)
  from t [THEN conjunct2, THEN conjunct2, THEN conjunct2] obtain c where c:
    "fst (addChronicCondition init_db 8 ?d) = Resolve c" "c ''status'' = Some (JStr ''active'')"
    by (elim exE conjE)
  then have 4: "\<exists>r. fst (addChronicCondition init_db 8 ?d) = Resolve r \<and> r ''status'' = Some (JStr ''active'')"
    by (intro exI [of _ c] conjI)
  from 1 2 3 4 show ?thesis
    by (intro conjI)
qed

section \<open>One audit entry for each write\<close>

lemma has_id_fld: "has_id i r \<Longrightarrow> fld r ''id'' = i"
  by (simp add: has_id_def strict_eq_eq)

lemma audited_createPatient:
  "\<exists>r. fst (createPatient s t0 t1 t2 t3 d) = Resolve r \<and>
       audited s (snd (createPatient s t0 t1 t2 t3 d)) ''CREATE'' (js_String (fld r ''id''))"
  by (simp add: createPatient_def Let_def audited_logAudit)

lemma audited_createClinicalNote:
  "\<exists>r. fst (createClinicalNote s t1 t2 t3 d) = Resolve r \<and>
       audited s (snd (createClinicalNote s t1 t2 t3 d)) ''CREATE'' (js_String (fld r ''id''))"
  by (simp add: createClinicalNote_def Let_def audited_logAudit)

lemma audited_addAllergy:
  "\<exists>r. fst (addAllergy s t3 d) = Resolve r \<and>
       audited s (snd (addAllergy s t3 d)) ''CREATE'' (js_String (fld r ''id''))"
  by (simp add: addAllergy_def Let_def audited_logAudit)

lemma audited_addChronicCondition:
  "\<exists>r. fst (addChronicCondition s t3 d) = Resolve r \<and>
       audited s (snd (addChronicCondition s t3 d)) ''CREATE'' (js_String (fld r ''id''))"
  by (simp add: addChronicCondition_def Let_def audited_logAudit)

lemma audited_createTask:
  "\<exists>r. fst (createTask s t1 t3 d) = Resolve r \<and>
       audited s (snd (createTask s t1 t3 d)) ''CREATE'' (js_String (fld r ''id''))"
  by (simp add: createTask_def Let_def audited_logAudit)

lemma audited_createAppointment:
  "\<exists>r. fst (createAppointment s t1 t3 d) = Resolve r \<and>
       audited s (snd (createAppointment s t1 t3 d)) ''CREATE'' (js_String (fld r ''id''))"
  by (simp add: createAppointment_def Let_def audited_logAudit)

lemma audited_createReferral:
  "\<exists>r. fst (createReferral s t1 t3 d) = Resolve r \<and>
       audited s (snd (createReferral s t1 t3 d)) ''CREATE'' (js_String (fld r ''id''))"
  by (simp add: createReferral_def Let_def audited_logAudit)

lemma audited_updatePatient:
  assumes "fst (updatePatient s t1 t3 i u) = Resolve r"
  shows "\<exists>n. findIndex (has_id i) (patients s) = Some n \<and>
             patients (snd (updatePatient s t1 t3 i u)) = (patients s)[n := r] \<and>
             audited s (snd (updatePatient s t1 t3 i u)) ''UPDATE'' (js_String (fld (patients s ! n) ''id''))"
proof (cases "findIndex (has_id i) (patients s)")
  case None
  with assms show ?thesis by (simp add: updatePatient_def)
next
  case (Some n)
  from findIndex_Some [OF Some] have "fld (patients s ! n) ''id'' = i"
    by (simp add: has_id_fld)
  with assms Some show ?thesis
    by (simp add: updatePatient_found [OF Some] logAudit_def audited_def)
qed

lemma audited_updateClinicalNote:
  assumes "fst (updateClinicalNote s t1 t3 i u) = Resolve r"
  shows "\<exists>n. findIndex (has_id i) (clinicalNotes s) = Some n \<and>
             clinicalNotes (snd (updateClinicalNote s t1 t3 i u)) = (clinicalNotes s)[n := r] \<and>
             audited s (snd (updateClinicalNote s t1 t3 i u)) ''UPDATE''
               (js_String (fld (clinicalNotes s ! n) ''id''))"
proof (cases "findIndex (has_id i) (clinicalNotes s)")
  case None
  with assms show ?thesis by (simp add: updateClinicalNote_def)
next
  case (Some n)
  from findIndex_Some [OF Some] have "fld (clinicalNotes s ! n) ''id'' = i"
    by (simp add: has_id_fld)
  with assms Some show ?thesis
    by (simp add: updateClinicalNote_found [OF Some] logAudit_def audited_def)
qed

lemma audited_updateTask:
  assumes "fst (updateTask s t1 t3 i u) = Resolve r"
  shows "\<exists>n. findIndex (has_id i) (tasks s) = Some n \<and>
             tasks (snd (updateTask s t1 t3 i u)) = (tasks s)[n := r] \<and>
             audited s (snd (updateTask s t1 t3 i u)) ''UPDATE'' (js_String (fld (tasks s ! n) ''id''))"
proof (cases "findIndex (has_id i) (tasks s)")
  case None
  with assms show ?thesis by (simp add: updateTask_def)
next
  case (Some n)
  from findIndex_Some [OF Some] have "fld (tasks s ! n) ''id'' = i"
    by (simp add: has_id_fld)
  with assms Some show ?thesis
    by (simp add: updateTask_found [OF Some] logAudit_def audited_def)
qed

lemma audited_deletePatient:
  assumes "fst (deletePatient s t3 i) = Resolve r"
  shows "\<exists>n. findIndex (has_id i) (patients s) = Some n \<and>
             patients (snd (deletePatient s t3 i)) = splice1 n (patients s) \<and>
             audited s (snd (deletePatient s t3 i)) ''DELETE'' (js_String (fld (patients s ! n) ''id''))"
proof (cases "findIndex (has_id i) (patients s)")
  case None
  with assms show ?thesis by (simp add: deletePatient_def)
next
  case (Some n)
  from findIndex_Some [OF Some] have "fld (patients s ! n) ''id'' = i"
    by (simp add: has_id_fld)
  with Some show ?thesis
    by (simp add: deletePatient_found [OF Some] logAudit_def audited_def)
qed

lemma audited_removeAllergy:
  assumes "fst (removeAllergy s t3 i) = Resolve r"
  shows "\<exists>n. findIndex (has_id i) (allergies s) = Some n \<and>
             allergies (snd (removeAllergy s t3 i)) = splice1 n (allergies s) \<and>
             audited s (snd (removeAllergy s t3 i)) ''DELETE'' (js_String (fld (allergies s ! n) ''id''))"
proof (cases "findIndex (has_id i) (allergies s)")
  case None
  with assms show ?thesis by (simp add: removeAllergy_def)
next
  case (Some n)
  from findIndex_Some [OF Some] have "fld (allergies s ! n) ''id'' = i"
    by (simp add: has_id_fld)
  with Some show ?thesis
    by (simp add: removeAllergy_found [OF Some] logAudit_def audited_def)
qed

lemma audited_incrementWorkflowUsage:
  assumes "fst (incrementWorkflowUsage s t3 i) = Resolve (Some w)"
  shows "\<exists>n. findIndex (wf_has_id i) (workflows s) = Some n \<and>
             workflows (snd (incrementWorkflowUsage s t3 i)) = (workflows s)[n := w] \<and>
             JNum (wf_id (workflows s ! n)) = i \<and>
             audited s (snd (incrementWorkflowUsage s t3 i)) ''UPDATE'' (js_String i)"
proof (cases "findIndex (wf_has_id i) (workflows s)")
  case None
  with assms show ?thesis by (simp add: incrementWorkflowUsage_def)
next
  case (Some n)
  from findIndex_Some [OF Some] have "JNum (wf_id (workflows s ! n)) = i"
    using strict_eq_eq [of "JNum (wf_id (workflows s ! n))" i] by (simp add: wf_has_id_def)
  with assms Some show ?thesis
    by (simp add: incrementWorkflowUsage_found [OF Some] logAudit_def audited_def)
qed

text \<open>The sequences of the sample store.\<close>

lemma sample_db_patients: "patients sample_db = patients init_db"
  by (simp add: sample_db_def note_db_def createTask_def createClinicalNote_def Let_def logAudit_def)

lemma sample_db_allergies: "allergies sample_db = allergies init_db"
  by (simp add: sample_db_def note_db_def createTask_def createClinicalNote_def Let_def logAudit_def)

lemma sample_db_workflows: "workflows sample_db = workflows init_db"
  by (simp add: sample_db_def note_db_def createTask_def createClinicalNote_def Let_def logAudit_def)

lemma sample_db_clinicalNotes:
  "clinicalNotes sample_db =
     [[''id'' \<mapsto> JNum 1, ''patientId'' \<mapsto> JStr ''P20250001'', ''content'' \<mapsto> JStr ''Stable'',
       ''status'' \<mapsto> JStr ''draft'', ''createdAt'' \<mapsto> JDate 1, ''updatedAt'' \<mapsto> JDate 2]]"
  by (simp add: sample_db_def note_db_def createTask_def createClinicalNote_def Let_def logAudit_def init_db_def
      js_or_def fld_def)

lemma sample_db_tasks:
  "tasks sample_db =
     [[''id'' \<mapsto> JNum 1, ''title'' \<mapsto> JStr ''Follow up'', ''patientId'' \<mapsto> JStr ''P20250001'',
       ''status'' \<mapsto> JStr ''pending'', ''createdAt'' \<mapsto> JDate 4]]"
  by (simp add: sample_db_def note_db_def createTask_def createClinicalNote_def Let_def logAudit_def init_db_def
      js_or_def fld_def)

text \<open>
  C3. Every operation that writes and succeeds appends exactly one entry to the audit log,
  and the store it returns already holds the entry. The seven create operations always
  succeed: the entry's action is \<^verbatim>\<open>CREATE\<close> and its entity identifier is the text of the
  new record's \<^verbatim>\<open>id\<close>. An update, a delete or a usage increment that succeeds has found a
  record at some position of its sequence: the entry's action is \<^verbatim>\<open>UPDATE\<close> or
  \<^verbatim>\<open>DELETE\<close> and its entity identifier is the text of the identifier that record carried
  (for \<^verbatim>\<open>deletePatient\<close> this one entry stands for the whole cascade).
\<close>

theorem every_write_audited_once:
  "(\<exists>r. fst (createPatient s t0 t1 t2 t3 d) = Resolve r \<and>
        audited s (snd (createPatient s t0 t1 t2 t3 d)) ''CREATE'' (js_String (fld r ''id''))) \<and>
   (\<exists>r. fst (createClinicalNote s t1 t2 t3 d) = Resolve r \<and>
        audited s (snd (createClinicalNote s t1 t2 t3 d)) ''CREATE'' (js_String (fld r ''id''))) \<and>
   (\<exists>r. fst (addAllergy s t3 d) = Resolve r \<and>
        audited s (snd (addAllergy s t3 d)) ''CREATE'' (js_String (fld r ''id''))) \<and>
   (\<exists>r. fst (addChronicCondition s t3 d) = Resolve r \<and>
        audited s (snd (addChronicCondition s t3 d)) ''CREATE'' (js_String (fld r ''id''))) \<and>
   (\<exists>r. fst (createTask s t1 t3 d) = Resolve r \<and>
        audited s (snd (createTask s t1 t3 d)) ''CREATE'' (js_String (fld r ''id''))) \<and>
   (\<exists>r. fst (createAppointment s t1 t3 d) = Resolve r \<and>
        audited s (snd (createAppointment s t1 t3 d)) ''CREATE'' (js_String (fld r ''id''))) \<and>
   (\<exists>r. fst (createReferral s t1 t3 d) = Resolve r \<and>
        audited s (snd (createReferral s t1 t3 d)) ''CREATE'' (js_String (fld r ''id''))) \<and>
   (\<forall>r. fst (updatePatient s t1 t3 i u) = Resolve r \<longrightarrow>
      (\<exists>n. findIndex (has_id i) (patients s) = Some n \<and>
          patients (snd (updatePatient s t1 t3 i u)) = (patients s)[n := r] \<and>
          audited s (snd (updatePatient s t1 t3 i u)) ''UPDATE'' (js_String (fld (patients s ! n) ''id'')))) \<and>
   (\<forall>r. fst (updateClinicalNote s t1 t3 i u) = Resolve r \<longrightarrow>
      (\<exists>n. findIndex (has_id i) (clinicalNotes s) = Some n \<and>
          clinicalNotes (snd (updateClinicalNote s t1 t3 i u)) = (clinicalNotes s)[n := r] \<and>
          audited s (snd (updateClinicalNote s t1 t3 i u)) ''UPDATE'' (js_String (fld (clinicalNotes s ! n) ''id'')))) \<and>
   (\<forall>r. fst (updateTask s t1 t3 i u) = Resolve r \<longrightarrow>
      (\<exists>n. findIndex (has_id i) (tasks s) = Some n \<and>
          tasks (snd (updateTask s t1 t3 i u)) = (tasks s)[n := r] \<and>
          audited s (snd (updateTask s t1 t3 i u)) ''UPDATE'' (js_String (fld (tasks s ! n) ''id'')))) \<and>
   (\<forall>r. fst (deletePatient s t3 i) = Resolve r \<longrightarrow>
      (\<exists>n. findIndex (has_id i) (patients s) = Some n \<and>
          patients (snd (deletePatient s t3 i)) = splice1 n (patients s) \<and>
          audited s (snd (deletePatient s t3 i)) ''DELETE'' (js_String (fld (patients s ! n) ''id'')))) \<and>
   (\<forall>r. fst (removeAllergy s t3 i) = Resolve r \<longrightarrow>
      (\<exists>n. findIndex (has_id i) (allergies s) = Some n \<and>
          allergies (snd (removeAllergy s t3 i)) = splice1 n (allergies s) \<and>
          audited s (snd (removeAllergy s t3 i)) ''DELETE'' (js_String (fld (allergies s ! n) ''id'')))) \<and>
   (\<forall>w. fst (incrementWorkflowUsage s t3 i) = Resolve (Some w) \<longrightarrow>
      (\<exists>n. findIndex (wf_has_id i) (workflows s) = Some n \<and>
          workflows (snd (incrementWorkflowUsage s t3 i)) = (workflows s)[n := w] \<and>
          JNum (wf_id (workflows s ! n)) = i \<and>
          audited s (snd (incrementWorkflowUsage s t3 i)) ''UPDATE'' (js_String i)))"
proof -
  note c = audited_createPatient [of s t0 t1 t2 t3 d] audited_createClinicalNote [of s t1 t2 t3 d]
    audited_addAllergy [of s t3 d] audited_addChronicCondition [of s t3 d] audited_createTask [of s t1 t3 d]
    audited_createAppointment [of s t1 t3 d] audited_createReferral [of s t1 t3 d]
  note w = audited_updatePatient [of s t1 t3 i u] audited_updateClinicalNote [of s t1 t3 i u]
    audited_updateTask [of s t1 t3 i u] audited_deletePatient [of s t3 i] audited_removeAllergy [of s t3 i]
    audited_incrementWorkflowUsage [of s t3 i]
  show ?thesis
    by (intro conjI allI impI c) (erule w)+
qed

text \<open>All thirteen writing operations on the sample store.\<close>

theorem every_write_audited_once_witness:
  "(\<exists>r. fst (createPatient sample_db 6 7 8 9 [''patientId'' \<mapsto> JStr ''P20250001'']) = Resolve r \<and>
        audited sample_db (snd (createPatient sample_db 6 7 8 9 [''patientId'' \<mapsto> JStr ''P20250001''])) ''CREATE'' (js_String (fld r ''id''))) \<and>
   (\<exists>r. fst (createClinicalNote sample_db 7 8 9 [''patientId'' \<mapsto> JStr ''P20250001'']) = Resolve r \<and>
        audited sample_db (snd (createClinicalNote sample_db 7 8 9 [''patientId'' \<mapsto> JStr ''P20250001''])) ''CREATE'' (js_String (fld r ''id''))) \<and>
   (\<exists>r. fst (addAllergy sample_db 9 [''patientId'' \<mapsto> JStr ''P20250001'']) = Resolve r \<and>
        audited sample_db (snd (addAllergy sample_db 9 [''patientId'' \<mapsto> JStr ''P20250001''])) ''CREATE'' (js_String (fld r ''id''))) \<and>
   (\<exists>r. fst (addChronicCondition sample_db 9 [''patientId'' \<mapsto> JStr ''P20250001'']) = Resolve r \<and>
        audited sample_db (snd (addChronicCondition sample_db 9 [''patientId'' \<mapsto> JStr ''P20250001''])) ''CREATE'' (js_String (fld r ''id''))) \<and>
   (\<exists>r. fst (createTask sample_db 7 9 [''patientId'' \<mapsto> JStr ''P20250001'']) = Resolve r \<and>
        audited sample_db (snd (createTask sample_db 7 9 [''patientId'' \<mapsto> JStr ''P20250001''])) ''CREATE'' (js_String (fld r ''id''))) \<and>
   (\<exists>r. fst (createAppointment sample_db 7 9 [''patientId'' \<mapsto> JStr ''P20250001'']) = Resolve r \<and>
        audited sample_db (snd (createAppointment sample_db 7 9 [''patientId'' \<mapsto> JStr ''P20250001''])) ''CREATE'' (js_String (fld r ''id''))) \<and>
   (\<exists>r. fst (createReferral sample_db 7 9 [''patientId'' \<mapsto> JStr ''P20250001'']) = Resolve r \<and>
        audited sample_db (snd (createReferral sample_db 7 9 [''patientId'' \<mapsto> JStr ''P20250001''])) ''CREATE'' (js_String (fld r ''id''))) \<and>
   (\<exists>n. findIndex (has_id (JStr ''P20250001'')) (patients sample_db) = Some n \<and>
          patients (snd (updatePatient sample_db 7 9 (JStr ''P20250001'') [''notes'' \<mapsto> JStr ''seen''])) = (patients sample_db)[n := ((patients sample_db ! 2 ++ [''notes'' \<mapsto> JStr ''seen''])(''updatedAt'' \<mapsto> JDate 7))] \<and>
          audited sample_db (snd (updatePatient sample_db 7 9 (JStr ''P20250001'') [''notes'' \<mapsto> JStr ''seen''])) ''UPDATE'' (js_String (fld (patients sample_db ! n) ''id''))) \<and>
   (\<exists>n. findIndex (has_id (JNum 1)) (clinicalNotes sample_db) = Some n \<and>
          clinicalNotes (snd (updateClinicalNote sample_db 7 9 (JNum 1) [''notes'' \<mapsto> JStr ''seen''])) = (clinicalNotes sample_db)[n := ((clinicalNotes sample_db ! 0 ++ [''notes'' \<mapsto> JStr ''seen''])(''updatedAt'' \<mapsto> JDate 7))] \<and>
          audited sample_db (snd (updateClinicalNote sample_db 7 9 (JNum 1) [''notes'' \<mapsto> JStr ''seen''])) ''UPDATE'' (js_String (fld (clinicalNotes sample_db ! n) ''id''))) \<and>
   (\<exists>n. findIndex (has_id (JNum 1)) (tasks sample_db) = Some n \<and>
          tasks (snd (updateTask sample_db 7 9 (JNum 1) [''notes'' \<mapsto> JStr ''seen''])) = (tasks sample_db)[n := (task_merge (tasks sample_db ! 0) [''notes'' \<mapsto> JStr ''seen''] 7)] \<and>
          audited sample_db (snd (updateTask sample_db 7 9 (JNum 1) [''notes'' \<mapsto> JStr ''seen''])) ''UPDATE'' (js_String (fld (tasks sample_db ! n) ''id''))) \<and>
   (\<exists>n. findIndex (has_id (JStr ''P20250003'')) (patients sample_db) = Some n \<and>
          patients (snd (deletePatient sample_db 9 (JStr ''P20250003''))) = splice1 n (patients sample_db) \<and>
          audited sample_db (snd (deletePatient sample_db 9 (JStr ''P20250003''))) ''DELETE'' (js_String (fld (patients sample_db ! n) ''id''))) \<and>
   (\<exists>n. findIndex (has_id (JNum 2)) (allergies sample_db) = Some n \<and>
          allergies (snd (removeAllergy sample_db 9 (JNum 2))) = splice1 n (allergies sample_db) \<and>
          audited sample_db (snd (removeAllergy sample_db 9 (JNum 2))) ''DELETE'' (js_String (fld (allergies sample_db ! n) ''id''))) \<and>
   (\<exists>n. findIndex (wf_has_id (JNum 3)) (workflows sample_db) = Some n \<and>
          workflows (snd (incrementWorkflowUsage sample_db 9 (JNum 3))) = (workflows sample_db)[n := ((workflows sample_db ! 2)\<lparr> usageCount := usageCount (workflows sample_db ! 2) + 1 \<rparr>)] \<and>
          JNum (wf_id (workflows sample_db ! n)) = (JNum 3) \<and>
          audited sample_db (snd (incrementWorkflowUsage sample_db 9 (JNum 3))) ''UPDATE'' (js_String (JNum 3)))"
proof -
  have f1: "findIndex (has_id (JStr ''P20250001'')) (patients sample_db) = Some 2"
    by (simp add: sample_db_patients init_db_def has_id_def fld_def)
  have h1: "fst (updatePatient sample_db 7 9 (JStr ''P20250001'') [''notes'' \<mapsto> JStr ''seen'']) = Resolve ((patients sample_db ! 2 ++ [''notes'' \<mapsto> JStr ''seen''])(''updatedAt'' \<mapsto> JDate 7))"
    by (simp add: updatePatient_found [OF f1])
  note g1 = every_write_audited_once [where s = sample_db and ?t1.0 = 7 and ?t3.0 = 9 and i = "JStr ''P20250001''" and u = "[''notes'' \<mapsto> JStr ''seen'']",
                THEN conjunct2, THEN conjunct2, THEN conjunct2, THEN conjunct2, THEN conjunct2, THEN conjunct2, THEN conjunct2,
                THEN conjunct1, THEN spec, THEN mp, OF h1]
  have f2: "findIndex (has_id (JNum 1)) (clinicalNotes sample_db) = Some 0"
    by (simp add: sample_db_clinicalNotes init_db_def has_id_def fld_def)
  have h2: "fst (updateClinicalNote sample_db 7 9 (JNum 1) [''notes'' \<mapsto> JStr ''seen'']) = Resolve ((clinicalNotes sample_db ! 0 ++ [''notes'' \<mapsto> JStr ''seen''])(''updatedAt'' \<mapsto> JDate 7))"
    by (simp add: updateClinicalNote_found [OF f2])
  note g2 = every_write_audited_once [where s = sample_db and ?t1.0 = 7 and ?t3.0 = 9 and i = "JNum 1" and u = "[''notes'' \<mapsto> JStr ''seen'']",
                THEN conjunct2, THEN conjunct2, THEN conjunct2, THEN conjunct2, THEN conjunct2, THEN conjunct2, THEN conjunct2,
                THEN conjunct2, THEN conjunct1, THEN spec, THEN mp, OF h2]
  have f3: "findIndex (has_id (JNum 1)) (tasks sample_db) = Some 0"
    by (simp add: sample_db_tasks init_db_def has_id_def fld_def)
  have h3: "fst (updateTask sample_db 7 9 (JNum 1) [''notes'' \<mapsto> JStr ''seen'']) = Resolve (task_merge (tasks sample_db ! 0) [''notes'' \<mapsto> JStr ''seen''] 7)"
    by (simp add: updateTask_found [OF f3])
  note g3 = every_write_audited_once [where s = sample_db and ?t1.0 = 7 and ?t3.0 = 9 and i = "JNum 1" and u = "[''notes'' \<mapsto> JStr ''seen'']",
                THEN conjunct2, THEN conjunct2, THEN conjunct2, THEN conjunct2, THEN conjunct2, THEN conjunct2, THEN conjunct2,
                THEN conjunct2, THEN conjunct2, THEN conjunct1, THEN spec, THEN mp, OF h3]
  have f4: "findIndex (has_id (JStr ''P20250003'')) (patients sample_db) = Some 1"
    by (simp add: sample_db_patients init_db_def has_id_def fld_def)
  have h4: "fst (deletePatient sample_db 9 (JStr ''P20250003'')) = Resolve Success"
    by (simp add: deletePatient_found [OF f4])
  note g4 = every_write_audited_once [where s = sample_db and ?t3.0 = 9 and i = "JStr ''P20250003''",
                THEN conjunct2, THEN conjunct2, THEN conjunct2, THEN conjunct2, THEN conjunct2, THEN conjunct2, THEN conjunct2,
                THEN conjunct2, THEN conjunct2, THEN conjunct2, THEN conjunct1, THEN spec, THEN mp, OF h4]
  have f5: "findIndex (has_id (JNum 2)) (allergies sample_db) = Some 1"
    by (simp add: sample_db_allergies init_db_def has_id_def fld_def)
  have h5: "fst (removeAllergy sample_db 9 (JNum 2)) = Resolve Success"
    by (simp add: removeAllergy_found [OF f5])
  note g5 = every_write_audited_once [where s = sample_db and ?t3.0 = 9 and i = "JNum 2",
                THEN conjunct2, THEN conjunct2, THEN conjunct2, THEN conjunct2, THEN conjunct2, THEN conjunct2, THEN conjunct2,
                THEN conjunct2, THEN conjunct2, THEN conjunct2, THEN conjunct2, THEN conjunct1, THEN spec, THEN mp, OF h5]
  have f6: "findIndex (wf_has_id (JNum 3)) (workflows sample_db) = Some 2"
    by (simp add: sample_db_workflows init_db_def wf_has_id_def)
  have h6: "fst (incrementWorkflowUsage sample_db 9 (JNum 3)) = Resolve (Some ((workflows sample_db ! 2)\<lparr> usageCount := usageCount (workflows sample_db ! 2) + 1 \<rparr>))"
    by (simp add: incrementWorkflowUsage_found [OF f6])
  note g6 = every_write_audited_once [where s = sample_db and ?t3.0 = 9 and i = "JNum 3",
                THEN conjunct2, THEN conjunct2, THEN conjunct2, THEN conjunct2, THEN conjunct2, THEN conjunct2, THEN conjunct2,
                THEN conjunct2, THEN conjunct2, THEN conjunct2, THEN conjunct2, THEN conjunct2, THEN spec, THEN mp, OF h6]
  note e = every_write_audited_once [where s = sample_db and ?t0.0 = 6 and ?t1.0 = 7 and ?t2.0 = 8 and ?t3.0 = 9
             and d = "[''patientId'' \<mapsto> JStr ''P20250001'']"]
  note c1 = e [THEN conjunct1]
  note c2 = e [THEN conjunct2, THEN conjunct1]
  note c3 = e [THEN conjunct2, THEN conjunct2, THEN conjunct1]
  note c4 = e [THEN conjunct2, THEN conjunct2, THEN conjunct2, THEN conjunct1]
  note c5 = e [THEN conjunct2, THEN conjunct2, THEN conjunct2, THEN conjunct2, THEN conjunct1]
  note c6 = e [THEN conjunct2, THEN conjunct2, THEN conjunct2, THEN conjunct2, THEN conjunct2, THEN conjunct1]
  note c7 = e [THEN conjunct2, THEN conjunct2, THEN conjunct2, THEN conjunct2, THEN conjunct2, THEN conjunct2, THEN conjunct1]
  show ?thesis
    by (intro conjI c1 c2 c3 c4 c5 c6 c7 g1 g2 g3 g4 g5 g6)
qed

section \<open>Deleting a patient\<close>

lemma filter_splice1:
  "findIndex P xs = Some n \<Longrightarrow> filter P (splice1 n xs) = tl (filter P xs)"
proof (induction xs arbitrary: n)
  case Nil
  then show ?case by simp
next
  case (Cons x xs)
  show ?case
  proof (cases "P x")
    case True
    with Cons.prems show ?thesis by (simp add: splice1_def)
  next
    case False
    with Cons.prems obtain k where k: "findIndex P xs = Some k" "n = Suc k"
      by auto
    from Cons.IH [OF k(1)] False k(2) show ?thesis
      by (simp add: splice1_def)
  qed
qed

lemma find_None_filter: "find P xs = None \<longleftrightarrow> filter P xs = []"
  by (induction xs) auto

lemma find_after_splice1:
  assumes "findIndex P xs = Some n"
  shows "find P (splice1 n xs) = None \<longleftrightarrow> length (filter P xs) = 1"
proof -
  from findIndex_Some [OF assms] have "xs ! n \<in> set (filter P xs)"
    by simp
  then have "filter P xs \<noteq> []"
    by (cases "filter P xs") simp_all
  then have "tl (filter P xs) = [] \<longleftrightarrow> length (filter P xs) = 1"
    by (cases "filter P xs") auto
  then show ?thesis
    by (simp add: find_None_filter filter_splice1 [OF assms])
qed

lemma getPatientById_rejects:
  "fst (getPatientById s i) = Reject ''Patient not found'' \<longleftrightarrow> find (has_id i) (patients s) = None"
  by (simp add: getPatientById_def split: option.splits)

text \<open>
  C1, as the code has it. When some stored patient carries the identifier \<open>P\<close>,
  \<^verbatim>\<open>deletePatient(P)\<close> succeeds, removes the first patient that carries \<open>P\<close>, and keeps of
  the six dependent sequences exactly the records whose patient reference is not \<open>P\<close>: a
  scan of all of them finds none that refers to \<open>P\<close>. A following \<^verbatim>\<open>getPatientById(P)\<close> is
  rejected as not found exactly when \<open>P\<close> was the identifier of a single stored patient.
\<close>

theorem deletePatient_cascade:
  assumes "\<exists>p \<in> set (patients s). has_id P p"
  shows "\<exists>n. findIndex (has_id P) (patients s) = Some n \<and>
             fst (deletePatient s t P) = Resolve Success \<and>
             patients (snd (deletePatient s t P)) = splice1 n (patients s) \<and>
             dependents (snd (deletePatient s t P)) = filter (\<lambda>r. \<not> refers_to P r) (dependents s) \<and>
             (\<forall>r \<in> set (dependents (snd (deletePatient s t P))). \<not> refers_to P r) \<and>
             (fst (getPatientById (snd (deletePatient s t P)) P) = Reject ''Patient not found''
                \<longleftrightarrow> length (filter (has_id P) (patients s)) = 1)"
proof -
  from findIndex_present [OF assms]
  obtain n where n: "findIndex (has_id P) (patients s) = Some n" ..
  note f = deletePatient_found [OF n, of t]
  have p: "patients (snd (deletePatient s t P)) = splice1 n (patients s)"
    by (simp add: f logAudit_def)
  have d: "dependents (snd (deletePatient s t P)) = filter (\<lambda>r. \<not> refers_to P r) (dependents s)"
    by (simp add: f logAudit_def dependents_def)
  have z: "\<forall>r \<in> set (dependents (snd (deletePatient s t P))). \<not> refers_to P r"
    by (simp add: d)
  have g: "fst (getPatientById (snd (deletePatient s t P)) P) = Reject ''Patient not found''
                \<longleftrightarrow> length (filter (has_id P) (patients s)) = 1"
    by (simp add: getPatientById_rejects p find_after_splice1 [OF n])
  have r: "fst (deletePatient s t P) = Resolve Success"
    by (simp add: f)
  from n r p d z g show ?thesis
    by (intro exI [of _ n] conjI)
qed

text \<open>Deleting the patient \<^verbatim>\<open>P20250001\<close> of the initial store, the only one of that identifier.\<close>

theorem deletePatient_cascade_witness:
  "(\<exists>p \<in> set (patients init_db). has_id (JStr ''P20250001'') p) \<and>
   (\<exists>n. findIndex (has_id (JStr ''P20250001'')) (patients init_db) = Some n \<and>
        fst (deletePatient init_db 9 (JStr ''P20250001'')) = Resolve Success \<and>
        patients (snd (deletePatient init_db 9 (JStr ''P20250001''))) = splice1 n (patients init_db) \<and>
        dependents (snd (deletePatient init_db 9 (JStr ''P20250001'')))
          = filter (\<lambda>r. \<not> refers_to (JStr ''P20250001'') r) (dependents init_db) \<and>
        filter (refers_to (JStr ''P20250001'')) (dependents (snd (deletePatient init_db 9 (JStr ''P20250001'')))) = [] \<and>
        fst (getPatientById (snd (deletePatient init_db 9 (JStr ''P20250001''))) (JStr ''P20250001''))
          = Reject ''Patient not found'')"
proof -
  have h: "\<exists>p \<in> set (patients init_db). has_id (JStr ''P20250001'') p"
    by (simp add: init_db_def has_id_def fld_def)
  have l: "length (filter (has_id (JStr ''P20250001'')) (patients init_db)) = 1"
    by (simp add: init_db_def has_id_def fld_def)
  from deletePatient_cascade [OF h, of 9] l h show ?thesis
    by (elim exE conjE) (intro conjI exI; (assumption | simp add: filter_empty_conv))
qed

text \<open>
  C1 as stated fails on a reachable store: once a second patient has been created under
  the identifier \<^verbatim>\<open>P20250001\<close>, deleting \<^verbatim>\<open>P20250001\<close> removes the first of the two, and
  \<^verbatim>\<open>getPatientById\<close> then resolves with the second.
\<close>

lemma twin_db_patients:
  "patients twin_db = patients init_db @
     [[''id'' \<mapsto> JStr ''P20250001'', ''firstName'' \<mapsto> JStr ''Twin'', ''status'' \<mapsto> JStr ''active'',
       ''createdAt'' \<mapsto> JDate 6, ''updatedAt'' \<mapsto> JDate 7]]"
  by (simp add: twin_db_def createPatient_def Let_def logAudit_def)

lemma twin_db_reachable: "reachable twin_db"
  unfolding twin_db_def by (rule r_createPatient) (rule r_init)

theorem deletePatient_duplicate_id_counterexample:
  "reachable twin_db \<and>
   has_id (JStr ''P20250001'') (patients twin_db ! 2) \<and>
   fst (deletePatient twin_db 9 (JStr ''P20250001'')) = Resolve Success \<and>
   fst (getPatientById (snd (deletePatient twin_db 9 (JStr ''P20250001''))) (JStr ''P20250001''))
     \<noteq> Reject ''Patient not found'' \<and>
   fst (getPatientById (snd (deletePatient twin_db 9 (JStr ''P20250001''))) (JStr ''P20250001''))
     = Resolve ((map_option Plain \<circ>
                  [''id'' \<mapsto> JStr ''P20250001'', ''firstName'' \<mapsto> JStr ''Twin'',
                   ''status'' \<mapsto> JStr ''active'', ''createdAt'' \<mapsto> JDate 6, ''updatedAt'' \<mapsto> JDate 7])
                (''allergies'' \<mapsto> Arr [], ''chronicConditions'' \<mapsto> Arr [], ''clinicalNotes'' \<mapsto> Arr [],
                 ''tasks'' \<mapsto> Arr [], ''appointments'' \<mapsto> Arr [], ''referrals'' \<mapsto> Arr []))"
proof -
  have f: "findIndex (has_id (JStr ''P20250001'')) (patients twin_db) = Some 2"
    by (simp add: twin_db_patients init_db_def has_id_def fld_def)
  have p: "has_id (JStr ''P20250001'') (patients twin_db ! 2)"
    by (simp add: twin_db_patients init_db_def has_id_def fld_def)
  note d = deletePatient_found [OF f, of 9]
  have o: "allergies twin_db = allergies init_db" "chronicConditions twin_db = chronicConditions init_db"
    "clinicalNotes twin_db = []" "tasks twin_db = []" "appointments twin_db = []" "referrals twin_db = []"
    by (simp_all add: twin_db_def createPatient_eq logAudit_def init_db_def)
  have g: "fst (getPatientById (snd (deletePatient twin_db 9 (JStr ''P20250001''))) (JStr ''P20250001''))
     = Resolve ((map_option Plain \<circ>
                  [''id'' \<mapsto> JStr ''P20250001'', ''firstName'' \<mapsto> JStr ''Twin'',
                   ''status'' \<mapsto> JStr ''active'', ''createdAt'' \<mapsto> JDate 6, ''updatedAt'' \<mapsto> JDate 7])
                (''allergies'' \<mapsto> Arr [], ''chronicConditions'' \<mapsto> Arr [], ''clinicalNotes'' \<mapsto> Arr [],
                 ''tasks'' \<mapsto> Arr [], ''appointments'' \<mapsto> Arr [], ''referrals'' \<mapsto> Arr []))"
    by (simp add: d logAudit_def getPatientById_def twin_db_patients o init_db_def splice1_def
        has_id_def refers_to_def fld_def)
  then have n: "fst (getPatientById (snd (deletePatient twin_db 9 (JStr ''P20250001''))) (JStr ''P20250001''))
     \<noteq> Reject ''Patient not found''"
    by simp
  have r: "fst (deletePatient twin_db 9 (JStr ''P20250001'')) = Resolve Success"
    by (simp add: d)
  from twin_db_reachable p r n g show ?thesis
    by (intro conjI)
qed

section \<open>Creating a patient and reading it back\<close>

lemma find_snoc_fresh:
  "\<forall>x \<in> set xs. \<not> P x \<Longrightarrow> P y \<Longrightarrow> find P (xs @ [y]) = Some y"
  by (induction xs) simp_all

lemma getPatientById_found:
  assumes "find (has_id i) (patients s) = Some p"
  shows "\<exists>v. getPatientById s i = (Resolve v, s) \<and> (\<forall>k. k \<notin> overlay_names \<longrightarrow> v k = map_option Plain (p k))"
  using assms by (simp add: getPatientById_def overlay_names_def)

text \<open>
  C6, as the code has it. \<^verbatim>\<open>createPatient(data)\<close> always succeeds; the identifier of the
  record it returns is the data's \<^verbatim>\<open>id\<close> when there is one, and \<^verbatim>\<open>P\<close> followed by the
  clock's milliseconds otherwise. When that identifier is a primitive value and no patient
  stored before carries it, \<^verbatim>\<open>getPatientById\<close> on it resolves, leaving the store as it is,
  with a record in which every field of the data has the data's value (other than
  \<^verbatim>\<open>status\<close>, \<^verbatim>\<open>createdAt\<close>, \<^verbatim>\<open>updatedAt\<close>, which the store writes, and the six names
  of dependent lists, which the read lays over), the status is \<^verbatim>\<open>'active'\<close> and the
  created and updated stamps are the clock's readings.
\<close>

theorem createPatient_then_getPatientById:
  assumes "fst (createPatient s t0 t1 t2 t3 d) = Resolve r"
    and "has_id (fld r ''id'') r"
    and "\<forall>p \<in> set (patients s). \<not> has_id (fld r ''id'') p"
  shows "\<exists>v. getPatientById (snd (createPatient s t0 t1 t2 t3 d)) (fld r ''id'')
               = (Resolve v, snd (createPatient s t0 t1 t2 t3 d)) \<and>
             (\<forall>k x. d k = Some x \<and> k \<notin> stamped_names \<union> overlay_names \<longrightarrow> v k = Some (Plain x)) \<and>
             (d ''id'' = None \<longrightarrow> v ''id'' = Some (Plain (JStr (''P'' @ string_of_nat t0)))) \<and>
             v ''status'' = Some (Plain (JStr ''active'')) \<and>
             v ''createdAt'' = Some (Plain (JDate t1)) \<and>
             v ''updatedAt'' = Some (Plain (JDate t2))"
proof -
  let ?s' = "snd (createPatient s t0 t1 t2 t3 d)"
  from assms(1) have r: "r = ([''id'' \<mapsto> JStr (''P'' @ string_of_nat t0)] ++ d)
      (''status'' \<mapsto> JStr ''active'', ''createdAt'' \<mapsto> JDate t1, ''updatedAt'' \<mapsto> JDate t2)"
    by (simp add: createPatient_eq)
  have p: "patients ?s' = patients s @ [r]"
    by (simp add: createPatient_eq logAudit_def r)
  from find_snoc_fresh [of "patients s" "has_id (fld r ''id'')" r, OF assms(3) assms(2)] have "find (has_id (fld r ''id'')) (patients ?s') = Some r"
    by (simp add: p)
  from getPatientById_found [OF this] obtain v where
    v: "getPatientById ?s' (fld r ''id'') = (Resolve v, ?s')"
       "\<forall>k. k \<notin> overlay_names \<longrightarrow> v k = map_option Plain (r k)"
    by (elim exE conjE)
  have o: "''id'' \<notin> overlay_names" "''status'' \<notin> overlay_names" "''createdAt'' \<notin> overlay_names"
    "''updatedAt'' \<notin> overlay_names"
    by (simp_all add: overlay_names_def)
  have 1: "\<forall>k x. d k = Some x \<and> k \<notin> stamped_names \<union> overlay_names \<longrightarrow> v k = Some (Plain x)"
    using v(2) by (simp add: r stamped_names_def map_add_def)
  have 2: "d ''id'' = None \<longrightarrow> v ''id'' = Some (Plain (JStr (''P'' @ string_of_nat t0)))"
    using v(2) [THEN spec, THEN mp, OF o(1)] by (simp add: r map_add_def)
  have 3: "v ''status'' = Some (Plain (JStr ''active''))"
    using v(2) [THEN spec, THEN mp, OF o(2)] by (simp add: r)
  have 4: "v ''createdAt'' = Some (Plain (JDate t1))"
    using v(2) [THEN spec, THEN mp, OF o(3)] by (simp add: r)
  have 5: "v ''updatedAt'' = Some (Plain (JDate t2))"
    using v(2) [THEN spec, THEN mp, OF o(4)] by (simp add: r)
  from v(1) 1 2 3 4 5 show ?thesis
    by (intro exI [of _ v] conjI)
qed

text \<open>The example of the specification: Ada Lovelace is created and read back.\<close>

lemma clock_text: "string_of_nat 1736500000000 = ''1736500000000''"
  by (simp add: string_of_nat.simps digit_char_def)

lemma ada_db_patients:
  "patients ada_db = patients init_db @
     [[''id'' \<mapsto> JStr ''P1736500000000'', ''firstName'' \<mapsto> JStr ''Ada'', ''lastName'' \<mapsto> JStr ''Lovelace'',
       ''dateOfBirth'' \<mapsto> JStr ''1990-01-01'', ''bloodType'' \<mapsto> JStr ''O+'',
       ''status'' \<mapsto> JStr ''active'', ''createdAt'' \<mapsto> JDate 1736500000000,
       ''updatedAt'' \<mapsto> JDate 1736500000000]]"
  by (simp add: ada_db_def createPatient_eq logAudit_def clock_text)

lemma ada_db_reachable: "reachable ada_db"
  unfolding ada_db_def by (rule r_createPatient) (rule r_init)

theorem createPatient_then_getPatientById_witness:
  "\<exists>v. getPatientById ada_db (JStr ''P1736500000000'') = (Resolve v, ada_db) \<and>
       v ''firstName'' = Some (Plain (JStr ''Ada'')) \<and>
       v ''lastName'' = Some (Plain (JStr ''Lovelace'')) \<and>
       v ''id'' = Some (Plain (JStr ''P1736500000000'')) \<and>
       v ''status'' = Some (Plain (JStr ''active'')) \<and>
       v ''createdAt'' = Some (Plain (JDate 1736500000000)) \<and>
       v ''updatedAt'' = Some (Plain (JDate 1736500000000))"
proof -
  let ?d = "[''firstName'' \<mapsto> JStr ''Ada'', ''lastName'' \<mapsto> JStr ''Lovelace'',
        ''dateOfBirth'' \<mapsto> JStr ''1990-01-01'', ''bloodType'' \<mapsto> JStr ''O+'']"
  let ?r = "([''id'' \<mapsto> JStr (''P'' @ string_of_nat 1736500000000)] ++ ?d)
              (''status'' \<mapsto> JStr ''active'', ''createdAt'' \<mapsto> JDate 1736500000000, ''updatedAt'' \<mapsto> JDate 1736500000000)"
  have i: "fld ?r ''id'' = JStr ''P1736500000000''"
    by (simp add: fld_def map_add_def clock_text)
  have h1: "fst (createPatient init_db 1736500000000 1736500000000 1736500000000 1736500000000 ?d) = Resolve ?r"
    by (simp add: createPatient_eq)
  have h2: "has_id (fld ?r ''id'') ?r"
    by (simp only: i) (simp add: has_id_def fld_def map_add_def clock_text)
  have h3: "\<forall>p \<in> set (patients init_db). \<not> has_id (fld ?r ''id'') p"
    by (simp only: i) (simp add: init_db_def has_id_def fld_def)
  from createPatient_then_getPatientById [OF h1 h2 h3]
  obtain v where v:
    "getPatientById (snd (createPatient init_db 1736500000000 1736500000000 1736500000000 1736500000000 ?d)) (fld ?r ''id'')
       = (Resolve v, snd (createPatient init_db 1736500000000 1736500000000 1736500000000 1736500000000 ?d))"
    "\<forall>k x. ?d k = Some x \<and> k \<notin> stamped_names \<union> overlay_names \<longrightarrow> v k = Some (Plain x)"
    "?d ''id'' = None \<longrightarrow> v ''id'' = Some (Plain (JStr (''P'' @ string_of_nat 1736500000000)))"
    "v ''status'' = Some (Plain (JStr ''active''))"
    "v ''createdAt'' = Some (Plain (JDate 1736500000000))"
    "v ''updatedAt'' = Some (Plain (JDate 1736500000000))"
    by (elim exE conjE)
  from v(1) have 1: "getPatientById ada_db (JStr ''P1736500000000'') = (Resolve v, ada_db)"
    by (simp only: i ada_db_def)
  have 2: "v ''firstName'' = Some (Plain (JStr ''Ada''))"
    using v(2) [THEN spec, THEN spec, of "''firstName''" "JStr ''Ada''"]
    by (simp add: stamped_names_def overlay_names_def)
  have 3: "v ''lastName'' = Some (Plain (JStr ''Lovelace''))"
    using v(2) [THEN spec, THEN spec, of "''lastName''" "JStr ''Lovelace''"]
    by (simp add: stamped_names_def overlay_names_def)
  have 4: "v ''id'' = Some (Plain (JStr ''P1736500000000''))"
    using v(3) by (simp add: clock_text)
  from 1 2 3 4 v(4-6) show ?thesis
    by (intro exI [of _ v] conjI)
qed

text \<open>
  C6 as stated fails on a reachable store: a second patient created while the clock still
  reads the same millisecond gets the identifier of the first; two stored patients then
  carry it, and \<^verbatim>\<open>getPatientById\<close> on the identifier returned for Bob answers with Ada.
\<close>

theorem createPatient_same_millisecond_counterexample:
  "reachable ada_db \<and>
   fst (createPatient ada_db 1736500000000 1736500000000 1736500000000 1736500000000
          [''firstName'' \<mapsto> JStr ''Bob'', ''lastName'' \<mapsto> JStr ''Byron''])
     = Resolve [''id'' \<mapsto> JStr ''P1736500000000'', ''firstName'' \<mapsto> JStr ''Bob'',
                ''lastName'' \<mapsto> JStr ''Byron'', ''status'' \<mapsto> JStr ''active'',
                ''createdAt'' \<mapsto> JDate 1736500000000, ''updatedAt'' \<mapsto> JDate 1736500000000] \<and>
   length (filter (has_id (JStr ''P1736500000000''))
             (patients (snd (createPatient ada_db 1736500000000 1736500000000 1736500000000 1736500000000
                               [''firstName'' \<mapsto> JStr ''Bob'', ''lastName'' \<mapsto> JStr ''Byron''])))) = 2 \<and>
   fst (getPatientById
          (snd (createPatient ada_db 1736500000000 1736500000000 1736500000000 1736500000000
                  [''firstName'' \<mapsto> JStr ''Bob'', ''lastName'' \<mapsto> JStr ''Byron'']))
          (JStr ''P1736500000000''))
     = Resolve ((map_option Plain \<circ>
                  [''id'' \<mapsto> JStr ''P1736500000000'', ''firstName'' \<mapsto> JStr ''Ada'',
                   ''lastName'' \<mapsto> JStr ''Lovelace'', ''dateOfBirth'' \<mapsto> JStr ''1990-01-01'',
                   ''bloodType'' \<mapsto> JStr ''O+'', ''status'' \<mapsto> JStr ''active'',
                   ''createdAt'' \<mapsto> JDate 1736500000000, ''updatedAt'' \<mapsto> JDate 1736500000000])
                (''allergies'' \<mapsto> Arr [], ''chronicConditions'' \<mapsto> Arr [], ''clinicalNotes'' \<mapsto> Arr [],
                 ''tasks'' \<mapsto> Arr [], ''appointments'' \<mapsto> Arr [], ''referrals'' \<mapsto> Arr []))"
proof -
  let ?b = "[''firstName'' \<mapsto> JStr ''Bob'', ''lastName'' \<mapsto> JStr ''Byron'']"
  let ?s = "snd (createPatient ada_db 1736500000000 1736500000000 1736500000000 1736500000000 ?b)"
  have 1: "fst (createPatient ada_db 1736500000000 1736500000000 1736500000000 1736500000000 ?b)
     = Resolve [''id'' \<mapsto> JStr ''P1736500000000'', ''firstName'' \<mapsto> JStr ''Bob'',
                ''lastName'' \<mapsto> JStr ''Byron'', ''status'' \<mapsto> JStr ''active'',
                ''createdAt'' \<mapsto> JDate 1736500000000, ''updatedAt'' \<mapsto> JDate 1736500000000]"
    by (simp add: createPatient_eq clock_text)
  have p: "patients ?s = patients ada_db @
             [[''id'' \<mapsto> JStr ''P1736500000000'', ''firstName'' \<mapsto> JStr ''Bob'',
               ''lastName'' \<mapsto> JStr ''Byron'', ''status'' \<mapsto> JStr ''active'',
               ''createdAt'' \<mapsto> JDate 1736500000000, ''updatedAt'' \<mapsto> JDate 1736500000000]]"
    by (simp add: createPatient_eq logAudit_def clock_text)
  have o: "allergies ?s = allergies init_db" "chronicConditions ?s = chronicConditions init_db"
    "clinicalNotes ?s = []" "tasks ?s = []" "appointments ?s = []" "referrals ?s = []"
    by (simp_all add: ada_db_def createPatient_eq logAudit_def init_db_def)
  have 2: "length (filter (has_id (JStr ''P1736500000000'')) (patients ?s)) = 2"
    by (simp only: p) (simp add: ada_db_patients init_db_def has_id_def fld_def)
  have 3: "fst (getPatientById ?s (JStr ''P1736500000000''))
     = Resolve ((map_option Plain \<circ>
                  [''id'' \<mapsto> JStr ''P1736500000000'', ''firstName'' \<mapsto> JStr ''Ada'',
                   ''lastName'' \<mapsto> JStr ''Lovelace'', ''dateOfBirth'' \<mapsto> JStr ''1990-01-01'',
                   ''bloodType'' \<mapsto> JStr ''O+'', ''status'' \<mapsto> JStr ''active'',
                   ''createdAt'' \<mapsto> JDate 1736500000000, ''updatedAt'' \<mapsto> JDate 1736500000000])
                (''allergies'' \<mapsto> Arr [], ''chronicConditions'' \<mapsto> Arr [], ''clinicalNotes'' \<mapsto> Arr [],
                 ''tasks'' \<mapsto> Arr [], ''appointments'' \<mapsto> Arr [], ''referrals'' \<mapsto> Arr []))"
    by (simp add: getPatientById_def p o ada_db_patients init_db_def has_id_def refers_to_def fld_def)
  from ada_db_reachable 1 2 3 show ?thesis
    by (intro conjI)
qed

section \<open>Searching patients\<close>

lemma field_includes_string:
  "is_string (fld p f) \<Longrightarrow> field_includes lc p f (lc q) = Some (contains_ci lc (fld p f) q)"
  by (cases "fld p f") (simp_all add: is_string_def field_includes_def contains_ci_def str_includes_sublist)

lemma field_includes_no_string:
  "\<not> is_string (fld p f) \<Longrightarrow> field_includes lc p f lq = None"
  by (cases "fld p f") (simp_all add: is_string_def field_includes_def)

lemma contains_ci_is_string: "contains_ci lc v q \<Longrightarrow> is_string v"
  by (cases v) (simp_all add: contains_ci_def is_string_def)

lemma or_else_Some: "or_else (Some a) b = (if a then Some True else b)"
  by (simp add: or_else_def)

lemma or_else_None: "or_else None b = None"
  by (simp add: or_else_def)

text \<open>What the test on one patient gives: a raise, or whether the patient is a hit.\<close>

lemma search_test_cases:
  "search_test lc (lc q) p = (if search_raises lc q p then None else Some (search_spec lc q p))"
proof -
  have f: "field_includes lc p f (lc q) =
             (if is_string (fld p f) then Some (contains_ci lc (fld p f) q) else None)" for f
    by (simp add: field_includes_string field_includes_no_string)
  have c: "contains_ci lc (fld p f) q \<Longrightarrow> is_string (fld p f)" for f
    by (rule contains_ci_is_string)
  show ?thesis
    unfolding search_test_def search_raises_def search_spec_def f
    using c [of "''firstName''"] c [of "''lastName''"] c [of "''id''"] c [of "''email''"]
    by (auto simp: or_else_Some or_else_None)
qed

lemma filter_raising_total:
  "\<forall>x \<in> set xs. P x = Some (Q x) \<Longrightarrow> filter_raising P xs = Some (filter Q xs)"
  by (induction xs) simp_all

lemma filter_raising_None:
  "\<exists>x \<in> set xs. P x = None \<Longrightarrow> filter_raising P xs = None"
proof (induction xs)
  case Nil
  then show ?case by simp
next
  case (Cons a xs)
  show ?case
  proof (cases "P a")
    case None
    then show ?thesis by simp
  next
    case (Some b)
    with Cons.prems have "\<exists>x \<in> set xs. P x = None"
      by auto
    from Cons.IH [OF this] Some show ?thesis
      by simp
  qed
qed

lemma searchPatients_cases:
  "searchPatients lc s (JStr q) =
     (if \<exists>p \<in> set (patients s). search_raises lc q p then (ThrowTypeError, s)
      else (Resolve (filter (search_spec lc q) (patients s)), s))"
proof (cases "\<exists>p \<in> set (patients s). search_raises lc q p")
  case True
  then have "\<exists>p \<in> set (patients s). search_test lc (lc q) p = None"
    by (simp add: search_test_cases)
  from filter_raising_None [OF this] True show ?thesis
    by (simp add: searchPatients_def)
next
  case False
  then have "\<forall>p \<in> set (patients s). search_test lc (lc q) p = Some (search_spec lc q p)"
    by (simp add: search_test_cases)
  from filter_raising_total [OF this] False show ?thesis
    by (simp add: searchPatients_def)
qed

lemma searchable_no_raise: "searchable p \<Longrightarrow> \<not> search_raises lc q p"
  by (simp add: searchable_def search_raises_def)

lemma no_email_raises:
  "is_string (fld p ''firstName'') \<Longrightarrow> is_string (fld p ''lastName'') \<Longrightarrow> is_string (fld p ''id'') \<Longrightarrow>
   \<not> is_string (fld p ''email'') \<Longrightarrow>
   search_raises lc q p \<longleftrightarrow>
     \<not> (contains_ci lc (fld p ''firstName'') q \<or> contains_ci lc (fld p ''lastName'') q \<or>
        contains_ci lc (fld p ''id'') q)"
  by (simp add: search_raises_def)

lemma blank_db_patients:
  "patients blank_db = patients init_db @
     [[''id'' \<mapsto> JStr ''P5'', ''status'' \<mapsto> JStr ''active'',
       ''createdAt'' \<mapsto> JDate 6, ''updatedAt'' \<mapsto> JDate 7]]"
  by (simp add: blank_db_def createPatient_def Let_def logAudit_def string_of_nat.simps digit_char_def)

lemma blank_db_reachable: "reachable blank_db"
  unfolding blank_db_def by (rule r_createPatient) (rule r_init)

lemma blank_db_search: "searchPatients lc blank_db query = (ThrowTypeError, blank_db)"
proof (cases query)
  case (JStr q)
  have "\<exists>p \<in> set (patients blank_db). search_raises lc q p"
    by (simp add: blank_db_patients search_raises_def is_string_def fld_def)
  then show ?thesis
    by (simp add: JStr searchPatients_cases)
qed (simp_all add: searchPatients_def)

text \<open>
  C10, as the code has it. \<^verbatim>\<open>searchPatients(query)\<close> never changes the store. With a
  query that is no string it raises a \<^verbatim>\<open>TypeError\<close>. With a string query it raises a
  \<^verbatim>\<open>TypeError\<close> when the test raises on some stored patient, that is when, going through
  \<^verbatim>\<open>firstName\<close>, \<^verbatim>\<open>lastName\<close>, \<^verbatim>\<open>id\<close>, \<^verbatim>\<open>email\<close> in this order, the test comes to
  a field that holds no string before a field that contains the query; otherwise it
  resolves with the patients, in store order, one of whose four fields contains the query,
  letter case ignored. That every stored patient holds a string in all four fields is
  therefore enough for the call to return the matches, but it is not needed: a patient that
  lacks only the email makes a call raise exactly when none of its first name, last name
  and identifier contains the query. The store validates nothing, and the store reached by
  \<^verbatim>\<open>createPatient({})\<close>, whose new patient has no first name, makes every call raise.
\<close>

theorem searchPatients_result:
  "searchPatients lc s (JStr q) =
     (if \<exists>p \<in> set (patients s). search_raises lc q p then (ThrowTypeError, s)
      else (Resolve (filter (search_spec lc q) (patients s)), s)) \<and>
   (\<not> is_string query \<longrightarrow> searchPatients lc s query = (ThrowTypeError, s)) \<and>
   ((\<forall>p \<in> set (patients s). searchable p) \<longrightarrow>
      searchPatients lc s (JStr q) = (Resolve (filter (search_spec lc q) (patients s)), s)) \<and>
   (is_string (fld p ''firstName'') \<and> is_string (fld p ''lastName'') \<and> is_string (fld p ''id'') \<and>
    \<not> is_string (fld p ''email'') \<longrightarrow>
      (search_raises lc q p \<longleftrightarrow>
         \<not> (contains_ci lc (fld p ''firstName'') q \<or> contains_ci lc (fld p ''lastName'') q \<or>
            contains_ci lc (fld p ''id'') q))) \<and>
   reachable blank_db \<and>
   \<not> is_string (fld (last (patients blank_db)) ''firstName'') \<and>
   (\<forall>query. searchPatients lc blank_db query = (ThrowTypeError, blank_db))"
proof (intro conjI impI allI)
  show "searchPatients lc s (JStr q) =
     (if \<exists>p \<in> set (patients s). search_raises lc q p then (ThrowTypeError, s)
      else (Resolve (filter (search_spec lc q) (patients s)), s))"
    by (rule searchPatients_cases)
  show "searchPatients lc s query = (ThrowTypeError, s)" if "\<not> is_string query"
    using that by (cases query) (simp_all add: is_string_def searchPatients_def)
  show "searchPatients lc s (JStr q) = (Resolve (filter (search_spec lc q) (patients s)), s)"
    if "\<forall>p \<in> set (patients s). searchable p"
    using that by (simp add: searchPatients_cases searchable_no_raise)
  show "search_raises lc q p \<longleftrightarrow>
         \<not> (contains_ci lc (fld p ''firstName'') q \<or> contains_ci lc (fld p ''lastName'') q \<or>
            contains_ci lc (fld p ''id'') q)"
    if "is_string (fld p ''firstName'') \<and> is_string (fld p ''lastName'') \<and> is_string (fld p ''id'') \<and>
        \<not> is_string (fld p ''email'')"
    using that by (simp add: no_email_raises)
  show "reachable blank_db"
    by (rule blank_db_reachable)
  show "\<not> is_string (fld (last (patients blank_db)) ''firstName'')"
    by (simp add: blank_db_patients is_string_def fld_def)
  show "searchPatients lc blank_db query = (ThrowTypeError, blank_db)" for query
    by (rule blank_db_search)
qed

text \<open>
  Examples on the initial store and on the store that holds Ada Lovelace, who was created
  without an email, as in the example of the specification.
\<close>

lemma init_db_searchable: "\<forall>p \<in> set (patients init_db). searchable p"
  by (simp add: init_db_def searchable_def is_string_def fld_def)

lemma contains_ci_str_includes:
  "contains_ci lc (JStr x) q = str_includes (lc x) (lc q)"
  by (simp add: contains_ci_def str_includes_sublist)

lemma init_db_search_CHEN:
  "map (\<lambda>p. fld p ''id'') (filter (search_spec toLowerCase ''CHEN'') (patients init_db)) = [JStr ''P20250003'']"
  by (simp add: init_db_def search_spec_def fld_def contains_ci_str_includes toLowerCase_def toLowerChar_def)

lemma ada_spec_lovelace:
  "filter (search_spec toLowerCase ''lovelace'') (patients ada_db) = [[''id'' \<mapsto> JStr ''P1736500000000'', ''firstName'' \<mapsto> JStr ''Ada'',
       ''lastName'' \<mapsto> JStr ''Lovelace'', ''dateOfBirth'' \<mapsto> JStr ''1990-01-01'',
       ''bloodType'' \<mapsto> JStr ''O+'', ''status'' \<mapsto> JStr ''active'',
       ''createdAt'' \<mapsto> JDate 1736500000000, ''updatedAt'' \<mapsto> JDate 1736500000000]]"
  by (simp add: ada_db_patients init_db_def search_spec_def fld_def contains_ci_str_includes
      toLowerCase_def toLowerChar_def)

lemma ada_no_raise_lovelace: "\<not> search_raises toLowerCase ''lovelace'' [''id'' \<mapsto> JStr ''P1736500000000'', ''firstName'' \<mapsto> JStr ''Ada'',
       ''lastName'' \<mapsto> JStr ''Lovelace'', ''dateOfBirth'' \<mapsto> JStr ''1990-01-01'',
       ''bloodType'' \<mapsto> JStr ''O+'', ''status'' \<mapsto> JStr ''active'',
       ''createdAt'' \<mapsto> JDate 1736500000000, ''updatedAt'' \<mapsto> JDate 1736500000000]"
  by (simp add: search_raises_def is_string_def fld_def contains_ci_str_includes toLowerCase_def toLowerChar_def)

lemma ada_search_lovelace:
  "searchPatients toLowerCase ada_db (JStr ''lovelace'') = (Resolve [[''id'' \<mapsto> JStr ''P1736500000000'', ''firstName'' \<mapsto> JStr ''Ada'',
       ''lastName'' \<mapsto> JStr ''Lovelace'', ''dateOfBirth'' \<mapsto> JStr ''1990-01-01'',
       ''bloodType'' \<mapsto> JStr ''O+'', ''status'' \<mapsto> JStr ''active'',
       ''createdAt'' \<mapsto> JDate 1736500000000, ''updatedAt'' \<mapsto> JDate 1736500000000]], ada_db)"
proof -
  have "\<not> (\<exists>p \<in> set (patients ada_db). search_raises toLowerCase ''lovelace'' p)"
    using init_db_searchable ada_no_raise_lovelace
    by (simp add: ada_db_patients searchable_no_raise)
  then show ?thesis
    by (simp only: searchPatients_cases if_False ada_spec_lovelace)
qed

lemma contains_empty: "is_string v \<Longrightarrow> contains_ci toLowerCase v []"
  by (cases v) (simp_all add: is_string_def contains_ci_def toLowerCase_def)

lemma ada_firstName: "is_string (fld [''id'' \<mapsto> JStr ''P1736500000000'', ''firstName'' \<mapsto> JStr ''Ada'',
       ''lastName'' \<mapsto> JStr ''Lovelace'', ''dateOfBirth'' \<mapsto> JStr ''1990-01-01'',
       ''bloodType'' \<mapsto> JStr ''O+'', ''status'' \<mapsto> JStr ''active'',
       ''createdAt'' \<mapsto> JDate 1736500000000, ''updatedAt'' \<mapsto> JDate 1736500000000] ''firstName'')"
  by (simp add: is_string_def fld_def)

lemma ada_search_empty:
  "searchPatients toLowerCase ada_db (JStr []) = (Resolve (patients ada_db), ada_db)"
proof -
  have f: "\<forall>p \<in> set (patients ada_db). is_string (fld p ''firstName'')"
    using init_db_searchable ada_firstName by (simp add: ada_db_patients searchable_def)
  then have h: "\<forall>p \<in> set (patients ada_db). search_spec toLowerCase [] p"
    by (simp add: search_spec_def contains_empty)
  from f have n: "\<not> (\<exists>p \<in> set (patients ada_db). search_raises toLowerCase [] p)"
    by (simp add: search_raises_def contains_empty)
  from h have "filter (search_spec toLowerCase []) (patients ada_db) = patients ada_db"
    by (simp add: filter_id_conv)
  with n show ?thesis
    by (simp only: searchPatients_cases if_False)
qed

lemma ada_raises_zzz: "search_raises toLowerCase ''zzz'' [''id'' \<mapsto> JStr ''P1736500000000'', ''firstName'' \<mapsto> JStr ''Ada'',
       ''lastName'' \<mapsto> JStr ''Lovelace'', ''dateOfBirth'' \<mapsto> JStr ''1990-01-01'',
       ''bloodType'' \<mapsto> JStr ''O+'', ''status'' \<mapsto> JStr ''active'',
       ''createdAt'' \<mapsto> JDate 1736500000000, ''updatedAt'' \<mapsto> JDate 1736500000000]"
  by (simp add: search_raises_def is_string_def fld_def contains_ci_str_includes toLowerCase_def toLowerChar_def)

text \<open>
  C10 as stated fails: the store that holds Ada is reachable, Ada has no email, so the
  precondition does not hold, and yet the query \<^verbatim>\<open>lovelace\<close> resolves with exactly the
  matching patients (Ada alone) and the empty query resolves with all patients. The four
  strings are not needed for the result, and a missing email does not make every call fail.
\<close>

theorem searchPatients_missing_email_counterexample:
  "reachable ada_db \<and>
   last (patients ada_db) = [''id'' \<mapsto> JStr ''P1736500000000'', ''firstName'' \<mapsto> JStr ''Ada'',
       ''lastName'' \<mapsto> JStr ''Lovelace'', ''dateOfBirth'' \<mapsto> JStr ''1990-01-01'',
       ''bloodType'' \<mapsto> JStr ''O+'', ''status'' \<mapsto> JStr ''active'',
       ''createdAt'' \<mapsto> JDate 1736500000000, ''updatedAt'' \<mapsto> JDate 1736500000000] \<and>
   [''id'' \<mapsto> JStr ''P1736500000000'', ''firstName'' \<mapsto> JStr ''Ada'',
       ''lastName'' \<mapsto> JStr ''Lovelace'', ''dateOfBirth'' \<mapsto> JStr ''1990-01-01'',
       ''bloodType'' \<mapsto> JStr ''O+'', ''status'' \<mapsto> JStr ''active'',
       ''createdAt'' \<mapsto> JDate 1736500000000, ''updatedAt'' \<mapsto> JDate 1736500000000] ''email'' = None \<and>
   \<not> searchable [''id'' \<mapsto> JStr ''P1736500000000'', ''firstName'' \<mapsto> JStr ''Ada'',
       ''lastName'' \<mapsto> JStr ''Lovelace'', ''dateOfBirth'' \<mapsto> JStr ''1990-01-01'',
       ''bloodType'' \<mapsto> JStr ''O+'', ''status'' \<mapsto> JStr ''active'',
       ''createdAt'' \<mapsto> JDate 1736500000000, ''updatedAt'' \<mapsto> JDate 1736500000000] \<and>
   searchPatients toLowerCase ada_db (JStr ''lovelace'') = (Resolve [[''id'' \<mapsto> JStr ''P1736500000000'', ''firstName'' \<mapsto> JStr ''Ada'',
       ''lastName'' \<mapsto> JStr ''Lovelace'', ''dateOfBirth'' \<mapsto> JStr ''1990-01-01'',
       ''bloodType'' \<mapsto> JStr ''O+'', ''status'' \<mapsto> JStr ''active'',
       ''createdAt'' \<mapsto> JDate 1736500000000, ''updatedAt'' \<mapsto> JDate 1736500000000]], ada_db) \<and>
   filter (search_spec toLowerCase ''lovelace'') (patients ada_db) = [[''id'' \<mapsto> JStr ''P1736500000000'', ''firstName'' \<mapsto> JStr ''Ada'',
       ''lastName'' \<mapsto> JStr ''Lovelace'', ''dateOfBirth'' \<mapsto> JStr ''1990-01-01'',
       ''bloodType'' \<mapsto> JStr ''O+'', ''status'' \<mapsto> JStr ''active'',
       ''createdAt'' \<mapsto> JDate 1736500000000, ''updatedAt'' \<mapsto> JDate 1736500000000]] \<and>
   searchPatients toLowerCase ada_db (JStr []) = (Resolve (patients ada_db), ada_db)"
proof -
  have 1: "last (patients ada_db) = [''id'' \<mapsto> JStr ''P1736500000000'', ''firstName'' \<mapsto> JStr ''Ada'',
       ''lastName'' \<mapsto> JStr ''Lovelace'', ''dateOfBirth'' \<mapsto> JStr ''1990-01-01'',
       ''bloodType'' \<mapsto> JStr ''O+'', ''status'' \<mapsto> JStr ''active'',
       ''createdAt'' \<mapsto> JDate 1736500000000, ''updatedAt'' \<mapsto> JDate 1736500000000]"
    by (simp add: ada_db_patients)
  have 2: "[''id'' \<mapsto> JStr ''P1736500000000'', ''firstName'' \<mapsto> JStr ''Ada'',
       ''lastName'' \<mapsto> JStr ''Lovelace'', ''dateOfBirth'' \<mapsto> JStr ''1990-01-01'',
       ''bloodType'' \<mapsto> JStr ''O+'', ''status'' \<mapsto> JStr ''active'',
       ''createdAt'' \<mapsto> JDate 1736500000000, ''updatedAt'' \<mapsto> JDate 1736500000000] ''email'' = None"
    by simp
  have 3: "\<not> searchable [''id'' \<mapsto> JStr ''P1736500000000'', ''firstName'' \<mapsto> JStr ''Ada'',
       ''lastName'' \<mapsto> JStr ''Lovelace'', ''dateOfBirth'' \<mapsto> JStr ''1990-01-01'',
       ''bloodType'' \<mapsto> JStr ''O+'', ''status'' \<mapsto> JStr ''active'',
       ''createdAt'' \<mapsto> JDate 1736500000000, ''updatedAt'' \<mapsto> JDate 1736500000000]"
    by (simp add: searchable_def is_string_def fld_def)
  from ada_db_reachable 1 2 3 ada_search_lovelace ada_spec_lovelace ada_search_empty show ?thesis
    by (intro conjI)
qed

text \<open>
  The query \<^verbatim>\<open>zzz\<close> raises on the store with Ada, a number as query raises, and
  \<^verbatim>\<open>CHEN\<close> on the initial store finds the one patient \<^verbatim>\<open>P20250003\<close>.
\<close>

theorem searchPatients_result_witness:
  "searchPatients toLowerCase ada_db (JStr ''zzz'') = (ThrowTypeError, ada_db) \<and>
   searchPatients toLowerCase ada_db (JNum 7) = (ThrowTypeError, ada_db) \<and>
   searchPatients toLowerCase init_db (JStr ''CHEN'')
     = (Resolve (filter (search_spec toLowerCase ''CHEN'') (patients init_db)), init_db) \<and>
   map (\<lambda>p. fld p ''id'') (filter (search_spec toLowerCase ''CHEN'') (patients init_db)) = [JStr ''P20250003''] \<and>
   search_raises toLowerCase ''zzz'' [''id'' \<mapsto> JStr ''P1736500000000'', ''firstName'' \<mapsto> JStr ''Ada'',
       ''lastName'' \<mapsto> JStr ''Lovelace'', ''dateOfBirth'' \<mapsto> JStr ''1990-01-01'',
       ''bloodType'' \<mapsto> JStr ''O+'', ''status'' \<mapsto> JStr ''active'',
       ''createdAt'' \<mapsto> JDate 1736500000000, ''updatedAt'' \<mapsto> JDate 1736500000000] \<and>
   \<not> (contains_ci toLowerCase (fld [''id'' \<mapsto> JStr ''P1736500000000'', ''firstName'' \<mapsto> JStr ''Ada'',
       ''lastName'' \<mapsto> JStr ''Lovelace'', ''dateOfBirth'' \<mapsto> JStr ''1990-01-01'',
       ''bloodType'' \<mapsto> JStr ''O+'', ''status'' \<mapsto> JStr ''active'',
       ''createdAt'' \<mapsto> JDate 1736500000000, ''updatedAt'' \<mapsto> JDate 1736500000000] ''firstName'') ''zzz'' \<or>
      contains_ci toLowerCase (fld [''id'' \<mapsto> JStr ''P1736500000000'', ''firstName'' \<mapsto> JStr ''Ada'',
       ''lastName'' \<mapsto> JStr ''Lovelace'', ''dateOfBirth'' \<mapsto> JStr ''1990-01-01'',
       ''bloodType'' \<mapsto> JStr ''O+'', ''status'' \<mapsto> JStr ''active'',
       ''createdAt'' \<mapsto> JDate 1736500000000, ''updatedAt'' \<mapsto> JDate 1736500000000] ''lastName'') ''zzz'' \<or>
      contains_ci toLowerCase (fld [''id'' \<mapsto> JStr ''P1736500000000'', ''firstName'' \<mapsto> JStr ''Ada'',
       ''lastName'' \<mapsto> JStr ''Lovelace'', ''dateOfBirth'' \<mapsto> JStr ''1990-01-01'',
       ''bloodType'' \<mapsto> JStr ''O+'', ''status'' \<mapsto> JStr ''active'',
       ''createdAt'' \<mapsto> JDate 1736500000000, ''updatedAt'' \<mapsto> JDate 1736500000000] ''id'') ''zzz'')"
proof -
  note t = searchPatients_result
  have r: "\<exists>p \<in> set (patients ada_db). search_raises toLowerCase ''zzz'' p"
    using ada_raises_zzz by (simp add: ada_db_patients)
  from t [where lc = toLowerCase and s = ada_db and q = "''zzz''", THEN conjunct1] r
  have 1: "searchPatients toLowerCase ada_db (JStr ''zzz'') = (ThrowTypeError, ada_db)"
    by (simp only: if_True)
  have n: "\<not> is_string (JNum 7)"
    by (simp add: is_string_def)
  note 2 = t [where lc = toLowerCase and s = ada_db and query = "JNum 7",
              THEN conjunct2, THEN conjunct1, THEN mp, OF n]
  note 3 = t [where lc = toLowerCase and s = init_db and q = "''CHEN''",
              THEN conjunct2, THEN conjunct2, THEN conjunct1, THEN mp, OF init_db_searchable]
  have e: "is_string (fld [''id'' \<mapsto> JStr ''P1736500000000'', ''firstName'' \<mapsto> JStr ''Ada'',
       ''lastName'' \<mapsto> JStr ''Lovelace'', ''dateOfBirth'' \<mapsto> JStr ''1990-01-01'',
       ''bloodType'' \<mapsto> JStr ''O+'', ''status'' \<mapsto> JStr ''active'',
       ''createdAt'' \<mapsto> JDate 1736500000000, ''updatedAt'' \<mapsto> JDate 1736500000000] ''firstName'') \<and> is_string (fld [''id'' \<mapsto> JStr ''P1736500000000'', ''firstName'' \<mapsto> JStr ''Ada'',
       ''lastName'' \<mapsto> JStr ''Lovelace'', ''dateOfBirth'' \<mapsto> JStr ''1990-01-01'',
       ''bloodType'' \<mapsto> JStr ''O+'', ''status'' \<mapsto> JStr ''active'',
       ''createdAt'' \<mapsto> JDate 1736500000000, ''updatedAt'' \<mapsto> JDate 1736500000000] ''lastName'') \<and>
           is_string (fld [''id'' \<mapsto> JStr ''P1736500000000'', ''firstName'' \<mapsto> JStr ''Ada'',
       ''lastName'' \<mapsto> JStr ''Lovelace'', ''dateOfBirth'' \<mapsto> JStr ''1990-01-01'',
       ''bloodType'' \<mapsto> JStr ''O+'', ''status'' \<mapsto> JStr ''active'',
       ''createdAt'' \<mapsto> JDate 1736500000000, ''updatedAt'' \<mapsto> JDate 1736500000000] ''id'') \<and> \<not> is_string (fld [''id'' \<mapsto> JStr ''P1736500000000'', ''firstName'' \<mapsto> JStr ''Ada'',
       ''lastName'' \<mapsto> JStr ''Lovelace'', ''dateOfBirth'' \<mapsto> JStr ''1990-01-01'',
       ''bloodType'' \<mapsto> JStr ''O+'', ''status'' \<mapsto> JStr ''active'',
       ''createdAt'' \<mapsto> JDate 1736500000000, ''updatedAt'' \<mapsto> JDate 1736500000000] ''email'')"
    by (simp add: is_string_def fld_def)
  note 4 = t [where lc = toLowerCase and q = "''zzz''" and p = "[''id'' \<mapsto> JStr ''P1736500000000'', ''firstName'' \<mapsto> JStr ''Ada'',
       ''lastName'' \<mapsto> JStr ''Lovelace'', ''dateOfBirth'' \<mapsto> JStr ''1990-01-01'',
       ''bloodType'' \<mapsto> JStr ''O+'', ''status'' \<mapsto> JStr ''active'',
       ''createdAt'' \<mapsto> JDate 1736500000000, ''updatedAt'' \<mapsto> JDate 1736500000000]",
              THEN conjunct2, THEN conjunct2, THEN conjunct2, THEN conjunct1, THEN mp, OF e]
  from 4 ada_raises_zzz
  have 5: "\<not> (contains_ci toLowerCase (fld [''id'' \<mapsto> JStr ''P1736500000000'', ''firstName'' \<mapsto> JStr ''Ada'',
       ''lastName'' \<mapsto> JStr ''Lovelace'', ''dateOfBirth'' \<mapsto> JStr ''1990-01-01'',
       ''bloodType'' \<mapsto> JStr ''O+'', ''status'' \<mapsto> JStr ''active'',
       ''createdAt'' \<mapsto> JDate 1736500000000, ''updatedAt'' \<mapsto> JDate 1736500000000] ''firstName'') ''zzz'' \<or>
      contains_ci toLowerCase (fld [''id'' \<mapsto> JStr ''P1736500000000'', ''firstName'' \<mapsto> JStr ''Ada'',
       ''lastName'' \<mapsto> JStr ''Lovelace'', ''dateOfBirth'' \<mapsto> JStr ''1990-01-01'',
       ''bloodType'' \<mapsto> JStr ''O+'', ''status'' \<mapsto> JStr ''active'',
       ''createdAt'' \<mapsto> JDate 1736500000000, ''updatedAt'' \<mapsto> JDate 1736500000000] ''lastName'') ''zzz'' \<or>
      contains_ci toLowerCase (fld [''id'' \<mapsto> JStr ''P1736500000000'', ''firstName'' \<mapsto> JStr ''Ada'',
       ''lastName'' \<mapsto> JStr ''Lovelace'', ''dateOfBirth'' \<mapsto> JStr ''1990-01-01'',
       ''bloodType'' \<mapsto> JStr ''O+'', ''status'' \<mapsto> JStr ''active'',
       ''createdAt'' \<mapsto> JDate 1736500000000, ''updatedAt'' \<mapsto> JDate 1736500000000] ''id'') ''zzz'')"
    by (rule iffD1)
  from 1 2 3 init_db_search_CHEN ada_raises_zzz 5 show ?thesis
    by (intro conjI)
qed

section \<open>Updates merge into the record found\<close>

text \<open>
  An update is addressed by an identifier and is applied to the first record of the sequence
  that carries it. The updates of an update call are spread over that record like any other
  data, the field \<^verbatim>\<open>id\<close> included; the facts below are about updates that leave the
  identifier as it is, and about an identifier that a stored record carries.
\<close>

lemma merge_stamp_merge:
  "((r ++ u1)(k \<mapsto> a) ++ u2)(k \<mapsto> b) = (r ++ u1 ++ u2)(k \<mapsto> b)"
  by (rule ext) (simp add: map_add_def split: option.splits)

lemma findIndex_update_same:
  "findIndex P xs = Some n \<Longrightarrow> P y \<Longrightarrow> findIndex P (xs[n := y]) = Some n"
proof (induction xs arbitrary: n)
  case Nil
  then show ?case by simp
next
  case (Cons x xs)
  show ?case
  proof (cases "P x")
    case True
    with Cons.prems show ?thesis by simp
  next
    case False
    with Cons.prems obtain k where k: "findIndex P xs = Some k" "n = Suc k"
      by auto
    from Cons.IH [OF k(1) Cons.prems(2)] False k(2) show ?thesis
      by simp
  qed
qed

lemma findIndex_snoc_fresh:
  "\<forall>x \<in> set xs. \<not> P x \<Longrightarrow> P y \<Longrightarrow> findIndex P (xs @ [y]) = Some (length xs)"
  by (induction xs) simp_all

lemma has_id_spread: "has_id i r \<Longrightarrow> keeps_id i u \<Longrightarrow> has_id i (r ++ u)"
  by (simp add: has_id_def keeps_id_def fld_def map_add_def split: option.splits)

lemma has_id_stamp: "k \<noteq> ''id'' \<Longrightarrow> has_id i (r(k \<mapsto> v)) = has_id i r"
  by (simp add: has_id_def fld_def)

lemma has_id_task_merge: "has_id i r \<Longrightarrow> keeps_id i u \<Longrightarrow> has_id i (task_merge r u t)"
  by (simp add: task_merge_def has_id_spread has_id_stamp)

lemma patient_update_update:
  assumes f: "findIndex (has_id i) (patients s) = Some n"
    and k1: "keeps_id i u1" and k2: "keeps_id i u2"
    and u1: "updatePatient s ta tb i u1 = (o1, s1)"
    and u2: "updatePatient s1 tc td i u2 = (o2, s2)"
  shows "o2 = Resolve ((patients s ! n ++ u1 ++ u2)(''updatedAt'' \<mapsto> JDate tc)) \<and>
         patients s2 = (patients s)[n := (patients s ! n ++ u1 ++ u2)(''updatedAt'' \<mapsto> JDate tc)] \<and>
         s2\<lparr> patients := patients s, auditLog := auditLog s \<rparr> = s \<and>
         (\<exists>v. getPatientById s2 i = (Resolve v, s2) \<and>
              (\<forall>k. k \<notin> overlay_names \<longrightarrow>
                     v k = map_option Plain (((patients s ! n ++ u1 ++ u2)(''updatedAt'' \<mapsto> JDate tc)) k)))"
proof -
  let ?r1 = "(patients s ! n ++ u1)(''updatedAt'' \<mapsto> JDate ta)"
  let ?R = "(patients s ! n ++ u1 ++ u2)(''updatedAt'' \<mapsto> JDate tc)"
  from findIndex_Some [OF f] have n: "n < length (patients s)" and h: "has_id i (patients s ! n)"
    by simp_all
  from u1 have s1: "s1 = logAudit (s\<lparr> patients := (patients s)[n := ?r1] \<rparr>)
                           tb ''Patient'' i ''UPDATE'' (JStr ''system'')"
    by (simp add: updatePatient_found [OF f])
  have p1: "patients s1 = (patients s)[n := ?r1]"
    by (simp add: s1 logAudit_def)
  have ne: "''updatedAt'' \<noteq> ''id''"
    by simp
  have h1: "has_id i ?r1"
    unfolding has_id_stamp [OF ne] by (rule has_id_spread [OF h k1])
  have f2: "findIndex (has_id i) (patients s1) = Some n"
    using findIndex_update_same [of "has_id i" "patients s" n ?r1, OF f h1] by (simp only: p1)
  from u2 have s2: "s2 = logAudit (s1\<lparr> patients := (patients s1)
                          [n := (patients s1 ! n ++ u2)(''updatedAt'' \<mapsto> JDate tc)] \<rparr>)
                        td ''Patient'' i ''UPDATE'' (JStr ''system'')"
    by (simp add: updatePatient_found [OF f2])
  have m: "(patients s1 ! n ++ u2)(''updatedAt'' \<mapsto> JDate tc) = ?R"
    using n by (simp add: p1 merge_stamp_merge)
  have p2: "patients s2 = (patients s)[n := ?R]"
    unfolding s2 m by (simp add: logAudit_def p1)
  from u2 have o2: "o2 = Resolve ?R"
    unfolding updatePatient_found [OF f2] m by simp
  have e: "s2\<lparr> patients := patients s, auditLog := auditLog s \<rparr> = s"
    unfolding s2 by (simp add: logAudit_def s1)
  have h2: "has_id i ?R"
    unfolding has_id_stamp [OF ne] by (rule has_id_spread [OF has_id_spread [OF h k1] k2])
  have f3: "findIndex (has_id i) (patients s2) = Some n"
    using findIndex_update_same [of "has_id i" "patients s" n ?R, OF f h2] by (simp only: p2)
  have "find (has_id i) (patients s2) = Some ?R"
    using n by (simp add: find_findIndex f3) (simp add: p2)
  from getPatientById_found [OF this] o2 p2 e show ?thesis
    by (intro conjI)
qed

lemma note_update_update:
  assumes f: "findIndex (has_id i) (clinicalNotes s) = Some n"
    and k1: "keeps_id i u1" and k2: "keeps_id i u2"
    and u1: "updateClinicalNote s ta tb i u1 = (o1, s1)"
    and u2: "updateClinicalNote s1 tc td i u2 = (o2, s2)"
  shows "o2 = Resolve ((clinicalNotes s ! n ++ u1 ++ u2)(''updatedAt'' \<mapsto> JDate tc)) \<and>
         clinicalNotes s2 = (clinicalNotes s)[n := (clinicalNotes s ! n ++ u1 ++ u2)(''updatedAt'' \<mapsto> JDate tc)] \<and>
         s2\<lparr> clinicalNotes := clinicalNotes s, auditLog := auditLog s \<rparr> = s \<and>
         getClinicalNotesByPatient s2 pid =
           (Resolve (filter (refers_to pid)
              ((clinicalNotes s)[n := (clinicalNotes s ! n ++ u1 ++ u2)(''updatedAt'' \<mapsto> JDate tc)])), s2)"
proof -
  let ?r1 = "(clinicalNotes s ! n ++ u1)(''updatedAt'' \<mapsto> JDate ta)"
  let ?R = "(clinicalNotes s ! n ++ u1 ++ u2)(''updatedAt'' \<mapsto> JDate tc)"
  from findIndex_Some [OF f] have n: "n < length (clinicalNotes s)" and h: "has_id i (clinicalNotes s ! n)"
    by simp_all
  from u1 have s1: "s1 = logAudit (s\<lparr> clinicalNotes := (clinicalNotes s)[n := ?r1] \<rparr>)
                           tb ''ClinicalNote'' i ''UPDATE'' (JStr ''system'')"
    by (simp add: updateClinicalNote_found [OF f])
  have p1: "clinicalNotes s1 = (clinicalNotes s)[n := ?r1]"
    by (simp add: s1 logAudit_def)
  have ne: "''updatedAt'' \<noteq> ''id''"
    by simp
  have h1: "has_id i ?r1"
    unfolding has_id_stamp [OF ne] by (rule has_id_spread [OF h k1])
  have f2: "findIndex (has_id i) (clinicalNotes s1) = Some n"
    using findIndex_update_same [of "has_id i" "clinicalNotes s" n ?r1, OF f h1] by (simp only: p1)
  from u2 have s2: "s2 = logAudit (s1\<lparr> clinicalNotes := (clinicalNotes s1)
                          [n := (clinicalNotes s1 ! n ++ u2)(''updatedAt'' \<mapsto> JDate tc)] \<rparr>)
                        td ''ClinicalNote'' i ''UPDATE'' (JStr ''system'')"
    by (simp add: updateClinicalNote_found [OF f2])
  have m: "(clinicalNotes s1 ! n ++ u2)(''updatedAt'' \<mapsto> JDate tc) = ?R"
    using n by (simp add: p1 merge_stamp_merge)
  have p2: "clinicalNotes s2 = (clinicalNotes s)[n := ?R]"
    unfolding s2 m by (simp add: logAudit_def p1)
  from u2 have o2: "o2 = Resolve ?R"
    unfolding updateClinicalNote_found [OF f2] m by simp
  have e: "s2\<lparr> clinicalNotes := clinicalNotes s, auditLog := auditLog s \<rparr> = s"
    unfolding s2 by (simp add: logAudit_def s1)
  have g: "getClinicalNotesByPatient s2 pid = (Resolve (filter (refers_to pid) ((clinicalNotes s)[n := ?R])), s2)"
    by (simp add: getClinicalNotesByPatient_def p2)
  from o2 p2 e g show ?thesis
    by (intro conjI)
qed

lemma task_merge_twice:
  "k \<noteq> ''completedAt'' \<Longrightarrow> task_merge (task_merge r u1 ta) u2 tc k = (r ++ u1 ++ u2) k"
  by (simp add: task_merge_def map_add_def split: option.splits)

lemma task_update_update:
  assumes f: "findIndex (has_id i) (tasks s) = Some n"
    and k1: "keeps_id i u1" and k2: "keeps_id i u2"
    and u1: "updateTask s ta tb i u1 = (o1, s1)"
    and u2: "updateTask s1 tc td i u2 = (o2, s2)"
  shows "o2 = Resolve (task_merge (task_merge (tasks s ! n) u1 ta) u2 tc) \<and>
         tasks s2 = (tasks s)[n := task_merge (task_merge (tasks s ! n) u1 ta) u2 tc] \<and>
         (\<forall>k. k \<noteq> ''completedAt'' \<longrightarrow>
              task_merge (task_merge (tasks s ! n) u1 ta) u2 tc k = (tasks s ! n ++ u1 ++ u2) k) \<and>
         s2\<lparr> tasks := tasks s, auditLog := auditLog s \<rparr> = s \<and>
         getTasksByPatient s2 pid =
           (Resolve (filter (refers_to pid)
              ((tasks s)[n := task_merge (task_merge (tasks s ! n) u1 ta) u2 tc])), s2)"
proof -
  let ?r1 = "task_merge (tasks s ! n) u1 ta"
  let ?R = "task_merge (task_merge (tasks s ! n) u1 ta) u2 tc"
  from findIndex_Some [OF f] have n: "n < length (tasks s)" and h: "has_id i (tasks s ! n)"
    by simp_all
  from u1 have s1: "s1 = logAudit (s\<lparr> tasks := (tasks s)[n := ?r1] \<rparr>)
                           tb ''Task'' i ''UPDATE'' (JStr ''system'')"
    by (simp add: updateTask_found [OF f])
  have p1: "tasks s1 = (tasks s)[n := ?r1]"
    by (simp add: s1 logAudit_def)
  have h1: "has_id i ?r1"
    by (rule has_id_task_merge [OF h k1])
  have f2: "findIndex (has_id i) (tasks s1) = Some n"
    using findIndex_update_same [of "has_id i" "tasks s" n ?r1, OF f h1] by (simp only: p1)
  from u2 have s2: "s2 = logAudit (s1\<lparr> tasks := (tasks s1)[n := task_merge (tasks s1 ! n) u2 tc] \<rparr>)
                        td ''Task'' i ''UPDATE'' (JStr ''system'')"
    by (simp add: updateTask_found [OF f2])
  have m: "task_merge (tasks s1 ! n) u2 tc = ?R"
    using n by (simp add: p1)
  have p2: "tasks s2 = (tasks s)[n := ?R]"
    unfolding s2 m by (simp add: logAudit_def p1)
  from u2 have o2: "o2 = Resolve ?R"
    unfolding updateTask_found [OF f2] m by simp
  have e: "s2\<lparr> tasks := tasks s, auditLog := auditLog s \<rparr> = s"
    unfolding s2 by (simp add: logAudit_def s1)
  have a: "\<forall>k. k \<noteq> ''completedAt'' \<longrightarrow> ?R k = (tasks s ! n ++ u1 ++ u2) k"
    by (simp add: task_merge_twice)
  have g: "getTasksByPatient s2 pid = (Resolve (filter (refers_to pid) ((tasks s)[n := ?R])), s2)"
    by (simp add: getTasksByPatient_def p2)
  from o2 p2 a e g show ?thesis
    by (intro conjI)
qed

lemma createClinicalNote_eq:
  "createClinicalNote s t1 t2 t3 d =
     (Resolve (([''id'' \<mapsto> JNum (int (length (clinicalNotes s)) + 1)] ++ d)
                 (''status'' \<mapsto> js_or (fld d ''status'') (JStr ''draft''),
                  ''createdAt'' \<mapsto> JDate t1, ''updatedAt'' \<mapsto> JDate t2)),
      logAudit (s\<lparr> clinicalNotes := clinicalNotes s @
                    [([''id'' \<mapsto> JNum (int (length (clinicalNotes s)) + 1)] ++ d)
                       (''status'' \<mapsto> js_or (fld d ''status'') (JStr ''draft''),
                        ''createdAt'' \<mapsto> JDate t1, ''updatedAt'' \<mapsto> JDate t2)] \<rparr>)
        t3 ''ClinicalNote''
        (fld (([''id'' \<mapsto> JNum (int (length (clinicalNotes s)) + 1)] ++ d)
                 (''status'' \<mapsto> js_or (fld d ''status'') (JStr ''draft''),
                  ''createdAt'' \<mapsto> JDate t1, ''updatedAt'' \<mapsto> JDate t2)) ''id'')
        ''CREATE'' (js_or (fld d ''createdBy'') (JStr ''system'')))"
  by (simp add: createClinicalNote_def Let_def)

lemma createTask_eq:
  "createTask s t1 t3 d =
     (Resolve (([''id'' \<mapsto> JNum (int (length (tasks s)) + 1)] ++ d)
                 (''status'' \<mapsto> js_or (fld d ''status'') (JStr ''pending''), ''createdAt'' \<mapsto> JDate t1)),
      logAudit (s\<lparr> tasks := tasks s @
                    [([''id'' \<mapsto> JNum (int (length (tasks s)) + 1)] ++ d)
                       (''status'' \<mapsto> js_or (fld d ''status'') (JStr ''pending''), ''createdAt'' \<mapsto> JDate t1)] \<rparr>)
        t3 ''Task''
        (fld (([''id'' \<mapsto> JNum (int (length (tasks s)) + 1)] ++ d)
                 (''status'' \<mapsto> js_or (fld d ''status'') (JStr ''pending''), ''createdAt'' \<mapsto> JDate t1)) ''id'')
        ''CREATE'' (js_or (fld d ''createdBy'') (JStr ''system'')))"
  by (simp add: createTask_def Let_def)

text \<open>A record just created is the one its identifier finds when no older record carries it.\<close>

lemma created_patient_found:
  assumes c: "createPatient s t0 t1 t2 t3 d = (Resolve r0, s0)"
    and h: "has_id i r0" and fresh: "\<forall>p \<in> set (patients s). \<not> has_id i p"
  shows "patients s0 = patients s @ [r0] \<and> findIndex (has_id i) (patients s0) = Some (length (patients s))"
proof -
  from c have p0: "patients s0 = patients s @ [r0]"
    by (auto simp: createPatient_eq logAudit_def)
  from findIndex_snoc_fresh [of "patients s" "has_id i" r0, OF fresh h] p0 show ?thesis
    by simp
qed

lemma created_note_found:
  assumes c: "createClinicalNote s t1 t2 t3 d = (Resolve r0, s0)"
    and h: "has_id i r0" and fresh: "\<forall>p \<in> set (clinicalNotes s). \<not> has_id i p"
  shows "clinicalNotes s0 = clinicalNotes s @ [r0] \<and>
         findIndex (has_id i) (clinicalNotes s0) = Some (length (clinicalNotes s))"
proof -
  from c have p0: "clinicalNotes s0 = clinicalNotes s @ [r0]"
    by (auto simp: createClinicalNote_eq logAudit_def)
  from findIndex_snoc_fresh [of "clinicalNotes s" "has_id i" r0, OF fresh h] p0 show ?thesis
    by simp
qed

lemma created_task_found:
  assumes c: "createTask s t1 t3 d = (Resolve r0, s0)"
    and h: "has_id i r0" and fresh: "\<forall>p \<in> set (tasks s). \<not> has_id i p"
  shows "tasks s0 = tasks s @ [r0] \<and> findIndex (has_id i) (tasks s0) = Some (length (tasks s))"
proof -
  from c have p0: "tasks s0 = tasks s @ [r0]"
    by (auto simp: createTask_eq logAudit_def)
  from findIndex_snoc_fresh [of "tasks s" "has_id i" r0, OF fresh h] p0 show ?thesis
    by simp
qed


lemma differ_only_at_update:
  "n < length xs \<Longrightarrow> \<forall>k. k \<notin> K \<longrightarrow> y k = (xs ! n) k \<Longrightarrow> differ_only_at n K (xs[n := y]) xs"
  by (simp add: differ_only_at_def)

lemma patient_update_twice_ix:
  assumes u1: "updatePatient s ta tb i u = (o1, s1)"
    and f1: "findIndex (has_id i) (patients s) = Some n"
    and u2: "updatePatient s1 tc td i u = (o2, s2)"
    and f2: "findIndex (has_id i) (patients s1) = Some n"
  shows "differ_only_at n {''updatedAt''} (patients s2) (patients s1) \<and>
         s2\<lparr> patients := patients s1, auditLog := auditLog s1 \<rparr> = s1"
proof -
  from findIndex_Some [OF f1] have n: "n < length (patients s)"
    by simp
  from u1 have p1: "patients s1 = (patients s)[n := (patients s ! n ++ u)(''updatedAt'' \<mapsto> JDate ta)]"
    by (auto simp: updatePatient_found [OF f1] logAudit_def)
  from n have n1: "n < length (patients s1)"
    by (simp add: p1)
  from u2 have s2: "s2 = logAudit (s1\<lparr> patients := (patients s1)
                          [n := (patients s1 ! n ++ u)(''updatedAt'' \<mapsto> JDate tc)] \<rparr>)
                        td ''Patient'' i ''UPDATE'' (JStr ''system'')"
    by (simp add: updatePatient_found [OF f2])
  have e: "\<forall>k. k \<notin> {''updatedAt''} \<longrightarrow>
             ((patients s1 ! n ++ u)(''updatedAt'' \<mapsto> JDate tc)) k = (patients s1 ! n) k"
    using n by (simp add: p1 map_add_def split: option.splits)
  have a: "patients s2 = (patients s1)[n := (patients s1 ! n ++ u)(''updatedAt'' \<mapsto> JDate tc)]"
    by (simp add: s2 logAudit_def)
  have b: "s2\<lparr> patients := patients s1, auditLog := auditLog s1 \<rparr> = s1"
    by (simp add: s2 logAudit_def)
  from differ_only_at_update [OF n1 e] b show ?thesis
    unfolding a by (rule conjI)
qed

lemma note_update_twice_ix:
  assumes u1: "updateClinicalNote s ta tb i u = (o1, s1)"
    and f1: "findIndex (has_id i) (clinicalNotes s) = Some n"
    and u2: "updateClinicalNote s1 tc td i u = (o2, s2)"
    and f2: "findIndex (has_id i) (clinicalNotes s1) = Some n"
  shows "differ_only_at n {''updatedAt''} (clinicalNotes s2) (clinicalNotes s1) \<and>
         s2\<lparr> clinicalNotes := clinicalNotes s1, auditLog := auditLog s1 \<rparr> = s1"
proof -
  from findIndex_Some [OF f1] have n: "n < length (clinicalNotes s)"
    by simp
  from u1 have p1: "clinicalNotes s1 = (clinicalNotes s)
                      [n := (clinicalNotes s ! n ++ u)(''updatedAt'' \<mapsto> JDate ta)]"
    by (auto simp: updateClinicalNote_found [OF f1] logAudit_def)
  from n have n1: "n < length (clinicalNotes s1)"
    by (simp add: p1)
  from u2 have s2: "s2 = logAudit (s1\<lparr> clinicalNotes := (clinicalNotes s1)
                          [n := (clinicalNotes s1 ! n ++ u)(''updatedAt'' \<mapsto> JDate tc)] \<rparr>)
                        td ''ClinicalNote'' i ''UPDATE'' (JStr ''system'')"
    by (simp add: updateClinicalNote_found [OF f2])
  have e: "\<forall>k. k \<notin> {''updatedAt''} \<longrightarrow>
             ((clinicalNotes s1 ! n ++ u)(''updatedAt'' \<mapsto> JDate tc)) k = (clinicalNotes s1 ! n) k"
    using n by (simp add: p1 map_add_def split: option.splits)
  have a: "clinicalNotes s2 = (clinicalNotes s1)[n := (clinicalNotes s1 ! n ++ u)(''updatedAt'' \<mapsto> JDate tc)]"
    by (simp add: s2 logAudit_def)
  have b: "s2\<lparr> clinicalNotes := clinicalNotes s1, auditLog := auditLog s1 \<rparr> = s1"
    by (simp add: s2 logAudit_def)
  from differ_only_at_update [OF n1 e] b show ?thesis
    unfolding a by (rule conjI)
qed

lemma task_update_twice_ix:
  assumes u1: "updateTask s ta tb i u = (o1, s1)"
    and f1: "findIndex (has_id i) (tasks s) = Some n"
    and u2: "updateTask s1 tc td i u = (o2, s2)"
    and f2: "findIndex (has_id i) (tasks s1) = Some n"
  shows "differ_only_at n {''completedAt''} (tasks s2) (tasks s1) \<and>
         s2\<lparr> tasks := tasks s1, auditLog := auditLog s1 \<rparr> = s1"
proof -
  from findIndex_Some [OF f1] have n: "n < length (tasks s)"
    by simp
  from u1 have p1: "tasks s1 = (tasks s)[n := task_merge (tasks s ! n) u ta]"
    by (auto simp: updateTask_found [OF f1] logAudit_def)
  from n have n1: "n < length (tasks s1)"
    by (simp add: p1)
  from u2 have s2: "s2 = logAudit (s1\<lparr> tasks := (tasks s1)[n := task_merge (tasks s1 ! n) u tc] \<rparr>)
                        td ''Task'' i ''UPDATE'' (JStr ''system'')"
    by (simp add: updateTask_found [OF f2])
  have e: "\<forall>k. k \<notin> {''completedAt''} \<longrightarrow> (task_merge (tasks s1 ! n) u tc) k = (tasks s1 ! n) k"
    using n by (simp add: p1 task_merge_def map_add_def split: option.splits)
  have a: "tasks s2 = (tasks s1)[n := task_merge (tasks s1 ! n) u tc]"
    by (simp add: s2 logAudit_def)
  have b: "s2\<lparr> tasks := tasks s1, auditLog := auditLog s1 \<rparr> = s1"
    by (simp add: s2 logAudit_def)
  from differ_only_at_update [OF n1 e] b show ?thesis
    unfolding a by (rule conjI)
qed


lemma updatePatient_keeps_found:
  assumes f: "findIndex (has_id i) (patients s) = Some n" and k: "keeps_id i u"
    and u: "updatePatient s ta tb i u = (o1, s1)"
  shows "findIndex (has_id i) (patients s1) = Some n"
proof -
  let ?r1 = "(patients s ! n ++ u)(''updatedAt'' \<mapsto> JDate ta)"
  from findIndex_Some [OF f] have h: "has_id i (patients s ! n)"
    by simp
  from u have p1: "patients s1 = (patients s)[n := ?r1]"
    by (auto simp: updatePatient_found [OF f] logAudit_def)
  have ne: "''updatedAt'' \<noteq> ''id''"
    by simp
  have h1: "has_id i ?r1"
    unfolding has_id_stamp [OF ne] by (rule has_id_spread [OF h k])
  show ?thesis
    using findIndex_update_same [of "has_id i" "patients s" n ?r1, OF f h1] by (simp only: p1)
qed

lemma updateClinicalNote_keeps_found:
  assumes f: "findIndex (has_id i) (clinicalNotes s) = Some n" and k: "keeps_id i u"
    and u: "updateClinicalNote s ta tb i u = (o1, s1)"
  shows "findIndex (has_id i) (clinicalNotes s1) = Some n"
proof -
  let ?r1 = "(clinicalNotes s ! n ++ u)(''updatedAt'' \<mapsto> JDate ta)"
  from findIndex_Some [OF f] have h: "has_id i (clinicalNotes s ! n)"
    by simp
  from u have p1: "clinicalNotes s1 = (clinicalNotes s)[n := ?r1]"
    by (auto simp: updateClinicalNote_found [OF f] logAudit_def)
  have ne: "''updatedAt'' \<noteq> ''id''"
    by simp
  have h1: "has_id i ?r1"
    unfolding has_id_stamp [OF ne] by (rule has_id_spread [OF h k])
  show ?thesis
    using findIndex_update_same [of "has_id i" "clinicalNotes s" n ?r1, OF f h1] by (simp only: p1)
qed

lemma updateTask_keeps_found:
  assumes f: "findIndex (has_id i) (tasks s) = Some n" and k: "keeps_id i u"
    and u: "updateTask s ta tb i u = (o1, s1)"
  shows "findIndex (has_id i) (tasks s1) = Some n"
proof -
  let ?r1 = "task_merge (tasks s ! n) u ta"
  from findIndex_Some [OF f] have h: "has_id i (tasks s ! n)"
    by simp
  from u have p1: "tasks s1 = (tasks s)[n := ?r1]"
    by (auto simp: updateTask_found [OF f] logAudit_def)
  have h1: "has_id i ?r1"
    by (rule has_id_task_merge [OF h k])
  show ?thesis
    using findIndex_update_same [of "has_id i" "tasks s" n ?r1, OF f h1] by (simp only: p1)
qed

lemma patient_create_update_update:
  assumes c: "createPatient s t0 t1 t2 t3 d = (Resolve r0, s0)"
    and h: "has_id i r0" and fresh: "\<forall>p \<in> set (patients s). \<not> has_id i p"
    and k1: "keeps_id i u1" and k2: "keeps_id i u2"
    and u1: "updatePatient s0 ta tb i u1 = (o1, s1)"
    and u2: "updatePatient s1 tc td i u2 = (o2, s2)"
  shows "o2 = Resolve ((r0 ++ u1 ++ u2)(''updatedAt'' \<mapsto> JDate tc)) \<and>
         patients s2 = patients s @ [(r0 ++ u1 ++ u2)(''updatedAt'' \<mapsto> JDate tc)] \<and>
         (\<exists>v. getPatientById s2 i = (Resolve v, s2) \<and>
              (\<forall>k. k \<notin> overlay_names \<longrightarrow>
                     v k = map_option Plain (((r0 ++ u1 ++ u2)(''updatedAt'' \<mapsto> JDate tc)) k)))"
proof -
  note cf = created_patient_found [OF c h fresh]
  from cf have p0: "patients s0 = patients s @ [r0]"
    by (rule conjunct1)
  from cf have f: "findIndex (has_id i) (patients s0) = Some (length (patients s))"
    by (rule conjunct2)
  from patient_update_update [OF f k1 k2 u1 u2] show ?thesis
    by (simp add: p0)
qed

lemma note_create_update_update:
  assumes c: "createClinicalNote s t1 t2 t3 d = (Resolve r0, s0)"
    and h: "has_id i r0" and fresh: "\<forall>p \<in> set (clinicalNotes s). \<not> has_id i p"
    and k1: "keeps_id i u1" and k2: "keeps_id i u2"
    and u1: "updateClinicalNote s0 ta tb i u1 = (o1, s1)"
    and u2: "updateClinicalNote s1 tc td i u2 = (o2, s2)"
  shows "o2 = Resolve ((r0 ++ u1 ++ u2)(''updatedAt'' \<mapsto> JDate tc)) \<and>
         clinicalNotes s2 = clinicalNotes s @ [(r0 ++ u1 ++ u2)(''updatedAt'' \<mapsto> JDate tc)] \<and>
         getClinicalNotesByPatient s2 pid =
           (Resolve (filter (refers_to pid)
              (clinicalNotes s @ [(r0 ++ u1 ++ u2)(''updatedAt'' \<mapsto> JDate tc)])), s2)"
proof -
  note cf = created_note_found [OF c h fresh]
  from cf have p0: "clinicalNotes s0 = clinicalNotes s @ [r0]"
    by (rule conjunct1)
  from cf have f: "findIndex (has_id i) (clinicalNotes s0) = Some (length (clinicalNotes s))"
    by (rule conjunct2)
  from note_update_update [OF f k1 k2 u1 u2, of pid] show ?thesis
    by (simp add: p0)
qed

lemma task_create_update_update:
  assumes c: "createTask s t1 t3 d = (Resolve r0, s0)"
    and h: "has_id i r0" and fresh: "\<forall>p \<in> set (tasks s). \<not> has_id i p"
    and k1: "keeps_id i u1" and k2: "keeps_id i u2"
    and u1: "updateTask s0 ta tb i u1 = (o1, s1)"
    and u2: "updateTask s1 tc td i u2 = (o2, s2)"
  shows "o2 = Resolve (task_merge (task_merge r0 u1 ta) u2 tc) \<and>
         tasks s2 = tasks s @ [task_merge (task_merge r0 u1 ta) u2 tc] \<and>
         (\<forall>k. k \<noteq> ''completedAt'' \<longrightarrow> task_merge (task_merge r0 u1 ta) u2 tc k = (r0 ++ u1 ++ u2) k) \<and>
         getTasksByPatient s2 pid =
           (Resolve (filter (refers_to pid) (tasks s @ [task_merge (task_merge r0 u1 ta) u2 tc])), s2)"
proof -
  note cf = created_task_found [OF c h fresh]
  from cf have p0: "tasks s0 = tasks s @ [r0]"
    by (rule conjunct1)
  from cf have f: "findIndex (has_id i) (tasks s0) = Some (length (tasks s))"
    by (rule conjunct2)
  from task_update_update [OF f k1 k2 u1 u2, of pid] show ?thesis
    by (simp add: p0)
qed

lemma patient_update_twice:
  assumes f: "findIndex (has_id i) (patients s) = Some n" and k: "keeps_id i u"
    and u1: "updatePatient s ta tb i u = (o1, s1)"
    and u2: "updatePatient s1 tc td i u = (o2, s2)"
  shows "differ_only_at n {''updatedAt''} (patients s2) (patients s1) \<and>
         s2\<lparr> patients := patients s1, auditLog := auditLog s1 \<rparr> = s1"
  by (rule patient_update_twice_ix [OF u1 f u2 updatePatient_keeps_found [OF f k u1]])

lemma note_update_twice:
  assumes f: "findIndex (has_id i) (clinicalNotes s) = Some n" and k: "keeps_id i u"
    and u1: "updateClinicalNote s ta tb i u = (o1, s1)"
    and u2: "updateClinicalNote s1 tc td i u = (o2, s2)"
  shows "differ_only_at n {''updatedAt''} (clinicalNotes s2) (clinicalNotes s1) \<and>
         s2\<lparr> clinicalNotes := clinicalNotes s1, auditLog := auditLog s1 \<rparr> = s1"
  by (rule note_update_twice_ix [OF u1 f u2 updateClinicalNote_keeps_found [OF f k u1]])

lemma task_update_twice:
  assumes f: "findIndex (has_id i) (tasks s) = Some n" and k: "keeps_id i u"
    and u1: "updateTask s ta tb i u = (o1, s1)"
    and u2: "updateTask s1 tc td i u = (o2, s2)"
  shows "differ_only_at n {''completedAt''} (tasks s2) (tasks s1) \<and>
         s2\<lparr> tasks := tasks s1, auditLog := auditLog s1 \<rparr> = s1"
  by (rule task_update_twice_ix [OF u1 f u2 updateTask_keeps_found [OF f k u1]])

text \<open>
  C7, as the code has it. The entities with an update operation are patients, clinical notes
  and tasks. Let a stored record, at any position of its sequence, be the first that carries
  an identifier, and let two updates through that identifier leave the identifier as it is
  (they have no field \<^verbatim>\<open>id\<close>, or one with the same value). Then the second update
  resolves with, and the store holds at that position, the record with the first and then
  the second updates spread over it: exactly so for patients and notes, whose
  \<^verbatim>\<open>updatedAt\<close> is the stamp of the last update, and in every field but the stamp
  \<^verbatim>\<open>completedAt\<close> for tasks. No other record and no other part of the store changes,
  but for the audit log, and the read that follows (\<^verbatim>\<open>getPatientById\<close>, or the
  by-patient filter over the sequence) returns that record. So when a create returns a
  record whose identifier no record stored before carries, create, update and update
  through that identifier end with the created record merged with both updates, appended
  to the records stored before. Applying one such update twice leaves the store as one
  application left it, but for the stamp (\<^verbatim>\<open>updatedAt\<close>, or \<^verbatim>\<open>completedAt\<close> for
  tasks) of that record; the audit log, which records each call, is the other part that
  grows.
\<close>

theorem updates_merge_into_found_record:
  "(findIndex (has_id i) (patients s) = Some n \<longrightarrow> keeps_id i u1 \<longrightarrow> keeps_id i u2 \<longrightarrow>
    updatePatient s ta tb i u1 = (o1, s1) \<longrightarrow>
    updatePatient s1 tc td i u2 = (o2, s2) \<longrightarrow>
      o2 = Resolve ((patients s ! n ++ u1 ++ u2)(''updatedAt'' \<mapsto> JDate tc)) \<and>
      patients s2 = (patients s)[n := (patients s ! n ++ u1 ++ u2)(''updatedAt'' \<mapsto> JDate tc)] \<and>
      s2\<lparr> patients := patients s, auditLog := auditLog s \<rparr> = s \<and>
      (\<exists>v. getPatientById s2 i = (Resolve v, s2) \<and>
           (\<forall>k. k \<notin> overlay_names \<longrightarrow>
                  v k = map_option Plain (((patients s ! n ++ u1 ++ u2)(''updatedAt'' \<mapsto> JDate tc)) k)))) \<and>
   (findIndex (has_id i) (clinicalNotes s) = Some n \<longrightarrow> keeps_id i u1 \<longrightarrow> keeps_id i u2 \<longrightarrow>
    updateClinicalNote s ta tb i u1 = (o1, s1) \<longrightarrow>
    updateClinicalNote s1 tc td i u2 = (o2, s2) \<longrightarrow>
      o2 = Resolve ((clinicalNotes s ! n ++ u1 ++ u2)(''updatedAt'' \<mapsto> JDate tc)) \<and>
      clinicalNotes s2 = (clinicalNotes s)[n := (clinicalNotes s ! n ++ u1 ++ u2)(''updatedAt'' \<mapsto> JDate tc)] \<and>
      s2\<lparr> clinicalNotes := clinicalNotes s, auditLog := auditLog s \<rparr> = s \<and>
      getClinicalNotesByPatient s2 pid =
        (Resolve (filter (refers_to pid)
           ((clinicalNotes s)[n := (clinicalNotes s ! n ++ u1 ++ u2)(''updatedAt'' \<mapsto> JDate tc)])), s2)) \<and>
   (findIndex (has_id i) (tasks s) = Some n \<longrightarrow> keeps_id i u1 \<longrightarrow> keeps_id i u2 \<longrightarrow>
    updateTask s ta tb i u1 = (o1, s1) \<longrightarrow>
    updateTask s1 tc td i u2 = (o2, s2) \<longrightarrow>
      o2 = Resolve (task_merge (task_merge (tasks s ! n) u1 ta) u2 tc) \<and>
      tasks s2 = (tasks s)[n := task_merge (task_merge (tasks s ! n) u1 ta) u2 tc] \<and>
      (\<forall>k. k \<noteq> ''completedAt'' \<longrightarrow>
           task_merge (task_merge (tasks s ! n) u1 ta) u2 tc k = (tasks s ! n ++ u1 ++ u2) k) \<and>
      s2\<lparr> tasks := tasks s, auditLog := auditLog s \<rparr> = s \<and>
      getTasksByPatient s2 pid =
        (Resolve (filter (refers_to pid)
           ((tasks s)[n := task_merge (task_merge (tasks s ! n) u1 ta) u2 tc])), s2)) \<and>
   (createPatient s t0 t1 t2 t3 d = (Resolve r0, s0) \<longrightarrow>
    has_id i r0 \<longrightarrow> (\<forall>p \<in> set (patients s). \<not> has_id i p) \<longrightarrow>
    keeps_id i u1 \<longrightarrow> keeps_id i u2 \<longrightarrow>
    updatePatient s0 ta tb i u1 = (o1, s1) \<longrightarrow>
    updatePatient s1 tc td i u2 = (o2, s2) \<longrightarrow>
      o2 = Resolve ((r0 ++ u1 ++ u2)(''updatedAt'' \<mapsto> JDate tc)) \<and>
      patients s2 = patients s @ [(r0 ++ u1 ++ u2)(''updatedAt'' \<mapsto> JDate tc)] \<and>
      (\<exists>v. getPatientById s2 i = (Resolve v, s2) \<and>
           (\<forall>k. k \<notin> overlay_names \<longrightarrow>
                  v k = map_option Plain (((r0 ++ u1 ++ u2)(''updatedAt'' \<mapsto> JDate tc)) k)))) \<and>
   (createClinicalNote s t1 t2 t3 d = (Resolve r0, s0) \<longrightarrow>
    has_id i r0 \<longrightarrow> (\<forall>p \<in> set (clinicalNotes s). \<not> has_id i p) \<longrightarrow>
    keeps_id i u1 \<longrightarrow> keeps_id i u2 \<longrightarrow>
    updateClinicalNote s0 ta tb i u1 = (o1, s1) \<longrightarrow>
    updateClinicalNote s1 tc td i u2 = (o2, s2) \<longrightarrow>
      o2 = Resolve ((r0 ++ u1 ++ u2)(''updatedAt'' \<mapsto> JDate tc)) \<and>
      clinicalNotes s2 = clinicalNotes s @ [(r0 ++ u1 ++ u2)(''updatedAt'' \<mapsto> JDate tc)] \<and>
      getClinicalNotesByPatient s2 pid =
        (Resolve (filter (refers_to pid)
           (clinicalNotes s @ [(r0 ++ u1 ++ u2)(''updatedAt'' \<mapsto> JDate tc)])), s2)) \<and>
   (createTask s t1 t3 d = (Resolve r0, s0) \<longrightarrow>
    has_id i r0 \<longrightarrow> (\<forall>p \<in> set (tasks s). \<not> has_id i p) \<longrightarrow>
    keeps_id i u1 \<longrightarrow> keeps_id i u2 \<longrightarrow>
    updateTask s0 ta tb i u1 = (o1, s1) \<longrightarrow>
    updateTask s1 tc td i u2 = (o2, s2) \<longrightarrow>
      o2 = Resolve (task_merge (task_merge r0 u1 ta) u2 tc) \<and>
      tasks s2 = tasks s @ [task_merge (task_merge r0 u1 ta) u2 tc] \<and>
      (\<forall>k. k \<noteq> ''completedAt'' \<longrightarrow> task_merge (task_merge r0 u1 ta) u2 tc k = (r0 ++ u1 ++ u2) k) \<and>
      getTasksByPatient s2 pid =
        (Resolve (filter (refers_to pid) (tasks s @ [task_merge (task_merge r0 u1 ta) u2 tc])), s2)) \<and>
   (findIndex (has_id i) (patients s) = Some n \<longrightarrow> keeps_id i u1 \<longrightarrow>
    updatePatient s ta tb i u1 = (o1, s1) \<longrightarrow>
    updatePatient s1 tc td i u1 = (o2, s2) \<longrightarrow>
      differ_only_at n {''updatedAt''} (patients s2) (patients s1) \<and>
      s2\<lparr> patients := patients s1, auditLog := auditLog s1 \<rparr> = s1) \<and>
   (findIndex (has_id i) (clinicalNotes s) = Some n \<longrightarrow> keeps_id i u1 \<longrightarrow>
    updateClinicalNote s ta tb i u1 = (o1, s1) \<longrightarrow>
    updateClinicalNote s1 tc td i u1 = (o2, s2) \<longrightarrow>
      differ_only_at n {''updatedAt''} (clinicalNotes s2) (clinicalNotes s1) \<and>
      s2\<lparr> clinicalNotes := clinicalNotes s1, auditLog := auditLog s1 \<rparr> = s1) \<and>
   (findIndex (has_id i) (tasks s) = Some n \<longrightarrow> keeps_id i u1 \<longrightarrow>
    updateTask s ta tb i u1 = (o1, s1) \<longrightarrow>
    updateTask s1 tc td i u1 = (o2, s2) \<longrightarrow>
      differ_only_at n {''completedAt''} (tasks s2) (tasks s1) \<and>
      s2\<lparr> tasks := tasks s1, auditLog := auditLog s1 \<rparr> = s1)"
proof (intro conjI impI)
  assume "findIndex (has_id i) (patients s) = Some n" "keeps_id i u1" "keeps_id i u2"
    "updatePatient s ta tb i u1 = (o1, s1)" "updatePatient s1 tc td i u2 = (o2, s2)"
  from patient_update_update [OF this]
  show "o2 = Resolve ((patients s ! n ++ u1 ++ u2)(''updatedAt'' \<mapsto> JDate tc))"
    "patients s2 = (patients s)[n := (patients s ! n ++ u1 ++ u2)(''updatedAt'' \<mapsto> JDate tc)]"
    "s2\<lparr> patients := patients s, auditLog := auditLog s \<rparr> = s"
    "\<exists>v. getPatientById s2 i = (Resolve v, s2) \<and>
           (\<forall>k. k \<notin> overlay_names \<longrightarrow>
                  v k = map_option Plain (((patients s ! n ++ u1 ++ u2)(''updatedAt'' \<mapsto> JDate tc)) k))"
    by - (elim conjE, assumption)+
next
  assume "findIndex (has_id i) (clinicalNotes s) = Some n" "keeps_id i u1" "keeps_id i u2"
    "updateClinicalNote s ta tb i u1 = (o1, s1)" "updateClinicalNote s1 tc td i u2 = (o2, s2)"
  from note_update_update [OF this, of pid]
  show "o2 = Resolve ((clinicalNotes s ! n ++ u1 ++ u2)(''updatedAt'' \<mapsto> JDate tc))"
    "clinicalNotes s2 = (clinicalNotes s)[n := (clinicalNotes s ! n ++ u1 ++ u2)(''updatedAt'' \<mapsto> JDate tc)]"
    "s2\<lparr> clinicalNotes := clinicalNotes s, auditLog := auditLog s \<rparr> = s"
    "getClinicalNotesByPatient s2 pid =
       (Resolve (filter (refers_to pid)
          ((clinicalNotes s)[n := (clinicalNotes s ! n ++ u1 ++ u2)(''updatedAt'' \<mapsto> JDate tc)])), s2)"
    by - (elim conjE, assumption)+
next
  assume "findIndex (has_id i) (tasks s) = Some n" "keeps_id i u1" "keeps_id i u2"
    "updateTask s ta tb i u1 = (o1, s1)" "updateTask s1 tc td i u2 = (o2, s2)"
  from task_update_update [OF this, of pid]
  show "o2 = Resolve (task_merge (task_merge (tasks s ! n) u1 ta) u2 tc)"
    "tasks s2 = (tasks s)[n := task_merge (task_merge (tasks s ! n) u1 ta) u2 tc]"
    "\<forall>k. k \<noteq> ''completedAt'' \<longrightarrow>
         task_merge (task_merge (tasks s ! n) u1 ta) u2 tc k = (tasks s ! n ++ u1 ++ u2) k"
    "s2\<lparr> tasks := tasks s, auditLog := auditLog s \<rparr> = s"
    "getTasksByPatient s2 pid =
       (Resolve (filter (refers_to pid)
          ((tasks s)[n := task_merge (task_merge (tasks s ! n) u1 ta) u2 tc])), s2)"
    by - (elim conjE, assumption)+
next
  assume "createPatient s t0 t1 t2 t3 d = (Resolve r0, s0)"
    "has_id i r0" "\<forall>p \<in> set (patients s). \<not> has_id i p" "keeps_id i u1" "keeps_id i u2"
    "updatePatient s0 ta tb i u1 = (o1, s1)" "updatePatient s1 tc td i u2 = (o2, s2)"
  from patient_create_update_update [OF this]
  show "o2 = Resolve ((r0 ++ u1 ++ u2)(''updatedAt'' \<mapsto> JDate tc))"
    "patients s2 = patients s @ [(r0 ++ u1 ++ u2)(''updatedAt'' \<mapsto> JDate tc)]"
    "\<exists>v. getPatientById s2 i = (Resolve v, s2) \<and>
           (\<forall>k. k \<notin> overlay_names \<longrightarrow>
                  v k = map_option Plain (((r0 ++ u1 ++ u2)(''updatedAt'' \<mapsto> JDate tc)) k))"
    by - (elim conjE, assumption)+
next
  assume "createClinicalNote s t1 t2 t3 d = (Resolve r0, s0)"
    "has_id i r0" "\<forall>p \<in> set (clinicalNotes s). \<not> has_id i p" "keeps_id i u1" "keeps_id i u2"
    "updateClinicalNote s0 ta tb i u1 = (o1, s1)" "updateClinicalNote s1 tc td i u2 = (o2, s2)"
  from note_create_update_update [OF this, of pid]
  show "o2 = Resolve ((r0 ++ u1 ++ u2)(''updatedAt'' \<mapsto> JDate tc))"
    "clinicalNotes s2 = clinicalNotes s @ [(r0 ++ u1 ++ u2)(''updatedAt'' \<mapsto> JDate tc)]"
    "getClinicalNotesByPatient s2 pid =
       (Resolve (filter (refers_to pid)
          (clinicalNotes s @ [(r0 ++ u1 ++ u2)(''updatedAt'' \<mapsto> JDate tc)])), s2)"
    by - (elim conjE, assumption)+
next
  assume "createTask s t1 t3 d = (Resolve r0, s0)"
    "has_id i r0" "\<forall>p \<in> set (tasks s). \<not> has_id i p" "keeps_id i u1" "keeps_id i u2"
    "updateTask s0 ta tb i u1 = (o1, s1)" "updateTask s1 tc td i u2 = (o2, s2)"
  from task_create_update_update [OF this, of pid]
  show "o2 = Resolve (task_merge (task_merge r0 u1 ta) u2 tc)"
    "tasks s2 = tasks s @ [task_merge (task_merge r0 u1 ta) u2 tc]"
    "\<forall>k. k \<noteq> ''completedAt'' \<longrightarrow> task_merge (task_merge r0 u1 ta) u2 tc k = (r0 ++ u1 ++ u2) k"
    "getTasksByPatient s2 pid =
       (Resolve (filter (refers_to pid) (tasks s @ [task_merge (task_merge r0 u1 ta) u2 tc])), s2)"
    by - (elim conjE, assumption)+
next
  assume "findIndex (has_id i) (patients s) = Some n" "keeps_id i u1"
    "updatePatient s ta tb i u1 = (o1, s1)" "updatePatient s1 tc td i u1 = (o2, s2)"
  from patient_update_twice [OF this]
  show "differ_only_at n {''updatedAt''} (patients s2) (patients s1)"
    "s2\<lparr> patients := patients s1, auditLog := auditLog s1 \<rparr> = s1"
    by - (elim conjE, assumption)+
next
  assume "findIndex (has_id i) (clinicalNotes s) = Some n" "keeps_id i u1"
    "updateClinicalNote s ta tb i u1 = (o1, s1)" "updateClinicalNote s1 tc td i u1 = (o2, s2)"
  from note_update_twice [OF this]
  show "differ_only_at n {''updatedAt''} (clinicalNotes s2) (clinicalNotes s1)"
    "s2\<lparr> clinicalNotes := clinicalNotes s1, auditLog := auditLog s1 \<rparr> = s1"
    by - (elim conjE, assumption)+
next
  assume "findIndex (has_id i) (tasks s) = Some n" "keeps_id i u1"
    "updateTask s ta tb i u1 = (o1, s1)" "updateTask s1 tc td i u1 = (o2, s2)"
  from task_update_twice [OF this]
  show "differ_only_at n {''completedAt''} (tasks s2) (tasks s1)"
    "s2\<lparr> tasks := tasks s1, auditLog := auditLog s1 \<rparr> = s1"
    by - (elim conjE, assumption)+
qed

text \<open>
  The stores of the examples: the note and the task of the sample store, and the store in
  which a note identifier is assigned a second time.
\<close>

lemma gap_db_reachable: "reachable gap_db"
  unfolding gap_db_def by (intro r_deletePatient r_createClinicalNote r_init)

lemma gap_new_db_reachable: "reachable gap_new_db"
  unfolding gap_new_db_def by (rule r_createClinicalNote) (rule gap_db_reachable)

lemma gap_edited_db_reachable: "reachable gap_edited_db"
  unfolding gap_edited_db_def by (intro r_updateClinicalNote gap_new_db_reachable)

lemma gap_db_clinicalNotes:
  "clinicalNotes gap_db =
     [[''id'' \<mapsto> JNum 2, ''patientId'' \<mapsto> JStr ''P20250001'', ''content'' \<mapsto> JStr ''Old B'',
       ''status'' \<mapsto> JStr ''draft'', ''createdAt'' \<mapsto> JDate 20, ''updatedAt'' \<mapsto> JDate 21]]"
  by (simp add: gap_db_def createClinicalNote_eq deletePatient_def Let_def logAudit_def init_db_def
      has_id_def refers_to_def fld_def js_or_def)

lemma gap_create:
  "createClinicalNote gap_db 40 41 42 [''patientId'' \<mapsto> JStr ''P20250003'', ''content'' \<mapsto> JStr ''New''] =
     (Resolve [''id'' \<mapsto> JNum 2, ''patientId'' \<mapsto> JStr ''P20250003'', ''content'' \<mapsto> JStr ''New'',
               ''status'' \<mapsto> JStr ''draft'', ''createdAt'' \<mapsto> JDate 40, ''updatedAt'' \<mapsto> JDate 41],
      gap_new_db)"
  by (simp add: gap_new_db_def createClinicalNote_eq gap_db_clinicalNotes js_or_def fld_def)

lemma gap_new_db_clinicalNotes:
  "clinicalNotes gap_new_db =
     [[''id'' \<mapsto> JNum 2, ''patientId'' \<mapsto> JStr ''P20250001'', ''content'' \<mapsto> JStr ''Old B'',
       ''status'' \<mapsto> JStr ''draft'', ''createdAt'' \<mapsto> JDate 20, ''updatedAt'' \<mapsto> JDate 21],
      [''id'' \<mapsto> JNum 2, ''patientId'' \<mapsto> JStr ''P20250003'', ''content'' \<mapsto> JStr ''New'',
       ''status'' \<mapsto> JStr ''draft'', ''createdAt'' \<mapsto> JDate 40, ''updatedAt'' \<mapsto> JDate 41]]"
  by (simp add: gap_new_db_def createClinicalNote_eq logAudit_def gap_db_clinicalNotes js_or_def fld_def)

lemma gap_new_db_found:
  "findIndex (has_id (JNum 2)) (clinicalNotes gap_new_db) = Some 0"
  by (simp add: gap_new_db_clinicalNotes has_id_def fld_def)

lemma gap_first_update:
  "fst (updateClinicalNote gap_new_db 50 51 (JNum 2) [''content'' \<mapsto> JStr ''Edited'']) =
     Resolve [''id'' \<mapsto> JNum 2, ''patientId'' \<mapsto> JStr ''P20250001'', ''content'' \<mapsto> JStr ''Edited'',
              ''status'' \<mapsto> JStr ''draft'', ''createdAt'' \<mapsto> JDate 20, ''updatedAt'' \<mapsto> JDate 50]"
proof -
  have "(clinicalNotes gap_new_db ! 0 ++ [''content'' \<mapsto> JStr ''Edited''])(''updatedAt'' \<mapsto> JDate 50) =
        [''id'' \<mapsto> JNum 2, ''patientId'' \<mapsto> JStr ''P20250001'', ''content'' \<mapsto> JStr ''Edited'',
         ''status'' \<mapsto> JStr ''draft'', ''createdAt'' \<mapsto> JDate 20, ''updatedAt'' \<mapsto> JDate 50]"
    by (rule ext) (simp add: gap_new_db_clinicalNotes map_add_def)
  then show ?thesis
    by (simp add: updateClinicalNote_found [OF gap_new_db_found])
qed

lemma gap_first_update_clinicalNotes:
  "clinicalNotes (snd (updateClinicalNote gap_new_db 50 51 (JNum 2) [''content'' \<mapsto> JStr ''Edited''])) =
     [[''id'' \<mapsto> JNum 2, ''patientId'' \<mapsto> JStr ''P20250001'', ''content'' \<mapsto> JStr ''Edited'',
       ''status'' \<mapsto> JStr ''draft'', ''createdAt'' \<mapsto> JDate 20, ''updatedAt'' \<mapsto> JDate 50],
      [''id'' \<mapsto> JNum 2, ''patientId'' \<mapsto> JStr ''P20250003'', ''content'' \<mapsto> JStr ''New'',
       ''status'' \<mapsto> JStr ''draft'', ''createdAt'' \<mapsto> JDate 40, ''updatedAt'' \<mapsto> JDate 41]]"
proof -
  have "(clinicalNotes gap_new_db ! 0 ++ [''content'' \<mapsto> JStr ''Edited''])(''updatedAt'' \<mapsto> JDate 50) =
        [''id'' \<mapsto> JNum 2, ''patientId'' \<mapsto> JStr ''P20250001'', ''content'' \<mapsto> JStr ''Edited'',
         ''status'' \<mapsto> JStr ''draft'', ''createdAt'' \<mapsto> JDate 20, ''updatedAt'' \<mapsto> JDate 50]"
    by (rule ext) (simp add: gap_new_db_clinicalNotes map_add_def)
  then show ?thesis
    by (simp add: updateClinicalNote_found [OF gap_new_db_found] logAudit_def)
       (simp add: gap_new_db_clinicalNotes)
qed

lemma gap_first_update_found:
  "findIndex (has_id (JNum 2))
     (clinicalNotes (snd (updateClinicalNote gap_new_db 50 51 (JNum 2) [''content'' \<mapsto> JStr ''Edited'']))) = Some 0"
  by (simp only: gap_first_update_clinicalNotes) (simp add: has_id_def fld_def)

lemma gap_second_update:
  "fst (updateClinicalNote
          (snd (updateClinicalNote gap_new_db 50 51 (JNum 2) [''content'' \<mapsto> JStr ''Edited'']))
          60 61 (JNum 2) [''status'' \<mapsto> JStr ''final'']) =
     Resolve [''id'' \<mapsto> JNum 2, ''patientId'' \<mapsto> JStr ''P20250001'', ''content'' \<mapsto> JStr ''Edited'',
              ''status'' \<mapsto> JStr ''final'', ''createdAt'' \<mapsto> JDate 20, ''updatedAt'' \<mapsto> JDate 60]"
proof -
  have "(clinicalNotes (snd (updateClinicalNote gap_new_db 50 51 (JNum 2) [''content'' \<mapsto> JStr ''Edited''])) ! 0
           ++ [''status'' \<mapsto> JStr ''final''])(''updatedAt'' \<mapsto> JDate 60) =
        [''id'' \<mapsto> JNum 2, ''patientId'' \<mapsto> JStr ''P20250001'', ''content'' \<mapsto> JStr ''Edited'',
         ''status'' \<mapsto> JStr ''final'', ''createdAt'' \<mapsto> JDate 20, ''updatedAt'' \<mapsto> JDate 60]"
    by (simp only: gap_first_update_clinicalNotes) (rule ext, simp add: map_add_def)
  then show ?thesis
    by (simp add: updateClinicalNote_found [OF gap_first_update_found])
qed

lemma gap_edited_db_clinicalNotes:
  "clinicalNotes gap_edited_db =
     [[''id'' \<mapsto> JNum 2, ''patientId'' \<mapsto> JStr ''P20250001'', ''content'' \<mapsto> JStr ''Edited'',
       ''status'' \<mapsto> JStr ''final'', ''createdAt'' \<mapsto> JDate 20, ''updatedAt'' \<mapsto> JDate 60],
      [''id'' \<mapsto> JNum 2, ''patientId'' \<mapsto> JStr ''P20250003'', ''content'' \<mapsto> JStr ''New'',
       ''status'' \<mapsto> JStr ''draft'', ''createdAt'' \<mapsto> JDate 40, ''updatedAt'' \<mapsto> JDate 41]]"
proof -
  have "(clinicalNotes (snd (updateClinicalNote gap_new_db 50 51 (JNum 2) [''content'' \<mapsto> JStr ''Edited''])) ! 0
           ++ [''status'' \<mapsto> JStr ''final''])(''updatedAt'' \<mapsto> JDate 60) =
        [''id'' \<mapsto> JNum 2, ''patientId'' \<mapsto> JStr ''P20250001'', ''content'' \<mapsto> JStr ''Edited'',
         ''status'' \<mapsto> JStr ''final'', ''createdAt'' \<mapsto> JDate 20, ''updatedAt'' \<mapsto> JDate 60]"
    by (simp only: gap_first_update_clinicalNotes) (rule ext, simp add: map_add_def)
  then show ?thesis
    by (simp add: gap_edited_db_def updateClinicalNote_found [OF gap_first_update_found] logAudit_def)
       (simp add: gap_first_update_clinicalNotes)
qed

lemma gap_edited_db_read:
  "getClinicalNotesByPatient gap_edited_db (JStr ''P20250003'') =
     (Resolve [[''id'' \<mapsto> JNum 2, ''patientId'' \<mapsto> JStr ''P20250003'', ''content'' \<mapsto> JStr ''New'',
                ''status'' \<mapsto> JStr ''draft'', ''createdAt'' \<mapsto> JDate 40, ''updatedAt'' \<mapsto> JDate 41]],
      gap_edited_db)"
  by (simp add: getClinicalNotesByPatient_def gap_edited_db_clinicalNotes refers_to_def fld_def)

lemma gap_merge_differs:
  "([''id'' \<mapsto> JNum 2, ''patientId'' \<mapsto> JStr ''P20250003'', ''content'' \<mapsto> JStr ''New'',
     ''status'' \<mapsto> JStr ''draft'', ''createdAt'' \<mapsto> JDate 40, ''updatedAt'' \<mapsto> JDate 41]
      ++ [''content'' \<mapsto> JStr ''Edited''] ++ [''status'' \<mapsto> JStr ''final'']) ''content'' =
     Some (JStr ''Edited'')"
  by (simp add: map_add_def)

lemma note_db_clinicalNotes: "clinicalNotes note_db = [[''id'' \<mapsto> JNum 1, ''patientId'' \<mapsto> JStr ''P20250001'', ''content'' \<mapsto> JStr ''Stable'', ''status'' \<mapsto> JStr ''draft'', ''createdAt'' \<mapsto> JDate 1, ''updatedAt'' \<mapsto> JDate 2]]"
  by (simp add: note_db_def createClinicalNote_eq logAudit_def init_db_def js_or_def fld_def)

lemma note_db_tasks: "tasks note_db = []"
  by (simp add: note_db_def createClinicalNote_eq logAudit_def init_db_def)

lemma sample_db_note_db: "sample_db = snd (createTask note_db 4 5 [''title'' \<mapsto> JStr ''Follow up'', ''patientId'' \<mapsto> JStr ''P20250001''])"
  by (simp add: sample_db_def)

lemma note_db_found: "findIndex (has_id (JNum 1)) (clinicalNotes note_db) = Some 0"
  by (simp add: note_db_clinicalNotes has_id_def fld_def)

lemma renumbered_note_lost:
  "updateClinicalNote
     (snd (updateClinicalNote note_db 20 21 (JNum 1) [''id'' \<mapsto> JNum 7]))
     30 31 (JNum 1) [''status'' \<mapsto> JStr ''final''] =
   (Reject ''Clinical note not found'',
    snd (updateClinicalNote note_db 20 21 (JNum 1) [''id'' \<mapsto> JNum 7]))"
proof -
  have "clinicalNotes (snd (updateClinicalNote note_db 20 21 (JNum 1) [''id'' \<mapsto> JNum 7])) =
          [(clinicalNotes note_db ! 0 ++ [''id'' \<mapsto> JNum 7])(''updatedAt'' \<mapsto> JDate 20)]"
    by (simp add: updateClinicalNote_found [OF note_db_found] logAudit_def)
       (simp add: note_db_clinicalNotes)
  then have "findIndex (has_id (JNum 1))
               (clinicalNotes (snd (updateClinicalNote note_db 20 21 (JNum 1) [''id'' \<mapsto> JNum 7]))) = None"
    by (simp add: has_id_def fld_def map_add_def)
  then show ?thesis
    by (simp add: updateClinicalNote_def)
qed

text \<open>
  The second patient of the initial store, the first note of the store with the reused
  identifier and the task of the sample store are each updated twice, at their position;
  Ada's record, a note and a task are created with a new identifier and updated twice; and
  one update is applied twice to a patient, a note and a task.
\<close>

theorem updates_merge_into_found_record_witness:
  "(let s1 = snd (updatePatient init_db 20 21 (JStr ''P20250003'') [''phone'' \<mapsto> JStr ''555-0100'']);
        s2 = snd (updatePatient s1 30 31 (JStr ''P20250003'') [''phone'' \<mapsto> JStr ''555-0199'', ''email'' \<mapsto> JStr ''ada@example.org''])
    in fst (updatePatient s1 30 31 (JStr ''P20250003'') [''phone'' \<mapsto> JStr ''555-0199'', ''email'' \<mapsto> JStr ''ada@example.org'']) = Resolve ((patients init_db ! 1 ++ [''phone'' \<mapsto> JStr ''555-0100''] ++ [''phone'' \<mapsto> JStr ''555-0199'', ''email'' \<mapsto> JStr ''ada@example.org''])(''updatedAt'' \<mapsto> JDate 30)) \<and>
       patients s2 = (patients init_db)[1 := (patients init_db ! 1 ++ [''phone'' \<mapsto> JStr ''555-0100''] ++ [''phone'' \<mapsto> JStr ''555-0199'', ''email'' \<mapsto> JStr ''ada@example.org''])(''updatedAt'' \<mapsto> JDate 30)] \<and>
       s2\<lparr> patients := patients init_db, auditLog := auditLog init_db \<rparr> = init_db \<and>
       (\<exists>v. getPatientById s2 (JStr ''P20250003'') = (Resolve v, s2) \<and>
            (\<forall>k. k \<notin> overlay_names \<longrightarrow> v k = map_option Plain (((patients init_db ! 1 ++ [''phone'' \<mapsto> JStr ''555-0100''] ++ [''phone'' \<mapsto> JStr ''555-0199'', ''email'' \<mapsto> JStr ''ada@example.org''])(''updatedAt'' \<mapsto> JDate 30)) k)))) \<and>
   (let s1 = snd (updateClinicalNote gap_new_db 50 51 (JNum 2) [''content'' \<mapsto> JStr ''Edited'']);
        s2 = snd (updateClinicalNote s1 60 61 (JNum 2) [''status'' \<mapsto> JStr ''final''])
    in fst (updateClinicalNote s1 60 61 (JNum 2) [''status'' \<mapsto> JStr ''final'']) = Resolve ((clinicalNotes gap_new_db ! 0 ++ [''content'' \<mapsto> JStr ''Edited''] ++ [''status'' \<mapsto> JStr ''final''])(''updatedAt'' \<mapsto> JDate 60)) \<and>
       clinicalNotes s2 = (clinicalNotes gap_new_db)[0 := (clinicalNotes gap_new_db ! 0 ++ [''content'' \<mapsto> JStr ''Edited''] ++ [''status'' \<mapsto> JStr ''final''])(''updatedAt'' \<mapsto> JDate 60)] \<and>
       s2\<lparr> clinicalNotes := clinicalNotes gap_new_db, auditLog := auditLog gap_new_db \<rparr> = gap_new_db \<and>
       getClinicalNotesByPatient s2 (JStr ''P20250001'') =
         (Resolve (filter (refers_to (JStr ''P20250001'')) ((clinicalNotes gap_new_db)[0 := (clinicalNotes gap_new_db ! 0 ++ [''content'' \<mapsto> JStr ''Edited''] ++ [''status'' \<mapsto> JStr ''final''])(''updatedAt'' \<mapsto> JDate 60)])), s2)) \<and>
   (let s1 = snd (updateTask sample_db 20 21 (JNum 1) [''status'' \<mapsto> JStr ''completed'']);
        s2 = snd (updateTask s1 30 31 (JNum 1) [''priority'' \<mapsto> JStr ''high''])
    in fst (updateTask s1 30 31 (JNum 1) [''priority'' \<mapsto> JStr ''high'']) = Resolve (task_merge (task_merge (tasks sample_db ! 0) [''status'' \<mapsto> JStr ''completed''] 20) [''priority'' \<mapsto> JStr ''high''] 30) \<and>
       tasks s2 = (tasks sample_db)[0 := task_merge (task_merge (tasks sample_db ! 0) [''status'' \<mapsto> JStr ''completed''] 20) [''priority'' \<mapsto> JStr ''high''] 30] \<and>
       (\<forall>k. k \<noteq> ''completedAt'' \<longrightarrow> task_merge (task_merge (tasks sample_db ! 0) [''status'' \<mapsto> JStr ''completed''] 20) [''priority'' \<mapsto> JStr ''high''] 30 k = (tasks sample_db ! 0 ++ [''status'' \<mapsto> JStr ''completed''] ++ [''priority'' \<mapsto> JStr ''high'']) k) \<and>
       s2\<lparr> tasks := tasks sample_db, auditLog := auditLog sample_db \<rparr> = sample_db \<and>
       getTasksByPatient s2 (JStr ''P20250001'') =
         (Resolve (filter (refers_to (JStr ''P20250001'')) ((tasks sample_db)[0 := task_merge (task_merge (tasks sample_db ! 0) [''status'' \<mapsto> JStr ''completed''] 20) [''priority'' \<mapsto> JStr ''high''] 30])), s2)) \<and>
   (let s1 = snd (updatePatient ada_db 20 21 (JStr ''P1736500000000'') [''phone'' \<mapsto> JStr ''555-0100'']);
        s2 = snd (updatePatient s1 30 31 (JStr ''P1736500000000'') [''phone'' \<mapsto> JStr ''555-0199'', ''email'' \<mapsto> JStr ''ada@example.org''])
    in fst (updatePatient s1 30 31 (JStr ''P1736500000000'') [''phone'' \<mapsto> JStr ''555-0199'', ''email'' \<mapsto> JStr ''ada@example.org'']) = Resolve (([''id'' \<mapsto> JStr ''P1736500000000'', ''firstName'' \<mapsto> JStr ''Ada'', ''lastName'' \<mapsto> JStr ''Lovelace'', ''dateOfBirth'' \<mapsto> JStr ''1990-01-01'', ''bloodType'' \<mapsto> JStr ''O+'', ''status'' \<mapsto> JStr ''active'', ''createdAt'' \<mapsto> JDate 1736500000000, ''updatedAt'' \<mapsto> JDate 1736500000000] ++ [''phone'' \<mapsto> JStr ''555-0100''] ++ [''phone'' \<mapsto> JStr ''555-0199'', ''email'' \<mapsto> JStr ''ada@example.org''])(''updatedAt'' \<mapsto> JDate 30)) \<and>
       patients s2 = patients init_db @ [([''id'' \<mapsto> JStr ''P1736500000000'', ''firstName'' \<mapsto> JStr ''Ada'', ''lastName'' \<mapsto> JStr ''Lovelace'', ''dateOfBirth'' \<mapsto> JStr ''1990-01-01'', ''bloodType'' \<mapsto> JStr ''O+'', ''status'' \<mapsto> JStr ''active'', ''createdAt'' \<mapsto> JDate 1736500000000, ''updatedAt'' \<mapsto> JDate 1736500000000] ++ [''phone'' \<mapsto> JStr ''555-0100''] ++ [''phone'' \<mapsto> JStr ''555-0199'', ''email'' \<mapsto> JStr ''ada@example.org''])(''updatedAt'' \<mapsto> JDate 30)] \<and>
       (\<exists>v. getPatientById s2 (JStr ''P1736500000000'') = (Resolve v, s2) \<and>
            (\<forall>k. k \<notin> overlay_names \<longrightarrow> v k = map_option Plain ((([''id'' \<mapsto> JStr ''P1736500000000'', ''firstName'' \<mapsto> JStr ''Ada'', ''lastName'' \<mapsto> JStr ''Lovelace'', ''dateOfBirth'' \<mapsto> JStr ''1990-01-01'', ''bloodType'' \<mapsto> JStr ''O+'', ''status'' \<mapsto> JStr ''active'', ''createdAt'' \<mapsto> JDate 1736500000000, ''updatedAt'' \<mapsto> JDate 1736500000000] ++ [''phone'' \<mapsto> JStr ''555-0100''] ++ [''phone'' \<mapsto> JStr ''555-0199'', ''email'' \<mapsto> JStr ''ada@example.org''])(''updatedAt'' \<mapsto> JDate 30)) k)))) \<and>
   (let s1 = snd (updateClinicalNote note_db 20 21 (JNum 1) [''content'' \<mapsto> JStr ''Improving'']);
        s2 = snd (updateClinicalNote s1 30 31 (JNum 1) [''status'' \<mapsto> JStr ''final''])
    in fst (updateClinicalNote s1 30 31 (JNum 1) [''status'' \<mapsto> JStr ''final'']) = Resolve (([''id'' \<mapsto> JNum 1, ''patientId'' \<mapsto> JStr ''P20250001'', ''content'' \<mapsto> JStr ''Stable'', ''status'' \<mapsto> JStr ''draft'', ''createdAt'' \<mapsto> JDate 1, ''updatedAt'' \<mapsto> JDate 2] ++ [''content'' \<mapsto> JStr ''Improving''] ++ [''status'' \<mapsto> JStr ''final''])(''updatedAt'' \<mapsto> JDate 30)) \<and>
       clinicalNotes s2 = clinicalNotes init_db @ [([''id'' \<mapsto> JNum 1, ''patientId'' \<mapsto> JStr ''P20250001'', ''content'' \<mapsto> JStr ''Stable'', ''status'' \<mapsto> JStr ''draft'', ''createdAt'' \<mapsto> JDate 1, ''updatedAt'' \<mapsto> JDate 2] ++ [''content'' \<mapsto> JStr ''Improving''] ++ [''status'' \<mapsto> JStr ''final''])(''updatedAt'' \<mapsto> JDate 30)] \<and>
       getClinicalNotesByPatient s2 (JStr ''P20250001'') =
         (Resolve (filter (refers_to (JStr ''P20250001'')) (clinicalNotes init_db @ [([''id'' \<mapsto> JNum 1, ''patientId'' \<mapsto> JStr ''P20250001'', ''content'' \<mapsto> JStr ''Stable'', ''status'' \<mapsto> JStr ''draft'', ''createdAt'' \<mapsto> JDate 1, ''updatedAt'' \<mapsto> JDate 2] ++ [''content'' \<mapsto> JStr ''Improving''] ++ [''status'' \<mapsto> JStr ''final''])(''updatedAt'' \<mapsto> JDate 30)])), s2)) \<and>
   (let s1 = snd (updateTask sample_db 20 21 (JNum 1) [''status'' \<mapsto> JStr ''completed'']);
        s2 = snd (updateTask s1 30 31 (JNum 1) [''priority'' \<mapsto> JStr ''high''])
    in fst (updateTask s1 30 31 (JNum 1) [''priority'' \<mapsto> JStr ''high'']) = Resolve (task_merge (task_merge [''id'' \<mapsto> JNum 1, ''title'' \<mapsto> JStr ''Follow up'', ''patientId'' \<mapsto> JStr ''P20250001'', ''status'' \<mapsto> JStr ''pending'', ''createdAt'' \<mapsto> JDate 4] [''status'' \<mapsto> JStr ''completed''] 20) [''priority'' \<mapsto> JStr ''high''] 30) \<and>
       tasks s2 = tasks note_db @ [task_merge (task_merge [''id'' \<mapsto> JNum 1, ''title'' \<mapsto> JStr ''Follow up'', ''patientId'' \<mapsto> JStr ''P20250001'', ''status'' \<mapsto> JStr ''pending'', ''createdAt'' \<mapsto> JDate 4] [''status'' \<mapsto> JStr ''completed''] 20) [''priority'' \<mapsto> JStr ''high''] 30] \<and>
       (\<forall>k. k \<noteq> ''completedAt'' \<longrightarrow> task_merge (task_merge [''id'' \<mapsto> JNum 1, ''title'' \<mapsto> JStr ''Follow up'', ''patientId'' \<mapsto> JStr ''P20250001'', ''status'' \<mapsto> JStr ''pending'', ''createdAt'' \<mapsto> JDate 4] [''status'' \<mapsto> JStr ''completed''] 20) [''priority'' \<mapsto> JStr ''high''] 30 k = ([''id'' \<mapsto> JNum 1, ''title'' \<mapsto> JStr ''Follow up'', ''patientId'' \<mapsto> JStr ''P20250001'', ''status'' \<mapsto> JStr ''pending'', ''createdAt'' \<mapsto> JDate 4] ++ [''status'' \<mapsto> JStr ''completed''] ++ [''priority'' \<mapsto> JStr ''high'']) k) \<and>
       getTasksByPatient s2 (JStr ''P20250001'') =
         (Resolve (filter (refers_to (JStr ''P20250001'')) (tasks note_db @ [task_merge (task_merge [''id'' \<mapsto> JNum 1, ''title'' \<mapsto> JStr ''Follow up'', ''patientId'' \<mapsto> JStr ''P20250001'', ''status'' \<mapsto> JStr ''pending'', ''createdAt'' \<mapsto> JDate 4] [''status'' \<mapsto> JStr ''completed''] 20) [''priority'' \<mapsto> JStr ''high''] 30])), s2)) \<and>
   (let s1 = snd (updatePatient init_db 20 21 (JStr ''P20250003'') [''phone'' \<mapsto> JStr ''555-0100'']);
        s2 = snd (updatePatient s1 30 31 (JStr ''P20250003'') [''phone'' \<mapsto> JStr ''555-0100''])
    in differ_only_at 1 {''updatedAt''} (patients s2) (patients s1) \<and>
       s2\<lparr> patients := patients s1, auditLog := auditLog s1 \<rparr> = s1) \<and>
   (let s1 = snd (updateClinicalNote note_db 20 21 (JNum 1) [''content'' \<mapsto> JStr ''Improving'']);
        s2 = snd (updateClinicalNote s1 30 31 (JNum 1) [''content'' \<mapsto> JStr ''Improving''])
    in differ_only_at 0 {''updatedAt''} (clinicalNotes s2) (clinicalNotes s1) \<and>
       s2\<lparr> clinicalNotes := clinicalNotes s1, auditLog := auditLog s1 \<rparr> = s1) \<and>
   (let s1 = snd (updateTask sample_db 20 21 (JNum 1) [''status'' \<mapsto> JStr ''completed'']);
        s2 = snd (updateTask s1 30 31 (JNum 1) [''status'' \<mapsto> JStr ''completed''])
    in differ_only_at 0 {''completedAt''} (tasks s2) (tasks s1) \<and>
       s2\<lparr> tasks := tasks s1, auditLog := auditLog s1 \<rparr> = s1)"
proof -
  note t = updates_merge_into_found_record
  have fp: "findIndex (has_id (JStr ''P20250003'')) (patients init_db) = Some 1"
    by (simp add: init_db_def has_id_def fld_def)
  have fg: "findIndex (has_id (JNum 2)) (clinicalNotes gap_new_db) = Some 0"
    by (rule gap_new_db_found)
  have fn: "findIndex (has_id (JNum 1)) (clinicalNotes note_db) = Some 0"
    by (rule note_db_found)
  have ft: "findIndex (has_id (JNum 1)) (tasks sample_db) = Some 0"
    by (simp add: sample_db_tasks has_id_def fld_def)
  have kp1: "keeps_id (JStr ''P20250003'') [''phone'' \<mapsto> JStr ''555-0100'']"
    by (simp add: keeps_id_def)
  have kp2: "keeps_id (JStr ''P20250003'') [''phone'' \<mapsto> JStr ''555-0199'', ''email'' \<mapsto> JStr ''ada@example.org'']"
    by (simp add: keeps_id_def)
  have ka1: "keeps_id (JStr ''P1736500000000'') [''phone'' \<mapsto> JStr ''555-0100'']"
    by (simp add: keeps_id_def)
  have ka2: "keeps_id (JStr ''P1736500000000'') [''phone'' \<mapsto> JStr ''555-0199'', ''email'' \<mapsto> JStr ''ada@example.org'']"
    by (simp add: keeps_id_def)
  have kg1: "keeps_id (JNum 2) [''content'' \<mapsto> JStr ''Edited'']"
    by (simp add: keeps_id_def)
  have kg2: "keeps_id (JNum 2) [''status'' \<mapsto> JStr ''final'']"
    by (simp add: keeps_id_def)
  have kn1: "keeps_id (JNum 1) [''content'' \<mapsto> JStr ''Improving'']"
    by (simp add: keeps_id_def)
  have kn2: "keeps_id (JNum 1) [''status'' \<mapsto> JStr ''final'']"
    by (simp add: keeps_id_def)
  have kt1: "keeps_id (JNum 1) [''status'' \<mapsto> JStr ''completed'']"
    by (simp add: keeps_id_def)
  have kt2: "keeps_id (JNum 1) [''priority'' \<mapsto> JStr ''high'']"
    by (simp add: keeps_id_def)
  have pc: "createPatient init_db 1736500000000 1736500000000 1736500000000 1736500000000 [''firstName'' \<mapsto> JStr ''Ada'', ''lastName'' \<mapsto> JStr ''Lovelace'', ''dateOfBirth'' \<mapsto> JStr ''1990-01-01'', ''bloodType'' \<mapsto> JStr ''O+''] = (Resolve [''id'' \<mapsto> JStr ''P1736500000000'', ''firstName'' \<mapsto> JStr ''Ada'', ''lastName'' \<mapsto> JStr ''Lovelace'', ''dateOfBirth'' \<mapsto> JStr ''1990-01-01'', ''bloodType'' \<mapsto> JStr ''O+'', ''status'' \<mapsto> JStr ''active'', ''createdAt'' \<mapsto> JDate 1736500000000, ''updatedAt'' \<mapsto> JDate 1736500000000], ada_db)"
    by (simp add: ada_db_def createPatient_eq clock_text)
  have ph: "has_id (JStr ''P1736500000000'') [''id'' \<mapsto> JStr ''P1736500000000'', ''firstName'' \<mapsto> JStr ''Ada'', ''lastName'' \<mapsto> JStr ''Lovelace'', ''dateOfBirth'' \<mapsto> JStr ''1990-01-01'', ''bloodType'' \<mapsto> JStr ''O+'', ''status'' \<mapsto> JStr ''active'', ''createdAt'' \<mapsto> JDate 1736500000000, ''updatedAt'' \<mapsto> JDate 1736500000000]"
    by (simp add: has_id_def fld_def)
  have pn: "\<forall>p \<in> set (patients init_db). \<not> has_id (JStr ''P1736500000000'') p"
    by (simp add: init_db_def has_id_def fld_def)
  have nc: "createClinicalNote init_db 1 2 3 [''patientId'' \<mapsto> JStr ''P20250001'', ''content'' \<mapsto> JStr ''Stable''] = (Resolve [''id'' \<mapsto> JNum 1, ''patientId'' \<mapsto> JStr ''P20250001'', ''content'' \<mapsto> JStr ''Stable'', ''status'' \<mapsto> JStr ''draft'', ''createdAt'' \<mapsto> JDate 1, ''updatedAt'' \<mapsto> JDate 2], note_db)"
    by (simp add: note_db_def createClinicalNote_eq init_db_def js_or_def fld_def)
  have nh: "has_id (JNum 1) [''id'' \<mapsto> JNum 1, ''patientId'' \<mapsto> JStr ''P20250001'', ''content'' \<mapsto> JStr ''Stable'', ''status'' \<mapsto> JStr ''draft'', ''createdAt'' \<mapsto> JDate 1, ''updatedAt'' \<mapsto> JDate 2]"
    by (simp add: has_id_def fld_def)
  have nn: "\<forall>p \<in> set (clinicalNotes init_db). \<not> has_id (JNum 1) p"
    by (simp add: init_db_def)
  have kc: "createTask note_db 4 5 [''title'' \<mapsto> JStr ''Follow up'', ''patientId'' \<mapsto> JStr ''P20250001''] = (Resolve [''id'' \<mapsto> JNum 1, ''title'' \<mapsto> JStr ''Follow up'', ''patientId'' \<mapsto> JStr ''P20250001'', ''status'' \<mapsto> JStr ''pending'', ''createdAt'' \<mapsto> JDate 4], sample_db)"
    by (simp add: sample_db_note_db createTask_eq note_db_tasks js_or_def fld_def)
  have kh: "has_id (JNum 1) [''id'' \<mapsto> JNum 1, ''title'' \<mapsto> JStr ''Follow up'', ''patientId'' \<mapsto> JStr ''P20250001'', ''status'' \<mapsto> JStr ''pending'', ''createdAt'' \<mapsto> JDate 4]"
    by (simp add: has_id_def fld_def)
  have kn: "\<forall>p \<in> set (tasks note_db). \<not> has_id (JNum 1) p"
    by (simp add: note_db_tasks)
  have pu1: "updatePatient init_db 20 21 (JStr ''P20250003'') [''phone'' \<mapsto> JStr ''555-0100''] = (fst (updatePatient init_db 20 21 (JStr ''P20250003'') [''phone'' \<mapsto> JStr ''555-0100'']), snd (updatePatient init_db 20 21 (JStr ''P20250003'') [''phone'' \<mapsto> JStr ''555-0100'']))"
    by simp
  have pu2: "updatePatient (snd (updatePatient init_db 20 21 (JStr ''P20250003'') [''phone'' \<mapsto> JStr ''555-0100''])) 30 31 (JStr ''P20250003'') [''phone'' \<mapsto> JStr ''555-0199'', ''email'' \<mapsto> JStr ''ada@example.org''] = (fst (updatePatient (snd (updatePatient init_db 20 21 (JStr ''P20250003'') [''phone'' \<mapsto> JStr ''555-0100''])) 30 31 (JStr ''P20250003'') [''phone'' \<mapsto> JStr ''555-0199'', ''email'' \<mapsto> JStr ''ada@example.org'']), snd (updatePatient (snd (updatePatient init_db 20 21 (JStr ''P20250003'') [''phone'' \<mapsto> JStr ''555-0100''])) 30 31 (JStr ''P20250003'') [''phone'' \<mapsto> JStr ''555-0199'', ''email'' \<mapsto> JStr ''ada@example.org'']))"
    by simp
  have pu3: "updatePatient (snd (updatePatient init_db 20 21 (JStr ''P20250003'') [''phone'' \<mapsto> JStr ''555-0100''])) 30 31 (JStr ''P20250003'') [''phone'' \<mapsto> JStr ''555-0100''] = (fst (updatePatient (snd (updatePatient init_db 20 21 (JStr ''P20250003'') [''phone'' \<mapsto> JStr ''555-0100''])) 30 31 (JStr ''P20250003'') [''phone'' \<mapsto> JStr ''555-0100'']), snd (updatePatient (snd (updatePatient init_db 20 21 (JStr ''P20250003'') [''phone'' \<mapsto> JStr ''555-0100''])) 30 31 (JStr ''P20250003'') [''phone'' \<mapsto> JStr ''555-0100'']))"
    by simp
  have au1: "updatePatient ada_db 20 21 (JStr ''P1736500000000'') [''phone'' \<mapsto> JStr ''555-0100''] = (fst (updatePatient ada_db 20 21 (JStr ''P1736500000000'') [''phone'' \<mapsto> JStr ''555-0100'']), snd (updatePatient ada_db 20 21 (JStr ''P1736500000000'') [''phone'' \<mapsto> JStr ''555-0100'']))"
    by simp
  have au2: "updatePatient (snd (updatePatient ada_db 20 21 (JStr ''P1736500000000'') [''phone'' \<mapsto> JStr ''555-0100''])) 30 31 (JStr ''P1736500000000'') [''phone'' \<mapsto> JStr ''555-0199'', ''email'' \<mapsto> JStr ''ada@example.org''] = (fst (updatePatient (snd (updatePatient ada_db 20 21 (JStr ''P1736500000000'') [''phone'' \<mapsto> JStr ''555-0100''])) 30 31 (JStr ''P1736500000000'') [''phone'' \<mapsto> JStr ''555-0199'', ''email'' \<mapsto> JStr ''ada@example.org'']), snd (updatePatient (snd (updatePatient ada_db 20 21 (JStr ''P1736500000000'') [''phone'' \<mapsto> JStr ''555-0100''])) 30 31 (JStr ''P1736500000000'') [''phone'' \<mapsto> JStr ''555-0199'', ''email'' \<mapsto> JStr ''ada@example.org'']))"
    by simp
  have gu1: "updateClinicalNote gap_new_db 50 51 (JNum 2) [''content'' \<mapsto> JStr ''Edited''] = (fst (updateClinicalNote gap_new_db 50 51 (JNum 2) [''content'' \<mapsto> JStr ''Edited'']), snd (updateClinicalNote gap_new_db 50 51 (JNum 2) [''content'' \<mapsto> JStr ''Edited'']))"
    by simp
  have gu2: "updateClinicalNote (snd (updateClinicalNote gap_new_db 50 51 (JNum 2) [''content'' \<mapsto> JStr ''Edited''])) 60 61 (JNum 2) [''status'' \<mapsto> JStr ''final''] = (fst (updateClinicalNote (snd (updateClinicalNote gap_new_db 50 51 (JNum 2) [''content'' \<mapsto> JStr ''Edited''])) 60 61 (JNum 2) [''status'' \<mapsto> JStr ''final'']), snd (updateClinicalNote (snd (updateClinicalNote gap_new_db 50 51 (JNum 2) [''content'' \<mapsto> JStr ''Edited''])) 60 61 (JNum 2) [''status'' \<mapsto> JStr ''final'']))"
    by simp
  have nu1: "updateClinicalNote note_db 20 21 (JNum 1) [''content'' \<mapsto> JStr ''Improving''] = (fst (updateClinicalNote note_db 20 21 (JNum 1) [''content'' \<mapsto> JStr ''Improving'']), snd (updateClinicalNote note_db 20 21 (JNum 1) [''content'' \<mapsto> JStr ''Improving'']))"
    by simp
  have nu2: "updateClinicalNote (snd (updateClinicalNote note_db 20 21 (JNum 1) [''content'' \<mapsto> JStr ''Improving''])) 30 31 (JNum 1) [''status'' \<mapsto> JStr ''final''] = (fst (updateClinicalNote (snd (updateClinicalNote note_db 20 21 (JNum 1) [''content'' \<mapsto> JStr ''Improving''])) 30 31 (JNum 1) [''status'' \<mapsto> JStr ''final'']), snd (updateClinicalNote (snd (updateClinicalNote note_db 20 21 (JNum 1) [''content'' \<mapsto> JStr ''Improving''])) 30 31 (JNum 1) [''status'' \<mapsto> JStr ''final'']))"
    by simp
  have nu3: "updateClinicalNote (snd (updateClinicalNote note_db 20 21 (JNum 1) [''content'' \<mapsto> JStr ''Improving''])) 30 31 (JNum 1) [''content'' \<mapsto> JStr ''Improving''] = (fst (updateClinicalNote (snd (updateClinicalNote note_db 20 21 (JNum 1) [''content'' \<mapsto> JStr ''Improving''])) 30 31 (JNum 1) [''content'' \<mapsto> JStr ''Improving'']), snd (updateClinicalNote (snd (updateClinicalNote note_db 20 21 (JNum 1) [''content'' \<mapsto> JStr ''Improving''])) 30 31 (JNum 1) [''content'' \<mapsto> JStr ''Improving'']))"
    by simp
  have tu1: "updateTask sample_db 20 21 (JNum 1) [''status'' \<mapsto> JStr ''completed''] = (fst (updateTask sample_db 20 21 (JNum 1) [''status'' \<mapsto> JStr ''completed'']), snd (updateTask sample_db 20 21 (JNum 1) [''status'' \<mapsto> JStr ''completed'']))"
    by simp
  have tu2: "updateTask (snd (updateTask sample_db 20 21 (JNum 1) [''status'' \<mapsto> JStr ''completed''])) 30 31 (JNum 1) [''priority'' \<mapsto> JStr ''high''] = (fst (updateTask (snd (updateTask sample_db 20 21 (JNum 1) [''status'' \<mapsto> JStr ''completed''])) 30 31 (JNum 1) [''priority'' \<mapsto> JStr ''high'']), snd (updateTask (snd (updateTask sample_db 20 21 (JNum 1) [''status'' \<mapsto> JStr ''completed''])) 30 31 (JNum 1) [''priority'' \<mapsto> JStr ''high'']))"
    by simp
  have tu3: "updateTask (snd (updateTask sample_db 20 21 (JNum 1) [''status'' \<mapsto> JStr ''completed''])) 30 31 (JNum 1) [''status'' \<mapsto> JStr ''completed''] = (fst (updateTask (snd (updateTask sample_db 20 21 (JNum 1) [''status'' \<mapsto> JStr ''completed''])) 30 31 (JNum 1) [''status'' \<mapsto> JStr ''completed'']), snd (updateTask (snd (updateTask sample_db 20 21 (JNum 1) [''status'' \<mapsto> JStr ''completed''])) 30 31 (JNum 1) [''status'' \<mapsto> JStr ''completed'']))"
    by simp
  note g1 = t [THEN conjunct1, THEN mp, OF fp, THEN mp, OF kp1, THEN mp, OF kp2, THEN mp, OF pu1, THEN mp, OF pu2]
  note g2 = t [THEN conjunct2, THEN conjunct1, THEN mp, OF fg, THEN mp, OF kg1, THEN mp, OF kg2, THEN mp, OF gu1, THEN mp, OF gu2, of "JStr ''P20250001''"]
  note g3 = t [THEN conjunct2, THEN conjunct2, THEN conjunct1, THEN mp, OF ft, THEN mp, OF kt1, THEN mp, OF kt2, THEN mp, OF tu1, THEN mp, OF tu2, of "JStr ''P20250001''"]
  note g4 = t [THEN conjunct2, THEN conjunct2, THEN conjunct2, THEN conjunct1, THEN mp, OF pc, THEN mp, OF ph, THEN mp, OF pn, THEN mp, OF ka1, THEN mp, OF ka2, THEN mp, OF au1, THEN mp, OF au2]
  note g5 = t [THEN conjunct2, THEN conjunct2, THEN conjunct2, THEN conjunct2, THEN conjunct1, THEN mp, OF nc, THEN mp, OF nh, THEN mp, OF nn, THEN mp, OF kn1, THEN mp, OF kn2, THEN mp, OF nu1, THEN mp, OF nu2, of "JStr ''P20250001''"]
  note g6 = t [THEN conjunct2, THEN conjunct2, THEN conjunct2, THEN conjunct2, THEN conjunct2, THEN conjunct1, THEN mp, OF kc, THEN mp, OF kh, THEN mp, OF kn, THEN mp, OF kt1, THEN mp, OF kt2, THEN mp, OF tu1, THEN mp, OF tu2, of "JStr ''P20250001''"]
  note g7 = t [THEN conjunct2, THEN conjunct2, THEN conjunct2, THEN conjunct2, THEN conjunct2, THEN conjunct2, THEN conjunct1, THEN mp, OF fp, THEN mp, OF kp1, THEN mp, OF pu1, THEN mp, OF pu3]
  note g8 = t [THEN conjunct2, THEN conjunct2, THEN conjunct2, THEN conjunct2, THEN conjunct2, THEN conjunct2, THEN conjunct2, THEN conjunct1, THEN mp, OF fn, THEN mp, OF kn1, THEN mp, OF nu1, THEN mp, OF nu3]
  note g9 = t [THEN conjunct2, THEN conjunct2, THEN conjunct2, THEN conjunct2, THEN conjunct2, THEN conjunct2, THEN conjunct2, THEN conjunct2, THEN mp, OF ft, THEN mp, OF kt1, THEN mp, OF tu1, THEN mp, OF tu3]
  show ?thesis
    unfolding Let_def
    by (rule conjI [OF g1 conjI [OF g2 conjI [OF g3 conjI [OF g4 conjI [OF g5 conjI [OF g6
          conjI [OF g7 conjI [OF g8 g9]]]]]]]])
qed

text \<open>
  C7 as stated does not hold. The identifier a create returns need not single out the
  record created: \<^verbatim>\<open>createClinicalNote\<close> numbers the new note with the length of the
  sequence plus one, and \<^verbatim>\<open>deletePatient\<close> shortens the sequence. In the store reached by
  two \<^verbatim>\<open>createClinicalNote\<close> calls and the deletion of the first note's patient, the note
  left has the identifier 2 and the next \<^verbatim>\<open>createClinicalNote\<close> returns a note with the
  identifier 2 again. Neither update changes the identifier, and both resolve, with the
  older note of patient \<^verbatim>\<open>P20250001\<close>: the updates through the returned identifier
  are merged into that note, and the final read of the notes of \<^verbatim>\<open>P20250003\<close> returns the
  created note as it was created, with the content \<^verbatim>\<open>New\<close> where the merge has
  \<^verbatim>\<open>Edited\<close>. Last, an update may itself change the identifier (\<^verbatim>\<open>{id: 7}\<close> is spread
  like any other field): the second update through the identifier returned by the create
  is then rejected.
\<close>

theorem updates_reused_note_id_counterexample:
  "reachable gap_db \<and>
   createClinicalNote gap_db 40 41 42 [''patientId'' \<mapsto> JStr ''P20250003'', ''content'' \<mapsto> JStr ''New''] =
     (Resolve [''id'' \<mapsto> JNum 2, ''patientId'' \<mapsto> JStr ''P20250003'', ''content'' \<mapsto> JStr ''New'',
               ''status'' \<mapsto> JStr ''draft'', ''createdAt'' \<mapsto> JDate 40, ''updatedAt'' \<mapsto> JDate 41],
      gap_new_db) \<and>
   keeps_id (JNum 2) [''content'' \<mapsto> JStr ''Edited''] \<and>
   keeps_id (JNum 2) [''status'' \<mapsto> JStr ''final''] \<and>
   fst (updateClinicalNote gap_new_db 50 51 (JNum 2) [''content'' \<mapsto> JStr ''Edited'']) =
     Resolve [''id'' \<mapsto> JNum 2, ''patientId'' \<mapsto> JStr ''P20250001'', ''content'' \<mapsto> JStr ''Edited'',
              ''status'' \<mapsto> JStr ''draft'', ''createdAt'' \<mapsto> JDate 20, ''updatedAt'' \<mapsto> JDate 50] \<and>
   fst (updateClinicalNote
          (snd (updateClinicalNote gap_new_db 50 51 (JNum 2) [''content'' \<mapsto> JStr ''Edited'']))
          60 61 (JNum 2) [''status'' \<mapsto> JStr ''final'']) =
     Resolve [''id'' \<mapsto> JNum 2, ''patientId'' \<mapsto> JStr ''P20250001'', ''content'' \<mapsto> JStr ''Edited'',
              ''status'' \<mapsto> JStr ''final'', ''createdAt'' \<mapsto> JDate 20, ''updatedAt'' \<mapsto> JDate 60] \<and>
   clinicalNotes gap_edited_db =
     [[''id'' \<mapsto> JNum 2, ''patientId'' \<mapsto> JStr ''P20250001'', ''content'' \<mapsto> JStr ''Edited'',
       ''status'' \<mapsto> JStr ''final'', ''createdAt'' \<mapsto> JDate 20, ''updatedAt'' \<mapsto> JDate 60],
      [''id'' \<mapsto> JNum 2, ''patientId'' \<mapsto> JStr ''P20250003'', ''content'' \<mapsto> JStr ''New'',
       ''status'' \<mapsto> JStr ''draft'', ''createdAt'' \<mapsto> JDate 40, ''updatedAt'' \<mapsto> JDate 41]] \<and>
   getClinicalNotesByPatient gap_edited_db (JStr ''P20250003'') =
     (Resolve [[''id'' \<mapsto> JNum 2, ''patientId'' \<mapsto> JStr ''P20250003'', ''content'' \<mapsto> JStr ''New'',
                ''status'' \<mapsto> JStr ''draft'', ''createdAt'' \<mapsto> JDate 40, ''updatedAt'' \<mapsto> JDate 41]],
      gap_edited_db) \<and>
   ([''id'' \<mapsto> JNum 2, ''patientId'' \<mapsto> JStr ''P20250003'', ''content'' \<mapsto> JStr ''New'',
     ''status'' \<mapsto> JStr ''draft'', ''createdAt'' \<mapsto> JDate 40, ''updatedAt'' \<mapsto> JDate 41]
      ++ [''content'' \<mapsto> JStr ''Edited''] ++ [''status'' \<mapsto> JStr ''final'']) ''content'' =
     Some (JStr ''Edited'') \<and>
   \<not> keeps_id (JNum 1) [''id'' \<mapsto> JNum 7] \<and>
   updateClinicalNote
     (snd (updateClinicalNote note_db 20 21 (JNum 1) [''id'' \<mapsto> JNum 7]))
     30 31 (JNum 1) [''status'' \<mapsto> JStr ''final''] =
   (Reject ''Clinical note not found'',
    snd (updateClinicalNote note_db 20 21 (JNum 1) [''id'' \<mapsto> JNum 7]))"
proof -
  have k1: "keeps_id (JNum 2) [''content'' \<mapsto> JStr ''Edited'']"
    by (simp add: keeps_id_def)
  have k2: "keeps_id (JNum 2) [''status'' \<mapsto> JStr ''final'']"
    by (simp add: keeps_id_def)
  have k3: "\<not> keeps_id (JNum 1) [''id'' \<mapsto> JNum 7]"
    by (simp add: keeps_id_def)
  show ?thesis
    by (rule conjI [OF gap_db_reachable conjI [OF gap_create conjI [OF k1 conjI [OF k2
          conjI [OF gap_first_update conjI [OF gap_second_update conjI [OF gap_edited_db_clinicalNotes
          conjI [OF gap_edited_db_read conjI [OF gap_merge_differs conjI [OF k3 renumbered_note_lost]]]]]]]]]])
qed

section \<open>Allergy identifiers\<close>

lemma addAllergy_eq:
  "addAllergy s t3 d =
     (Resolve (([''id'' \<mapsto> JNum (int (length (allergies s)) + 1)] ++ d)(''status'' \<mapsto> JStr ''active'')),
      logAudit (s\<lparr> allergies := allergies s @
                    [([''id'' \<mapsto> JNum (int (length (allergies s)) + 1)] ++ d)(''status'' \<mapsto> JStr ''active'')] \<rparr>)
        t3 ''Allergy''
        (fld (([''id'' \<mapsto> JNum (int (length (allergies s)) + 1)] ++ d)(''status'' \<mapsto> JStr ''active'')) ''id'')
        ''CREATE'' (JStr ''system''))"
  by (simp add: addAllergy_def Let_def)

text \<open>The identifier \<^verbatim>\<open>addAllergy\<close> assigns is the length of the sequence plus one.\<close>

lemma addAllergy_next_id:
  "d ''id'' = None \<Longrightarrow>
   \<exists>r. fst (addAllergy s t3 d) = Resolve r \<and> fld r ''id'' = JNum (int (length (allergies s)) + 1)"
  by (simp add: addAllergy_eq fld_def map_add_def)

lemma first_add_index:
  "findIndex (has_id (JNum 1)) (allergies (snd (addAllergy init_db 10 pollen))) = Some 0"
  by (simp add: addAllergy_eq logAudit_def init_db_def has_id_def fld_def)

lemma after_remove_ids:
  "map (\<lambda>a. fld a ''id'')
     (allergies (snd (removeAllergy (snd (addAllergy init_db 10 pollen)) 20 (JNum 1)))) = [JNum 2, JNum 3, JNum 4]"
  by (simp add: removeAllergy_found [OF first_add_index] logAudit_def splice1_def)
     (simp add: addAllergy_eq logAudit_def init_db_def pollen_def fld_def)

lemma after_remove_length:
  "length (allergies (snd (removeAllergy (snd (addAllergy init_db 10 pollen)) 20 (JNum 1)))) = 3"
  using arg_cong [OF after_remove_ids, of length] by simp

lemma readd_db_reachable: "reachable readd_db"
  unfolding readd_db_def
  by (intro r_addAllergy r_removeAllergy r_init)

text \<open>
  C2 says that identifiers are unique within an entity type in every reachable store, and
  that allergy identifiers keep increasing across \<^verbatim>\<open>addAllergy\<close> calls also after a removal.
  The code assigns the length of the sequence plus one, which a removal lowers. On the
  initial store (allergies 1, 2, 3): \<^verbatim>\<open>addAllergy\<close> assigns 4, \<^verbatim>\<open>removeAllergy(1)\<close> leaves
  2, 3, 4, and the next \<^verbatim>\<open>addAllergy\<close> assigns 4 again. The store reached holds two
  allergies with the identifier 4, and the identifier assigned last is not greater than the
  one assigned before.
\<close>

theorem allergy_id_reused_after_removal:
  "reachable readd_db \<and>
   (\<exists>r. fst (addAllergy (snd (removeAllergy (snd (addAllergy init_db 10 pollen)) 20 (JNum 1))) 30 dust) = Resolve r \<and>
        dust ''id'' = None \<and> fld r ''id'' = JNum 4) \<and>
   map (\<lambda>a. fld a ''id'') (allergies readd_db) = [JNum 2, JNum 3, JNum 4, JNum 4] \<and>
   \<not> distinct (map (\<lambda>a. fld a ''id'') (allergies readd_db))"
proof -
  let ?s = "snd (removeAllergy (snd (addAllergy init_db 10 pollen)) 20 (JNum 1))"
  note l = after_remove_length
  have r: "\<exists>r. fst (addAllergy ?s 30 dust) = Resolve r \<and> dust ''id'' = None \<and> fld r ''id'' = JNum 4"
    by (simp add: addAllergy_eq [of ?s] l) (simp add: dust_def fld_def map_add_def)
  have m: "map (\<lambda>a. fld a ''id'') (allergies readd_db) = [JNum 2, JNum 3, JNum 4, JNum 4]"
    unfolding readd_db_def
    by (simp add: addAllergy_eq [of ?s] logAudit_def after_remove_ids l) (simp add: dust_def fld_def map_add_def)
  have d: "\<not> distinct (map (\<lambda>a. fld a ''id'') (allergies readd_db))"
    by (simp add: m)
  from readd_db_reachable r m d show ?thesis
    by (intro conjI)
qed

end
